theory Spec2Isabelle
  imports Main
begin

section \<open>Text primitives of the Python runtime\<close>

text \<open>
  The three scripts (\<^verbatim>\<open>home_cotent_status.py\<close>, \<^verbatim>\<open>product_content_status.py\<close>,
  \<^verbatim>\<open>footer_content_status.py\<close>) work on Python \<^verbatim>\<open>str\<close> values. A \<^verbatim>\<open>str\<close> is a sequence
  of Unicode code points and is modelled as the list of their numbers; \<open>lit\<close> turns an
  ASCII literal into such a list. The definitions of this section embed the library
  operations the scripts call: \<^verbatim>\<open>str.strip\<close>, \<^verbatim>\<open>str.replace\<close>, \<^verbatim>\<open>str.join\<close>, the operator
  \<^verbatim>\<open>in\<close> on strings, and the regular expressions handed to \<^verbatim>\<open>re.sub\<close> and \<^verbatim>\<open>re.findall\<close>.
\<close>

type_synonym str = "nat list"

definition lit :: "string \<Rightarrow> str" where
  "lit s = map of_char s"

definition dquote :: nat where
  "dquote = 34"

definition squote :: nat where
  "squote = 39"

definition backslash :: nat where
  "backslash = 92"

definition newline :: nat where
  "newline = 10"

definition lt_char :: nat where
  "lt_char = 60"

definition gt_char :: nat where
  "gt_char = 62"

text \<open>
  Whitespace as \<^verbatim>\<open>str.isspace\<close>, \<^verbatim>\<open>str.strip\<close> and the class \<^verbatim>\<open>\s\<close> of \<^verbatim>\<open>re\<close> see it on
  \<^verbatim>\<open>str\<close> patterns (CPython 3): U+0009 to U+000D, U+001C to U+0020, U+0085, U+00A0,
  U+1680, U+2000 to U+200A, U+2028, U+2029, U+202F, U+205F and U+3000.
\<close>

definition isspace :: "nat \<Rightarrow> bool" where
  "isspace c =
     ((9 \<le> c \<and> c \<le> 13) \<or> (28 \<le> c \<and> c \<le> 32) \<or> c = 133 \<or> c = 160 \<or> c = 5760
      \<or> (8192 \<le> c \<and> c \<le> 8202) \<or> c = 8232 \<or> c = 8233 \<or> c = 8239 \<or> c = 8287
      \<or> c = 12288)"

definition lstrip :: "str \<Rightarrow> str" where
  "lstrip s = dropWhile isspace s"

definition rstrip :: "str \<Rightarrow> str" where
  "rstrip s = rev (dropWhile isspace (rev s))"

definition strip :: "str \<Rightarrow> str" where
  "strip s = rstrip (lstrip s)"

text \<open>\<^verbatim>\<open>s.startswith(p)\<close>, used below to test for a match at the current position.\<close>

definition startswith :: "str \<Rightarrow> str \<Rightarrow> bool" where
  "startswith s p = (take (length p) s = p)"

text \<open>\<^verbatim>\<open>sub in s\<close>: some position of \<open>s\<close> starts an occurrence of \<open>sub\<close>. The empty string
  occurs in every string.\<close>

fun contains :: "str \<Rightarrow> str \<Rightarrow> bool" where
  "contains [] sub = (sub = [])"
| "contains (c # cs) sub = (startswith (c # cs) sub \<or> contains cs sub)"

text \<open>
  \<^verbatim>\<open>s.replace(old, new)\<close> for a non-empty \<open>old\<close>: scan from the left; where \<open>old\<close> starts,
  emit \<open>new\<close> and go on after the occurrence; elsewhere copy one character.
\<close>

function replace_from :: "str \<Rightarrow> str \<Rightarrow> str \<Rightarrow> str" where
  "replace_from old new [] = []"
| "replace_from old new (c # cs) =
     (if old \<noteq> [] \<and> startswith (c # cs) old
      then new @ replace_from old new (drop (length old) (c # cs))
      else c # replace_from old new cs)"
  by pat_completeness auto
termination
  by (relation "measure (\<lambda>(old, new, s). length s)") (auto simp: neq_Nil_conv)

text \<open>With an empty \<open>old\<close>, Python puts \<open>new\<close> before every character and at the end.\<close>

definition str_replace :: "str \<Rightarrow> str \<Rightarrow> str \<Rightarrow> str" where
  "str_replace s old new =
     (if old = [] then new @ concat (map (\<lambda>c. c # new) s) else replace_from old new s)"

text \<open>
  \<^verbatim>\<open>re.sub(r'```json\s*', '', s)\<close>: every occurrence of the opening fence, with the
  whitespace that follows it, is deleted; the scan goes on after the match.
\<close>

function sub_fence_json :: "str \<Rightarrow> str" where
  "sub_fence_json [] = []"
| "sub_fence_json (c # cs) =
     (if startswith (c # cs) (lit ''```json'')
      then sub_fence_json (dropWhile isspace (drop 7 (c # cs)))
      else c # sub_fence_json cs)"
  by pat_completeness auto
termination
  by (relation "measure length")
     (auto simp: less_Suc_eq_le intro: order_trans [OF length_dropWhile_le])

text \<open>
  \<^verbatim>\<open>re.sub(r'```\s*$', '', s)\<close>: the pattern matches at the leftmost position where three
  backticks are followed by nothing but whitespace up to the end of the text (\<^verbatim>\<open>$\<close> also
  matches before a final line feed, which \<^verbatim>\<open>\s*\<close> has then consumed); the match runs to
  the end, so everything from that position on is deleted.
\<close>

fun sub_fence_end :: "str \<Rightarrow> str" where
  "sub_fence_end [] = []"
| "sub_fence_end (c # cs) =
     (if startswith (c # cs) (lit ''```'') \<and> list_all isspace (drop 3 (c # cs))
      then [] else c # sub_fence_end cs)"

text \<open>
  \<^verbatim>\<open>re.sub(r"(?<!\\)'(?=([^']*'[^']*')*[^']*$)", "\\'", s)\<close> of the product script: a
  single quote is matched when the character before it is not a backslash (look-behind,
  on the original text) and the rest of the text holds an even number of single quotes
  (look-ahead: pairs of quotes, then no quote up to the end). Each match is replaced by a
  backslash and the quote. \<open>prev\<close> is the character before the current position.
\<close>

fun escape_quotes_from :: "nat option \<Rightarrow> str \<Rightarrow> str" where
  "escape_quotes_from prev [] = []"
| "escape_quotes_from prev (c # cs) =
     (if c = squote \<and> prev \<noteq> Some backslash \<and> even (count_list cs squote)
      then backslash # squote # escape_quotes_from (Some c) cs
      else c # escape_quotes_from (Some c) cs)"

definition escape_quotes :: "str \<Rightarrow> str" where
  "escape_quotes s = escape_quotes_from None s"

text \<open>
  \<^verbatim>\<open>re.findall(r'<[^>]+>', s)\<close>: the list of the non-overlapping matches, from the left. A
  match starts at a \<^verbatim>\<open><\<close>, takes every character up to the next \<^verbatim>\<open>>\<close> (at least one, and
  \<^verbatim>\<open><\<close> itself is allowed among them) and that \<^verbatim>\<open>>\<close>.
\<close>

function findall_tags :: "str \<Rightarrow> str list" where
  "findall_tags [] = []"
| "findall_tags (c # cs) =
     (let body = takeWhile (\<lambda>x. x \<noteq> gt_char) cs;
          rest = dropWhile (\<lambda>x. x \<noteq> gt_char) cs
      in if c = lt_char \<and> body \<noteq> [] \<and> rest \<noteq> []
         then (c # body @ [gt_char]) # findall_tags (tl rest)
         else findall_tags cs)"
  by pat_completeness auto
termination
proof (relation "measure length")
  fix c :: nat and cs body rest :: str
  assume "rest = dropWhile (\<lambda>x. x \<noteq> gt_char) cs"
  then have "length (tl rest) \<le> length cs"
    using length_dropWhile_le [of "\<lambda>x. x \<noteq> gt_char" cs] by simp
  then show "(tl rest, c # cs) \<in> measure length"
    by simp
qed simp_all

text \<open>\<^verbatim>\<open>sep.join(xs)\<close>.\<close>

fun join :: "str \<Rightarrow> str list \<Rightarrow> str" where
  "join sep [] = []"
| "join sep [x] = x"
| "join sep (x # y # ys) = x @ sep @ join sep (y # ys)"

section \<open>The response sanitizer\<close>

text \<open>
  The literal of the last replacement. In all three scripts the two lines after the fence
  removal are written with plain ASCII quotes. The first,
  \<^verbatim>\<open>.replace('"', '"').replace('"', '"')\<close>, replaces the double quote by itself. In the
  second, the three quotes open a triple-quoted literal that ends at the next three
  quotes, so the line is the single call \<^verbatim>\<open>.replace(X, "'")\<close> with \<open>X\<close> the 15 characters
  \<^verbatim>\<open>, "'").replace(\<close>.
\<close>

definition triple_quoted :: str where
  "triple_quoted = lit '', '' @ [dquote, squote, dquote] @ lit '').replace(''"

text \<open>\<^verbatim>\<open>clean_json_response\<close> of the home script (the footer script has the same body).\<close>

definition clean_json_response :: "str \<Rightarrow> str" where
  "clean_json_response response_text =
     (let response_text = sub_fence_json response_text;
          response_text = sub_fence_end response_text;
          response_text = str_replace (str_replace response_text [dquote] [dquote]) [dquote] [dquote];
          response_text = str_replace response_text triple_quoted [squote]
      in strip response_text)"

text \<open>\<^verbatim>\<open>clean_json_response\<close> of the product script, which escapes single quotes before
  the last replacement.\<close>

definition clean_json_response_product :: "str \<Rightarrow> str" where
  "clean_json_response_product response_text =
     (let response_text = sub_fence_json response_text;
          response_text = sub_fence_end response_text;
          response_text = str_replace (str_replace response_text [dquote] [dquote]) [dquote] [dquote];
          response_text = escape_quotes response_text;
          response_text = str_replace response_text triple_quoted [squote]
      in strip response_text)"

section \<open>The outside world: completion service and target file\<close>

text \<open>
  Every exception of a run is a value of \<open>error\<close>. \<open>APIError\<close> stands for whatever the
  body of a \<^verbatim>\<open>try\<close> around \<^verbatim>\<open>client.chat.completions.create\<close> raises (its text tells two
  exceptions apart); \<open>IOError\<close> for an \<^verbatim>\<open>OSError\<close> of \<^verbatim>\<open>open\<close>, of the read or of the write;
  \<open>Failed\<close> for the \<^verbatim>\<open>raise Exception("Failed to generate valid ... JSON after retries.")\<close>
  of the product script; the others are the Python exceptions of the same name.
\<close>

datatype error =
    APIError str
  | IOError
  | UnicodeDecodeError
  | UnicodeEncodeError
  | JSONDecodeError
  | KeyError str
  | TypeError
  | Failed str

text \<open>The keyword arguments of one \<^verbatim>\<open>client.chat.completions.create\<close> call; the single
  message has role \<^verbatim>\<open>user\<close>. The temperature is kept in tenths (\<open>7\<close> for \<^verbatim>\<open>0.7\<close>).\<close>

record request =
  req_model :: str
  req_content :: str
  req_temperature :: nat
  req_max_tokens :: "nat option"

text \<open>
  The completion service is a parameter of the model: given every request sent so far (the
  current one last), it either raises or yields the text
  \<^verbatim>\<open>response.choices[0].message.content\<close>. Nothing is assumed about it.
\<close>

type_synonym api = "request list \<Rightarrow> error + str"

text \<open>
  A file of the file system. \<open>data\<close> is the text its bytes decode to under UTF-8, with the
  line ends as they are stored. The other fields are what the environment does to the
  operations of the scripts, and nothing is assumed about them: \<open>read_fault\<close> is the
  exception that \<^verbatim>\<open>open(path, 'r', encoding='utf-8')\<close> or \<^verbatim>\<open>f.read()\<close> raises, if any (an
  \<open>IOError\<close> for a missing permission, a \<open>UnicodeDecodeError\<close> for bytes that are not
  UTF-8); \<open>open_fault\<close> is the exception that \<^verbatim>\<open>open(path, 'w', encoding='utf-8')\<close> raises,
  if any, the file being then left as it is; \<open>write_fault t\<close>, for the text \<open>t\<close> handed to
  the device, is the exception that \<^verbatim>\<open>f.write\<close> or the flush at the end of the \<^verbatim>\<open>with\<close>
  block raises, if any (a full disk, a size limit), with the text that is then left in
  the file.
\<close>

record text_file =
  data :: str
  read_fault :: "error option"
  open_fault :: "error option"
  write_fault :: "str \<Rightarrow> (error \<times> str) option"

text \<open>
  The state a run threads through: the requests sent to the service, the prompts handed to
  \<^verbatim>\<open>prompt_gpt\<close> (a trace kept to count its invocations; the scripts have no such variable),
  the files by path, and the line separator \<^verbatim>\<open>os.linesep\<close> of the platform, which no
  operation changes. Output printed with \<^verbatim>\<open>print\<close> is not modelled.
\<close>

record state =
  requests :: "request list"
  client_calls :: "str list"
  files :: "str \<rightharpoonup> text_file"
  linesep :: str

definition create :: "api \<Rightarrow> request \<Rightarrow> state \<Rightarrow> (error + str) \<times> state" where
  "create api req s =
     (let s' = s\<lparr>requests := requests s @ [req]\<rparr> in (api (requests s'), s'))"

text \<open>
  A file opened in text mode without a \<^verbatim>\<open>newline\<close> argument is read with universal
  newlines: a carriage return followed by a line feed, and a carriage return alone, come
  out as one line feed.
\<close>

definition carriage_return :: nat where
  "carriage_return = 13"

function universal_newlines :: "str \<Rightarrow> str" where
  "universal_newlines [] = []"
| "universal_newlines (c # cs) =
     (if c = carriage_return
      then newline # universal_newlines (if startswith cs [newline] then drop 1 cs else cs)
      else c # universal_newlines cs)"
  by pat_completeness auto
termination
  by (relation "measure length") auto

text \<open>On writing, such a file turns every line feed into \<^verbatim>\<open>os.linesep\<close>.\<close>

definition write_newlines :: "str \<Rightarrow> str \<Rightarrow> str" where
  "write_newlines sep d = concat (map (\<lambda>c. if c = newline then sep else [c]) d)"

text \<open>The UTF-8 codec encodes every code point but the surrogates, U+D800 to U+DFFF.\<close>

definition encodable :: "str \<Rightarrow> bool" where
  "encodable d = list_all (\<lambda>c. c < 55296 \<or> 57343 < c) d"

text \<open>
  \<^verbatim>\<open>with open(file_path, 'r', encoding='utf-8') as f: data = f.read()\<close>. A missing file
  raises (\<^verbatim>\<open>FileNotFoundError\<close>, an \<^verbatim>\<open>OSError\<close>).
\<close>

definition read_file :: "str \<Rightarrow> state \<Rightarrow> error + str" where
  "read_file file_path s =
     (case files s file_path of
        None \<Rightarrow> Inl IOError
      | Some f \<Rightarrow>
          (case read_fault f of
             Some e \<Rightarrow> Inl e
           | None \<Rightarrow> Inr (universal_newlines (data f))))"

text \<open>
  \<^verbatim>\<open>with open(file_path, 'w', encoding='utf-8') as f: f.write(data)\<close>. Opening for writing
  creates a missing file and empties an existing one; when it raises, the file is as it
  was. \<^verbatim>\<open>f.write\<close> encodes the whole text before it hands anything on, so a text with a
  surrogate raises and leaves the file empty. Otherwise the text goes to the device, and a
  failure there leaves in the file what the environment says. \<open>store\<close> puts a file at its
  path.
\<close>

definition new_file :: text_file where
  "new_file = \<lparr>data = [], read_fault = None, open_fault = None, write_fault = (\<lambda>t. None)\<rparr>"

definition store :: "str \<Rightarrow> text_file \<Rightarrow> state \<Rightarrow> state" where
  "store file_path f s = s\<lparr>files := (files s)(file_path \<mapsto> f)\<rparr>"

definition write_file :: "str \<Rightarrow> str \<Rightarrow> state \<Rightarrow> (error + unit) \<times> state" where
  "write_file file_path d s =
     (let f = (case files s file_path of None \<Rightarrow> new_file | Some f \<Rightarrow> f) in
      case open_fault f of
        Some e \<Rightarrow> (Inl e, s)
      | None \<Rightarrow>
          if \<not> encodable d then (Inl UnicodeEncodeError, store file_path (f\<lparr>data := []\<rparr>) s)
          else
            (case write_fault f (write_newlines (linesep s) d) of
               Some (e, left) \<Rightarrow> (Inl e, store file_path (f\<lparr>data := left\<rparr>) s)
             | None \<Rightarrow> (Inr (), store file_path (f\<lparr>data := write_newlines (linesep s) d\<rparr>) s)))"

section \<open>The text-generation client\<close>

text \<open>
  \<^verbatim>\<open>prompt_gpt(prompt, max_retries=3, max_tokens=300)\<close>. No call site of the three scripts
  passes \<^verbatim>\<open>max_retries\<close>, so the default is a constant here. The home and footer scripts
  have no \<^verbatim>\<open>max_tokens\<close> parameter and always send 300.
\<close>

definition max_retries :: nat where
  "max_retries = 3"

definition client_request :: "str \<Rightarrow> nat \<Rightarrow> request" where
  "client_request prompt max_tokens =
     \<lparr>req_model = lit ''gpt-4o-mini'', req_content = prompt,
      req_temperature = 7, req_max_tokens = Some max_tokens\<rparr>"

text \<open>
  The body of \<^verbatim>\<open>for attempt in range(max_retries)\<close> from \<open>attempt\<close> on. The body runs for
  \<open>attempt < max_retries\<close> only, where \<open>max_retries \<le> attempt + 1\<close> is the source's
  \<^verbatim>\<open>attempt == max_retries - 1\<close>.
\<close>

function prompt_gpt_loop :: "api \<Rightarrow> str \<Rightarrow> nat \<Rightarrow> nat \<Rightarrow> state \<Rightarrow> (error + str) \<times> state" where
  "prompt_gpt_loop api prompt max_tokens attempt s =
     (case create api (client_request prompt max_tokens) s of
        (Inr content, s1) \<Rightarrow> (Inr (strip content), s1)
      | (Inl e, s1) \<Rightarrow>
          if max_retries \<le> attempt + 1 then (Inl e, s1)
          else prompt_gpt_loop api prompt max_tokens (attempt + 1) s1)"
  by pat_completeness auto
termination
  by (relation "measure (\<lambda>(api, prompt, max_tokens, attempt, s). max_retries - attempt)") auto

definition prompt_gpt :: "api \<Rightarrow> str \<Rightarrow> nat \<Rightarrow> state \<Rightarrow> (error + str) \<times> state" where
  "prompt_gpt api prompt max_tokens s =
     prompt_gpt_loop api prompt max_tokens 0 (s\<lparr>client_calls := client_calls s @ [prompt]\<rparr>)"

section \<open>The JSON recovery step\<close>

text \<open>The f-string of \<^verbatim>\<open>fix_json_with_gpt\<close> in the home and footer scripts.\<close>

definition fix_prompt :: "str \<Rightarrow> str \<Rightarrow> str" where
  "fix_prompt broken_json context =
     lit ''Fix this broken JSON and return ONLY valid JSON (no explanations, no markdown):''
     @ [newline, newline] @ lit ''Context: '' @ context
     @ [newline] @ lit ''Broken JSON: '' @ broken_json
     @ [newline, newline] @ lit ''Rules:'' @ [newline]
     @ lit ''- All keys must have double quotes'' @ [newline]
     @ lit ''- All string values must have double quotes  '' @ [newline]
     @ lit ''- No trailing commas'' @ [newline]
     @ lit ''- Escape quotes inside strings with backslashes'' @ [newline]
     @ lit ''- Return only the fixed JSON''"

definition fix_request :: "str \<Rightarrow> nat \<Rightarrow> request" where
  "fix_request prompt max_tokens =
     \<lparr>req_model = lit ''gpt-4o-mini'', req_content = prompt,
      req_temperature = 1, req_max_tokens = Some max_tokens\<rparr>"

text \<open>\<^verbatim>\<open>fix_json_with_gpt(broken_json, context)\<close> of the home and footer scripts. The bare
  \<^verbatim>\<open>except:\<close> turns every exception of the call into the return of \<open>broken_json\<close>.\<close>

definition fix_json_with_gpt :: "api \<Rightarrow> str \<Rightarrow> str \<Rightarrow> state \<Rightarrow> str \<times> state" where
  "fix_json_with_gpt api broken_json context s =
     (case create api (fix_request (fix_prompt broken_json context) 500) s of
        (Inr content, s1) \<Rightarrow> (clean_json_response (strip content), s1)
      | (Inl e, s1) \<Rightarrow> (broken_json, s1))"

text \<open>The f-string of the product script; \<open>expected_keys\<close> is a list or \<^verbatim>\<open>None\<close>, and an
  empty list is false as well.\<close>

definition fix_prompt_product :: "str \<Rightarrow> str \<Rightarrow> str list option \<Rightarrow> str" where
  "fix_prompt_product broken_json context expected_keys =
     lit ''Fix this broken JSON and return ONLY valid JSON (no explanations, no markdown):''
     @ [newline, newline] @ lit ''Context: '' @ context
     @ [newline] @ lit ''Broken JSON: '' @ broken_json
     @ [newline, newline] @ lit ''Rules:'' @ [newline]
     @ lit ''- All keys must have double quotes'' @ [newline]
     @ lit ''- All string values must have double quotes'' @ [newline]
     @ lit ''- For HTML attributes (e.g., href, title), use single quotes (e.g., href=''
     @ [squote] @ lit ''/path'' @ [squote] @ lit '')'' @ [newline]
     @ lit ''- Escape quotes inside strings with backslashes'' @ [newline]
     @ lit ''- Ensure proper string termination to avoid unterminated string errors'' @ [newline]
     @ lit ''- No trailing commas'' @ [newline]
     @ lit ''- Ensure ALL the following keys are included: ''
     @ (case expected_keys of
          None \<Rightarrow> lit ''None specified''
        | Some keys \<Rightarrow> if keys = [] then lit ''None specified'' else join (lit '', '') keys)
     @ [newline] @ lit ''- If a key is missing, provide a default value relevant to the context:''
     @ [newline] @ lit ''  - For HTML fields, use '' @ [squote] @ lit ''<p>Contenu par d''
     @ [8730, 169] @ lit ''faut</p>'' @ [squote, newline]
     @ lit ''  - For raw text fields (e.g., head_text_lumin_hero_8jr4ii, text_264e37ac, text_74e17b96, text_popup_DVDmRD, stock-related texts, button texts), use ''
     @ [squote] @ lit ''Texte par d'' @ [8730, 169] @ lit ''faut'' @ [squote, newline]
     @ lit ''- Return only the fixed JSON''"

text \<open>\<^verbatim>\<open>fix_json_with_gpt(broken_json, context, expected_keys=None)\<close> of the product
  script; \<^verbatim>\<open>except Exception\<close> prints the exception and returns \<open>broken_json\<close>.\<close>

definition fix_json_with_gpt_product ::
  "api \<Rightarrow> str \<Rightarrow> str \<Rightarrow> str list option \<Rightarrow> state \<Rightarrow> str \<times> state" where
  "fix_json_with_gpt_product api broken_json context expected_keys s =
     (case create api (fix_request (fix_prompt_product broken_json context expected_keys) 2000) s of
        (Inr content, s1) \<Rightarrow> (clean_json_response_product (strip content), s1)
      | (Inl e, s1) \<Rightarrow> (broken_json, s1))"

section \<open>Translation\<close>

definition translate_request :: "str \<Rightarrow> request" where
  "translate_request prompt =
     \<lparr>req_model = lit ''gpt-4o-mini'', req_content = prompt,
      req_temperature = 3, req_max_tokens = None\<rparr>"

text \<open>The f-string of \<^verbatim>\<open>translate_text\<close>.\<close>

definition translate_prompt :: "str \<Rightarrow> str \<Rightarrow> str" where
  "translate_prompt text target_language =
     lit ''Translate to '' @ target_language
     @ lit ''. Return only the translation, no explanations: '' @ text"

text \<open>\<^verbatim>\<open>translate_text(text, target_language)\<close>, the same in the three scripts: one call of
  the service, outside \<^verbatim>\<open>prompt_gpt\<close>; an exception is printed and \<open>text\<close> is returned.\<close>

definition translate_text :: "api \<Rightarrow> str \<Rightarrow> str \<Rightarrow> state \<Rightarrow> str \<times> state" where
  "translate_text api text target_language s =
     (let prompt = translate_prompt text target_language
      in case create api (translate_request prompt) s of
           (Inr content, s1) \<Rightarrow> (str_replace (strip content) [dquote] [], s1)
         | (Inl e, s1) \<Rightarrow> (text, s1))"

section \<open>Placeholder substitution\<close>

text \<open>
  What \<^verbatim>\<open>json.loads\<close> returns and the scripts hand on as \<^verbatim>\<open>content\<close>: a \<^verbatim>\<open>dict\<close> (as the
  list of its items), a \<^verbatim>\<open>list\<close>, a \<^verbatim>\<open>str\<close>, a number (its literal), a truth value or
  \<^verbatim>\<open>None\<close>. The parser itself is a parameter of the orchestration below: \<open>loads t\<close> is
  \<open>None\<close> where \<^verbatim>\<open>json.loads(t)\<close> raises.
\<close>

datatype json =
    JObject "(str \<times> json) list"
  | JArray "json list"
  | JString str
  | JNumber str
  | JBool bool
  | JNull

type_synonym loads = "str \<Rightarrow> json option"

text \<open>\<^verbatim>\<open>value[key]\<close> with a string key: a \<^verbatim>\<open>KeyError\<close> on a \<^verbatim>\<open>dict\<close> without the key, a
  \<^verbatim>\<open>TypeError\<close> on everything that is not a \<^verbatim>\<open>dict\<close>.\<close>

fun subscript :: "json \<Rightarrow> str \<Rightarrow> error + json" where
  "subscript (JObject items) key =
     (case map_of items key of None \<Rightarrow> Inl (KeyError key) | Some v \<Rightarrow> Inr v)"
| "subscript v key = Inl TypeError"

text \<open>\<^verbatim>\<open>value[k1][k2]...\<close>, from the left.\<close>

fun subscripts :: "json \<Rightarrow> str list \<Rightarrow> error + json" where
  "subscripts v [] = Inr v"
| "subscripts v (key # keys) =
     (case subscript v key of Inl e \<Rightarrow> Inl e | Inr v' \<Rightarrow> subscripts v' keys)"

text \<open>\<^verbatim>\<open>data.replace(placeholder, content)\<close> raises a \<^verbatim>\<open>TypeError\<close> unless \<open>content\<close> is a
  \<^verbatim>\<open>str\<close>.\<close>

fun data_replace :: "str \<Rightarrow> str \<Rightarrow> json \<Rightarrow> error + str" where
  "data_replace d placeholder (JString content) = Inr (str_replace d placeholder content)"
| "data_replace d placeholder v = Inl TypeError"

text \<open>\<^verbatim>\<open>replace_in_file(file_path, placeholder, content)\<close> of the home and footer scripts:
  read, replace, write back; nothing is caught, so an exception leaves the state as the
  failing operation left it.\<close>

definition replace_in_file :: "str \<Rightarrow> str \<Rightarrow> json \<Rightarrow> state \<Rightarrow> (error + unit) \<times> state" where
  "replace_in_file file_path placeholder content s =
     (case read_file file_path s of
        Inl e \<Rightarrow> (Inl e, s)
      | Inr d \<Rightarrow>
          (case data_replace d placeholder content of
             Inl e \<Rightarrow> (Inl e, s)
           | Inr d' \<Rightarrow> write_file file_path d' s))"

text \<open>
  \<^verbatim>\<open>replace_in_file\<close> of the product script: the whole body is inside
  \<^verbatim>\<open>try: ... except Exception as e: print(...)\<close>, the file is written only
  \<^verbatim>\<open>if placeholder in data\<close>, and the function always returns normally, with the state as
  the last operation left it.
\<close>

definition replace_in_file_product :: "str \<Rightarrow> str \<Rightarrow> json \<Rightarrow> state \<Rightarrow> state" where
  "replace_in_file_product file_path placeholder content s =
     (case read_file file_path s of
        Inl e \<Rightarrow> s
      | Inr d \<Rightarrow>
          if contains d placeholder then
            (case data_replace d placeholder content of
               Inl e \<Rightarrow> s
             | Inr d' \<Rightarrow> snd (write_file file_path d' s))
          else s)"

section \<open>The format-preserving generator\<close>

text \<open>The test \<^verbatim>\<open>expected_format and "<" in expected_format\<close>: \<^verbatim>\<open>None\<close> and the empty
  string are false.\<close>

definition wants_html :: "str option \<Rightarrow> bool" where
  "wants_html expected_format =
     (case expected_format of
        None \<Rightarrow> False
      | Some f \<Rightarrow> f \<noteq> [] \<and> contains f [lt_char])"

definition validate_html_format :: "str \<Rightarrow> str option \<Rightarrow> bool" where
  "validate_html_format text expected_format =
     (case expected_format of
        None \<Rightarrow> True
      | Some f \<Rightarrow>
          if wants_html expected_format then
            (let original_tags = findall_tags f;
                 result_tags = findall_tags text
             in length original_tags \<le> length result_tags)
          else True)"

text \<open>The body of \<^verbatim>\<open>for attempt in range(3)\<close> of \<^verbatim>\<open>generate_with_format_validation\<close> from
  \<open>attempt\<close> on, and the \<^verbatim>\<open>return result\<close> after the loop.\<close>

definition corrective :: str where
  "corrective =
     [newline, newline]
     @ lit ''Please maintain the HTML tags structure exactly as shown in the example.''"

function generate_loop ::
  "api \<Rightarrow> str \<Rightarrow> str option \<Rightarrow> nat \<Rightarrow> nat \<Rightarrow> state \<Rightarrow> (error + str) \<times> state" where
  "generate_loop api prompt expected_format max_tokens attempt s =
     (case prompt_gpt api prompt max_tokens s of
        (Inl e, s1) \<Rightarrow> (Inl e, s1)
      | (Inr result, s1) \<Rightarrow>
          if validate_html_format result expected_format then (Inr result, s1)
          else if attempt + 1 < 3 then
            generate_loop api (prompt @ corrective) expected_format max_tokens (attempt + 1) s1
          else (Inr result, s1))"
  by pat_completeness auto
termination
  by (relation "measure (\<lambda>(api, prompt, expected_format, max_tokens, attempt, s). 3 - attempt)") auto

text \<open>\<^verbatim>\<open>generate_with_format_validation(prompt, expected_format=None, max_tokens=300)\<close>; the
  home and footer scripts have no \<^verbatim>\<open>max_tokens\<close> and use the client's 300.\<close>

definition generate_with_format_validation ::
  "api \<Rightarrow> str \<Rightarrow> str option \<Rightarrow> nat \<Rightarrow> state \<Rightarrow> (error + str) \<times> state" where
  "generate_with_format_validation api prompt expected_format max_tokens s =
     (let prompt =
        (case expected_format of
           None \<Rightarrow> prompt
         | Some f \<Rightarrow>
             if wants_html expected_format
             then prompt @ [newline, newline]
                    @ lit ''IMPORTANT: Maintain the exact HTML structure from this example: '' @ f
             else prompt)
      in generate_loop api prompt expected_format max_tokens 0 s)"

section \<open>Page orchestration: home and footer\<close>

text \<open>
  The orchestration functions are straight-line code: the same few statements, repeated
  per content unit with other literals. The model keeps the statements once, as functions
  over a unit, and the literals as lists in the source's order. The prompt texts are the
  parameter \<open>render\<close>: \<open>render name\<close> is what the prompt function \<open>name\<close> returns for the
  brand name, product title, product description and language of the run. The path of
  the target file comes from the environment and is a parameter, too.
\<close>

text \<open>One translation: \<^verbatim>\<open>translated = translate_text(text, language)\<close>, then
  \<^verbatim>\<open>replace_in_file(PATH, placeholder, translated)\<close> for each placeholder it fills.\<close>

fun replace_tokens :: "str \<Rightarrow> str list \<Rightarrow> json \<Rightarrow> state \<Rightarrow> (error + unit) \<times> state" where
  "replace_tokens file_path [] content s = (Inr (), s)"
| "replace_tokens file_path (placeholder # placeholders) content s =
     (case replace_in_file file_path placeholder content s of
        (Inl e, s1) \<Rightarrow> (Inl e, s1)
      | (Inr u, s1) \<Rightarrow> replace_tokens file_path placeholders content s1)"

definition translation_unit ::
  "api \<Rightarrow> str \<Rightarrow> str \<Rightarrow> str \<times> str list \<Rightarrow> state \<Rightarrow> (error + unit) \<times> state" where
  "translation_unit api file_path language unit s =
     (case translate_text api (fst unit) language s of
        (translated, s1) \<Rightarrow> replace_tokens file_path (snd unit) (JString translated) s1)"

fun run_translations ::
  "api \<Rightarrow> str \<Rightarrow> str \<Rightarrow> (str \<times> str list) list \<Rightarrow> state \<Rightarrow> (error + unit) \<times> state" where
  "run_translations api file_path language [] s = (Inr (), s)"
| "run_translations api file_path language (unit # units) s =
     (case translation_unit api file_path language unit s of
        (Inl e, s1) \<Rightarrow> (Inl e, s1)
      | (Inr u, s1) \<Rightarrow> run_translations api file_path language units s1)"

text \<open>How a unit obtains its text: \<^verbatim>\<open>prompt_gpt(prompt)\<close> or
  \<^verbatim>\<open>generate_with_format_validation(prompt, expected_format)\<close>.\<close>

datatype generator = Client | Validated str

definition generate :: "api \<Rightarrow> generator \<Rightarrow> str \<Rightarrow> state \<Rightarrow> (error + str) \<times> state" where
  "generate api g prompt s =
     (case g of
        Client \<Rightarrow> prompt_gpt api prompt 300 s
      | Validated expected_format \<Rightarrow>
          generate_with_format_validation api prompt (Some expected_format) 300 s)"

text \<open>
  A unit of the generation phase. \<open>Scalar name g placeholder\<close>: the text of \<open>g\<close> on the
  prompt \<open>name\<close> replaces \<open>placeholder\<close>. \<open>Json name context field_list\<close>: the result of
  \<^verbatim>\<open>prompt_gpt\<close> is parsed, with one repair under \<open>context\<close>, and each placeholder of
  \<open>field_list\<close> is replaced by the value at its keys.
\<close>

datatype content_unit =
    Scalar str generator str
  | Json str str "(str \<times> str list) list"

text \<open>
  \<^verbatim>\<open>try: v = json.loads(clean_json_response(result))\<close>
  \<^verbatim>\<open>except: fixed_result = fix_json_with_gpt(result, context); v = json.loads(fixed_result)\<close>
\<close>

definition parse_or_fix :: "api \<Rightarrow> loads \<Rightarrow> str \<Rightarrow> str \<Rightarrow> state \<Rightarrow> (error + json) \<times> state" where
  "parse_or_fix api loads result context s =
     (case loads (clean_json_response result) of
        Some v \<Rightarrow> (Inr v, s)
      | None \<Rightarrow>
          (case fix_json_with_gpt api result context s of
             (fixed_result, s1) \<Rightarrow>
               (case loads fixed_result of
                  Some v \<Rightarrow> (Inr v, s1)
                | None \<Rightarrow> (Inl JSONDecodeError, s1))))"

text \<open>The calls \<^verbatim>\<open>replace_in_file(PATH, placeholder, v[k1][k2])\<close> of a unit, in order; the
  argument is evaluated before the call.\<close>

fun replace_fields ::
  "str \<Rightarrow> json \<Rightarrow> (str \<times> str list) list \<Rightarrow> state \<Rightarrow> (error + unit) \<times> state" where
  "replace_fields file_path v [] s = (Inr (), s)"
| "replace_fields file_path v (field # field_list) s =
     (case subscripts v (snd field) of
        Inl e \<Rightarrow> (Inl e, s)
      | Inr content \<Rightarrow>
          (case replace_in_file file_path (fst field) content s of
             (Inl e, s1) \<Rightarrow> (Inl e, s1)
           | (Inr u, s1) \<Rightarrow> replace_fields file_path v field_list s1))"

fun process_unit ::
  "api \<Rightarrow> loads \<Rightarrow> (str \<Rightarrow> str) \<Rightarrow> str \<Rightarrow> content_unit \<Rightarrow> state \<Rightarrow> (error + unit) \<times> state" where
  "process_unit api loads render file_path (Scalar name g placeholder) s =
     (case generate api g (render name) s of
        (Inl e, s1) \<Rightarrow> (Inl e, s1)
      | (Inr text, s1) \<Rightarrow> replace_in_file file_path placeholder (JString text) s1)"
| "process_unit api loads render file_path (Json name context field_list) s =
     (case prompt_gpt api (render name) 300 s of
        (Inl e, s1) \<Rightarrow> (Inl e, s1)
      | (Inr result, s1) \<Rightarrow>
          (case parse_or_fix api loads result context s1 of
             (Inl e, s2) \<Rightarrow> (Inl e, s2)
           | (Inr v, s2) \<Rightarrow> replace_fields file_path v field_list s2))"

fun process_units ::
  "api \<Rightarrow> loads \<Rightarrow> (str \<Rightarrow> str) \<Rightarrow> str \<Rightarrow> content_unit list \<Rightarrow> state \<Rightarrow> (error + unit) \<times> state" where
  "process_units api loads render file_path [] s = (Inr (), s)"
| "process_units api loads render file_path (unit # units) s =
     (case process_unit api loads render file_path unit s of
        (Inl e, s1) \<Rightarrow> (Inl e, s1)
      | (Inr u, s1) \<Rightarrow> process_units api loads render file_path units s1)"

text \<open>The statements of \<^verbatim>\<open>process_translations\<close> of the home script, in order: the source text of
  each \<^verbatim>\<open>translate_text\<close> call and the placeholders of the \<^verbatim>\<open>replace_in_file\<close> calls that follow it.\<close>

definition home_translations :: "(str \<times> str list) list" where
  "home_translations =
     [(lit ''Exclusive Holiday Bundles'',
       [lit ''NEW_HERO_CAPTION_TRANSLATED'']),
      (lit ''Save Up To 55%'',
       [lit ''NEW_HERO_BUTTON_TRANSLATED'']),
      (lit ''FEATURED IN'',
       [lit ''NEW_FEATURED_IN_TRANSLATED'']),
      (lit ''Look At How Others Are Loving Their Product!'',
       [lit ''NEW_CUSTOMER_LOVE_HEADING_TRANSLATED'']),
      (lit ''Real Reviews From Real People'',
       [lit ''NEW_REAL_REVIEWS_SUBHEADING_TRANSLATED'']),
      (lit ''CLAIM OFFER'',
       [lit ''NEW_CLAIM_OFFER_BUTTON_TRANSLATED'']),
      (lit ''Lookbook'',
       [lit ''NEW_LOOKBOOK_HEADING_TRANSLATED'']),
      (lit ''<p>Optional description for this section</p>'',
       [lit ''NEW_LOOKBOOK_DESCRIPTION_TRANSLATED'']),
      (lit ''Heading'',
       [lit ''NEW_LOOKBOOK_POINT_1_TITLE_TRANSLATED'', lit ''NEW_LOOKBOOK_POINT_2_TITLE_TRANSLATED'']),
      (lit ''Some optional description for this point'',
       [lit ''NEW_LOOKBOOK_POINT_1_DESC_TRANSLATED'', lit ''NEW_LOOKBOOK_POINT_2_DESC_TRANSLATED'']),
      (lit ''View product'',
       [lit ''NEW_VIEW_PRODUCT_BUTTON_TRANSLATED'']),
      (lit ''button'',
       [lit ''NEW_BUTTON_TEXT_TRANSLATED'']),
      (lit ''Size Chart'',
       [lit ''NEW_SIZE_CHART_TRANSLATED'']),
      (lit ''1 Pack'',
       [lit ''NEW_PACK_1_LABEL_TRANSLATED'']),
      (lit ''3 Pack'',
       [lit ''NEW_PACK_3_LABEL_TRANSLATED'']),
      (lit ''4 Pack'',
       [lit ''NEW_PACK_4_LABEL_TRANSLATED'']),
      (lit ''5 Pack'',
       [lit ''NEW_PACK_5_LABEL_TRANSLATED'']),
      (lit ''Offer'',
       [lit ''NEW_OFFER_LABEL_TRANSLATED'']),
      (lit ''Most Popular'',
       [lit ''NEW_MOST_POPULAR_TRANSLATED'']),
      (lit ''Save (%)'',
       [lit ''NEW_SAVE_TEXT_TRANSLATED'']),
      (lit ''<p>Buy More Save More</p>'',
       [lit ''NEW_BUY_MORE_SAVE_MORE_TRANSLATED'']),
      (lit ''<p>Limited Time Offer</p>'',
       [lit ''NEW_LIMITED_TIME_OFFER_TRANSLATED'']),
      (lit ''OUR PRODUCT PHILOSOPHY'',
       [lit ''NEW_PRODUCT_PHILOSOPHY_CAPTION_TRANSLATED'']),
      (lit ''Learn More'',
       [lit ''NEW_LEARN_MORE_BUTTON_TRANSLATED'']),
      (lit ''What our customers say'',
       [lit ''NEW_CUSTOMER_TESTIMONIALS_HEADING_TRANSLATED'']),
      (lit ''Our Story'',
       [lit ''NEW_OUR_STORY_BUTTON_TRANSLATED''])]"

text \<open>The statements of \<^verbatim>\<open>process_generated_content\<close> of the home script, in order.\<close>

definition home_units :: "content_unit list" where
  "home_units =
     [Scalar (lit ''generate_hero_heading_prompt'') Client
       (lit ''NEW_HERO_HEADING_GENERATED''),
      Scalar (lit ''generate_hero_subheading_prompt'') (Validated (lit ''Save up to 55% on <strong>Text Here</strong>''))
       (lit ''NEW_HERO_SUBHEADING_GENERATED''),
      Scalar (lit ''generate_rating_text_prompt'') Client
       (lit ''NEW_RATING_TEXT_GENERATED''),
      Json (lit ''generate_testimonials_prompt'') (lit ''testimonials'')
       [(lit ''NEW_TESTIMONIAL_1_CAPTION_GENERATED'', [lit ''testimonial_1'', lit ''caption'']),
         (lit ''NEW_TESTIMONIAL_1_TEXT_GENERATED'', [lit ''testimonial_1'', lit ''text'']),
         (lit ''NEW_TESTIMONIAL_1_AUTHOR_GENERATED'', [lit ''testimonial_1'', lit ''author'']),
         (lit ''NEW_TESTIMONIAL_2_CAPTION_GENERATED'', [lit ''testimonial_2'', lit ''caption'']),
         (lit ''NEW_TESTIMONIAL_2_TEXT_GENERATED'', [lit ''testimonial_2'', lit ''text'']),
         (lit ''NEW_TESTIMONIAL_2_AUTHOR_GENERATED'', [lit ''testimonial_2'', lit ''author'']),
         (lit ''NEW_TESTIMONIAL_3_CAPTION_GENERATED'', [lit ''testimonial_3'', lit ''caption'']),
         (lit ''NEW_TESTIMONIAL_3_TEXT_GENERATED'', [lit ''testimonial_3'', lit ''text'']),
         (lit ''NEW_TESTIMONIAL_3_AUTHOR_GENERATED'', [lit ''testimonial_3'', lit ''author''])],
      Json (lit ''generate_customer_reviews_prompt'') (lit ''reviews'')
       [(lit ''NEW_CUSTOMER_REVIEW_1_GENERATED'', [lit ''review_1'']),
         (lit ''NEW_CUSTOMER_REVIEW_2_GENERATED'', [lit ''review_2'']),
         (lit ''NEW_CUSTOMER_REVIEW_3_GENERATED'', [lit ''review_3''])],
      Json (lit ''generate_benefits_prompt'') (lit ''benefits'')
       [(lit ''NEW_BENEFIT_1_TEXT_GENERATED'', [lit ''benefit_1'']),
         (lit ''NEW_BENEFIT_2_TEXT_GENERATED'', [lit ''benefit_2'']),
         (lit ''NEW_BENEFIT_3_HEADING_GENERATED'', [lit ''benefit_3'']),
         (lit ''NEW_BENEFIT_4_HEADING_GENERATED'', [lit ''benefit_4_heading'']),
         (lit ''NEW_BENEFIT_4_TEXT_GENERATED'', [lit ''benefit_4_text''])],
      Json (lit ''generate_scrolling_texts_prompt'') (lit ''scrolling_texts'')
       [(lit ''NEW_SCROLLING_TEXT_1_GENERATED'', [lit ''text_1'']),
         (lit ''NEW_SCROLLING_TEXT_2_GENERATED'', [lit ''text_2''])],
      Json (lit ''generate_video_section_prompt'') (lit ''video_content'')
       [(lit ''NEW_BEAUTY_SERENITY_HEADING_GENERATED'', [lit ''heading'']),
         (lit ''NEW_VIDEO_SECTION_DESCRIPTION_GENERATED'', [lit ''description'']),
         (lit ''NEW_FEATURE_1_GENERATED'', [lit ''feature_1'']),
         (lit ''NEW_FEATURE_2_GENERATED'', [lit ''feature_2'']),
         (lit ''NEW_FEATURE_3_GENERATED'', [lit ''feature_3'']),
         (lit ''NEW_PERCENTAGE_TEXT_GENERATED'', [lit ''percentage_text''])],
      Scalar (lit ''generate_video_heading_prompt'') (Validated (lit ''**Transform** Your Experience''))
       (lit ''NEW_VIDEO_HEADING_GENERATED''),
      Scalar (lit ''generate_philosophy_heading_prompt'') Client
       (lit ''NEW_PHILOSOPHY_HEADING_GENERATED''),
      Scalar (lit ''generate_doctor_testimonial_prompt'') (Validated (lit ''<p><strong>Compelling quote about product quality/results</strong></p><h6><strong>Expert Name, Specific Title/Credentials</strong></h6>''))
       (lit ''NEW_DOCTOR_TESTIMONIAL_GENERATED''),
      Scalar (lit ''generate_final_cta_heading_prompt'') (Validated (lit ''Love <strong>Your Skin</strong>, Let Your <em>Radiance</em> Begin''))
       (lit ''NEW_FINAL_CTA_HEADING_GENERATED'')]"

text \<open>The unit under the comment \<^verbatim>\<open># Video Heading\<close>.\<close>

definition video_heading_unit :: content_unit where
  "video_heading_unit =
     Scalar (lit ''generate_video_heading_prompt'')
       (Validated (lit ''**Transform** Your Experience''))
       (lit ''NEW_VIDEO_HEADING_GENERATED'')"

definition process_translations :: "api \<Rightarrow> str \<Rightarrow> str \<Rightarrow> state \<Rightarrow> (error + unit) \<times> state" where
  "process_translations api HOME_JSON_PATH language s =
     run_translations api HOME_JSON_PATH language home_translations s"

definition process_generated_content ::
  "api \<Rightarrow> loads \<Rightarrow> (str \<Rightarrow> str) \<Rightarrow> str \<Rightarrow> state \<Rightarrow> (error + unit) \<times> state" where
  "process_generated_content api loads render HOME_JSON_PATH s =
     process_units api loads render HOME_JSON_PATH home_units s"

definition change_home_page_content ::
  "api \<Rightarrow> loads \<Rightarrow> (str \<Rightarrow> str) \<Rightarrow> str \<Rightarrow> str \<Rightarrow> state \<Rightarrow> (error + unit) \<times> state" where
  "change_home_page_content api loads render HOME_JSON_PATH language s =
     (case process_translations api HOME_JSON_PATH language s of
        (Inl e, s1) \<Rightarrow> (Inl e, s1)
      | (Inr u, s1) \<Rightarrow> process_generated_content api loads render HOME_JSON_PATH s1)"

text \<open>The statements of \<^verbatim>\<open>process_footer_translations\<close>, in order.\<close>

definition footer_translations :: "(str \<times> str list) list" where
  "footer_translations =
     [(lit ''* We Promise not to use your email for Spam! You can unsubscribe at any time.'',
       [lit ''NEW_NEWSLETTER_SMALL_TEXT_TRANSLATED'']),
      (lit ''Information'',
       [lit ''NEW_FOOTER_INFO_HEADING_TRANSLATED'']),
      (lit ''Shop'',
       [lit ''NEW_FOOTER_SHOP_HEADING_TRANSLATED'']),
      (lit ''Subscribe to our emails'',
       [lit ''NEW_FOOTER_NEWSLETTER_HEADING_TRANSLATED''])]"

text \<open>The statements of \<^verbatim>\<open>process_footer_generated_content\<close>, in order.\<close>

definition footer_units :: "content_unit list" where
  "footer_units =
     [Json (lit ''generate_trust_badges_prompt'') (lit ''trust_badges'')
       [(lit ''NEW_TRUST_BADGE_1_TITLE_GENERATED'', [lit ''badge_1'', lit ''title'']),
         (lit ''NEW_TRUST_BADGE_1_TEXT_GENERATED'', [lit ''badge_1'', lit ''text'']),
         (lit ''NEW_TRUST_BADGE_2_TITLE_GENERATED'', [lit ''badge_2'', lit ''title'']),
         (lit ''NEW_TRUST_BADGE_2_TEXT_GENERATED'', [lit ''badge_2'', lit ''text'']),
         (lit ''NEW_TRUST_BADGE_3_TITLE_GENERATED'', [lit ''badge_3'', lit ''title'']),
         (lit ''NEW_TRUST_BADGE_3_TEXT_GENERATED'', [lit ''badge_3'', lit ''text'']),
         (lit ''NEW_TRUST_BADGE_4_TITLE_GENERATED'', [lit ''badge_4'', lit ''title'']),
         (lit ''NEW_TRUST_BADGE_4_TEXT_GENERATED'', [lit ''badge_4'', lit ''text''])],
      Json (lit ''generate_scroll_footer_text_prompt'') (lit ''scroll_footer_texts'')
       [(lit ''NEW_SCROLL_FOOTER_TEXT_1_GENERATED'', [lit ''text_1'']),
         (lit ''NEW_SCROLL_FOOTER_OUTLINE_1_GENERATED'', [lit ''outline_1'']),
         (lit ''NEW_SCROLL_FOOTER_TEXT_2_GENERATED'', [lit ''text_2'']),
         (lit ''NEW_SCROLL_FOOTER_OUTLINE_2_GENERATED'', [lit ''outline_2'']),
         (lit ''NEW_SCROLL_FOOTER_TEXT_3_GENERATED'', [lit ''text_3'']),
         (lit ''NEW_SCROLL_FOOTER_OUTLINE_3_GENERATED'', [lit ''outline_3''])],
      Json (lit ''generate_newsletter_prompt'') (lit ''newsletter'')
       [(lit ''NEW_NEWSLETTER_HEADING_GENERATED'', [lit ''heading'']),
         (lit ''NEW_NEWSLETTER_TEXT_GENERATED'', [lit ''text''])],
      Json (lit ''generate_footer_contact_prompt'') (lit ''footer_contact'')
       [(lit ''NEW_FOOTER_CONTACT_HEADING_GENERATED'', [lit ''heading'']),
         (lit ''NEW_FOOTER_CONTACT_SUBTEXT_GENERATED'', [lit ''subtext''])]]"

definition change_footer_content ::
  "api \<Rightarrow> loads \<Rightarrow> (str \<Rightarrow> str) \<Rightarrow> str \<Rightarrow> str \<Rightarrow> state \<Rightarrow> (error + unit) \<times> state" where
  "change_footer_content api loads render FOOTER_JSON_PATH language s =
     (case run_translations api FOOTER_JSON_PATH language footer_translations s of
        (Inl e, s1) \<Rightarrow> (Inl e, s1)
      | (Inr u, s1) \<Rightarrow> process_units api loads render FOOTER_JSON_PATH footer_units s1)"

section \<open>Page orchestration: product\<close>

text \<open>The list \<^verbatim>\<open>translations\<close> of \<^verbatim>\<open>process_product_translations\<close>.\<close>

definition product_translations :: "(str \<times> str) list" where
  "product_translations =
     [(lit ''Pairs well with'',
       lit ''NEW_BLOCK_HEADING_006E6C29_717A_4F58_8FEA_CABC7DA6316F_TRANSLATED''),
      (lit ''Shop Collection'',
       lit ''NEW_BUTTON_LABEL_BUTTON_MHN8PC_TRANSLATED''),
      (lit ''July 2023'',
       lit ''NEW_DATE_TEXT_13A5819E_5698_472F_94EB_34D5A7AD9B21_TRANSLATED''),
      (lit ''Jan 2024'',
       lit ''NEW_DATE_TEXT_30900101_E5C8_4C0E_B5BD_0FCF8EEA85CF_TRANSLATED''),
      (lit ''July 2023'',
       lit ''NEW_DATE_TEXT_3C322C1A_1E3A_47E6_8D7B_720D506EB595_TRANSLATED''),
      (lit ''July 2023'',
       lit ''NEW_DATE_TEXT_53A5B896_0517_4E05_80FE_B23DE703E79B_TRANSLATED''),
      (lit ''Dec 2023'',
       lit ''NEW_DATE_TEXT_D032A47C_6F6E_4A8E_94B9_D1260A5D6B0D_TRANSLATED''),
      (lit ''July 2023'',
       lit ''NEW_DATE_TEXT_E3288062_4139_4942_8A82_452BFEBBD63F_TRANSLATED''),
      (lit ''Jan 2023'',
       lit ''NEW_DATE_TEXT_F57735F1_30A6_4538_8C95_BFE08674506B_TRANSLATED''),
      (lit ''July 2023'',
       lit ''NEW_DATE_TEXT_REVIEW_ARWHQK_TRANSLATED''),
      (lit ''July 2023'',
       lit ''NEW_DATE_TEXT_REVIEW_FWXHPQ_TRANSLATED''),
      (lit ''July 2023'',
       lit ''NEW_DATE_TEXT_REVIEW_KAGTR4_TRANSLATED''),
      (lit ''(x) People are looking at this'',
       lit ''NEW_FOMO_TEXT_BEFORE_4EC31670_952B_4ED4_8799_249844A8F39B_TRANSLATED''),
      (lit ''Rated the #1 drone technology in 2025.'',
       lit ''NEW_HEADER_TEXT_3475A8F9_021F_4ACD_8E57_163EF2A26740_TRANSLATED''),
      (lit ''100% Money <strong>Back</strong>!!'',
       lit ''NEW_HEADING_504C9E09_AAA7_49C4_8271_C6CA319D23F2_TRANSLATED''),
      (lit ''Shipping Information'',
       lit ''NEW_HEADING_9CCFFC8D_E4C7_404F_8007_8C5162F22285_TRANSLATED''),
      (lit ''FAQs'',
       lit ''NEW_HEADING_C0EF23CF_5481_4B47_9B78_3C28134C079A_TRANSLATED''),
      (lit ''Is everything recyclable?'',
       lit ''NEW_HEADING_COLLAPSIBLE_ROW_BMHKAN_TRANSLATED''),
      (lit ''How often should you use?'',
       lit ''NEW_HEADING_COLLAPSIBLE_ROW_GIDN9Z_TRANSLATED''),
      (lit ''Does this really work?'',
       lit ''NEW_HEADING_COLLAPSIBLE_ROW_T3YHUA_TRANSLATED''),
      (lit ''Ingredient list'',
       lit ''NEW_HEADING_COLLAPSIBLE_TAB_HK7DGX_TRANSLATED''),
      (lit ''Returns & Refunds'',
       lit ''NEW_HEADING_F34AD5C4_50A9_4A95_A561_D8C51D1B76DD_TRANSLATED''),
      (lit ''<strong>Experience Stealth with AeroShadow X1</strong>'',
       lit ''NEW_HEADING_HEADING_8E7QYA_TRANSLATED''),
      (lit ''<strong>Precision Drone Technology</strong>'',
       lit ''NEW_HEADING_HEADING_AJMG6N_TRANSLATED''),
      (lit ''<strong>Fly Beyond Limits.</strong>'',
       lit ''NEW_HEADING_HEADING_JHTCQY_TRANSLATED''),
      (lit ''You may also like'',
       lit ''NEW_HEADING_RELATED-PRODUCTS_TRANSLATED''),
      (lit ''What if it doesn'' @ [8218, 196, 244] @ lit ''t work for me?'',
       lit ''NEW_HEADING_TEMPLATE__15124688076883__C0EF23CF_5481_4B47_9B78_3C28134C079A_COLLAPSIBLE_ROW_1_TRANSLATED''),
      (lit ''Guarantee?'',
       lit ''NEW_HEADING_TEMPLATE__15124688076883__C0EF23CF_5481_4B47_9B78_3C28134C079A_COLLAPSIBLE_ROW_2_TRANSLATED''),
      (lit ''Okay, but why have I never heard of this before?'',
       lit ''NEW_HEADING_TEMPLATE__15124688076883__C0EF23CF_5481_4B47_9B78_3C28134C079A_COLLAPSIBLE_ROW_3_TRANSLATED''),
      (lit ''Do you provide tracking information?'',
       lit ''NEW_HEADING_TEMPLATE__15124688076883__C0EF23CF_5481_4B47_9B78_3C28134C079A_COLLAPSIBLE_ROW_4_TRANSLATED''),
      (lit ''Johan D.'',
       lit ''NEW_NAME_TEXT_13A5819E_5698_472F_94EB_34D5A7AD9B21_TRANSLATED''),
      (lit ''Sofia R.'',
       lit ''NEW_NAME_TEXT_30900101_E5C8_4C0E_B5BD_0FCF8EEA85CF_TRANSLATED''),
      (lit ''Johan D.'',
       lit ''NEW_NAME_TEXT_3C322C1A_1E3A_47E6_8D7B_720D506EB595_TRANSLATED''),
      (lit ''Amy Grady, B.'',
       lit ''NEW_NAME_TEXT_53A5B896_0517_4E05_80FE_B23DE703E79B_TRANSLATED''),
      (lit ''Anabella C.'',
       lit ''NEW_NAME_TEXT_D032A47C_6F6E_4A8E_94B9_D1260A5D6B0D_TRANSLATED''),
      (lit ''Johan D.'',
       lit ''NEW_NAME_TEXT_E3288062_4139_4942_8A82_452BFEBBD63F_TRANSLATED''),
      (lit ''Vera R.'',
       lit ''NEW_NAME_TEXT_F57735F1_30A6_4538_8C95_BFE08674506B_TRANSLATED''),
      (lit ''Johan D.'',
       lit ''NEW_NAME_TEXT_REVIEW_ARWHQK_TRANSLATED''),
      (lit ''Johan D.'',
       lit ''NEW_NAME_TEXT_REVIEW_FWXHPQ_TRANSLATED''),
      (lit ''Johan D.'',
       lit ''NEW_NAME_TEXT_REVIEW_KAGTR4_TRANSLATED''),
      (lit ''Most Popular'',
       lit ''NEW_OPTION_1_BADGE_TEXT_QUANTITY_SELECTOR_Q9D74M_TRANSLATED''),
      (lit ''1 Drone'',
       lit ''NEW_OPTION_1_LABEL_QUANTITY_SELECTOR_Q9D74M_TRANSLATED''),
      (lit ''SPECIAL OFFER - Limited Time'',
       lit ''NEW_OPTION_2_BADGE_TEXT_QUANTITY_SELECTOR_Q9D74M_TRANSLATED''),
      (lit ''Buy 2, Get 1 FREE'',
       lit ''NEW_OPTION_2_LABEL_QUANTITY_SELECTOR_Q9D74M_TRANSLATED''),
      (lit ''FLASH SALE '' @ [8218, 196, 238] @ lit '' Grab It Before It'' @ [squote] @ lit ''s Gone'',
       lit ''NEW_OPTION_3_BADGE_TEXT_QUANTITY_SELECTOR_Q9D74M_TRANSLATED''),
      (lit ''Buy 3, Get 2 FREE'',
       lit ''NEW_OPTION_3_LABEL_QUANTITY_SELECTOR_Q9D74M_TRANSLATED''),
      (lit ''Most Popular'',
       lit ''NEW_OPTION_4_BADGE_TEXT_QUANTITY_SELECTOR_Q9D74M_TRANSLATED''),
      (lit ''4 Drones'',
       lit ''NEW_OPTION_4_LABEL_QUANTITY_SELECTOR_Q9D74M_TRANSLATED''),
      (lit ''Most Popular'',
       lit ''NEW_OPTION_5_BADGE_TEXT_QUANTITY_SELECTOR_Q9D74M_TRANSLATED''),
      (lit ''5 Drones'',
       lit ''NEW_OPTION_5_LABEL_QUANTITY_SELECTOR_Q9D74M_TRANSLATED''),
      (lit ''Most Popular'',
       lit ''NEW_OPTION_6_BADGE_TEXT_QUANTITY_SELECTOR_Q9D74M_TRANSLATED''),
      (lit ''6 Drones'',
       lit ''NEW_OPTION_6_LABEL_QUANTITY_SELECTOR_Q9D74M_TRANSLATED''),
      (lit ''Nice Product'',
       lit ''NEW_REVIEW_HEAD_13A5819E_5698_472F_94EB_34D5A7AD9B21_TRANSLATED''),
      (lit ''Works well for advanced flights!'',
       lit ''NEW_REVIEW_HEAD_30900101_E5C8_4C0E_B5BD_0FCF8EEA85CF_TRANSLATED''),
      (lit ''Nice Product'',
       lit ''NEW_REVIEW_HEAD_3C322C1A_1E3A_47E6_8D7B_720D506EB595_TRANSLATED''),
      (lit ''The Only Drone That Has Worked For Me'',
       lit ''NEW_REVIEW_HEAD_53A5B896_0517_4E05_80FE_B23DE703E79B_TRANSLATED''),
      (lit ''Holy Unexpected!!'',
       lit ''NEW_REVIEW_HEAD_D032A47C_6F6E_4A8E_94B9_D1260A5D6B0D_TRANSLATED''),
      (lit ''Nice Product'',
       lit ''NEW_REVIEW_HEAD_E3288062_4139_4942_8A82_452BFEBBD63F_TRANSLATED''),
      (lit ''BEST PURCHASE BEST FIND'',
       lit ''NEW_REVIEW_HEAD_F57735F1_30A6_4538_8C95_BFE08674506B_TRANSLATED''),
      (lit ''Nice Product'',
       lit ''NEW_REVIEW_HEAD_REVIEW_ARWHQK_TRANSLATED''),
      (lit ''Nice Product'',
       lit ''NEW_REVIEW_HEAD_REVIEW_FWXHPQ_TRANSLATED''),
      (lit ''Nice Product'',
       lit ''NEW_REVIEW_HEAD_REVIEW_KAGTR4_TRANSLATED''),
      ([8218, 250, 174] @ lit '' <strong>Obsessed with the Results</strong>'',
       lit ''NEW_TITLE_COLUMN_7ZMKCE_TRANSLATED''),
      ([8218, 246, 176] @ lit '' <strong>Visible Results, Fast</strong>'',
       lit ''NEW_TITLE_COLUMN_9PFUYJ_TRANSLATED''),
      ([63743, 252, 237, 241] @ lit '' <strong>Worth Every Penny</strong>'',
       lit ''NEW_TITLE_COLUMN_HTTYFJ_TRANSLATED''),
      ([63743, 252, 229, 248] @ lit '' <strong>Advanced Drone Technology</strong>'',
       lit ''NEW_TITLE_COLUMN_XLTNH7_TRANSLATED''),
      (lit ''What makes AeroShadow right for you?'',
       lit ''NEW_TITLE_COMPARISON_TABLE_9J8NNQ_TRANSLATED''),
      (lit ''Why AeroShadow is <strong>Better</strong>'',
       lit ''NEW_TITLE_LUMIN_HERO_8JR4II_TRANSLATED''),
      (lit ''Drone Tech for the Best Flights Yet'',
       lit ''NEW_TITLE_MULTICOLUMN_XDHHWC_TRANSLATED''),
      (lit ''Was this helpful?'',
       lit ''NEW_LIKE_TEXT_3475A8F9_021F_4ACD_8E57_163EF2A26740_TRANSLATED''),
      (lit ''Load More'',
       lit ''NEW_LOAD_TEXT_3475A8F9_021F_4ACD_8E57_163EF2A26740_TRANSLATED''),
      (lit ''Verified Buyer'',
       lit ''NEW_VERIFY_TEXT_3475A8F9_021F_4ACD_8E57_163EF2A26740_TRANSLATED''),
      (lit ''SkyForge Tech'',
       lit ''NEW_HEAD_TEXT_J7DFT4_GENERATED'')]"

text \<open>\<^verbatim>\<open>for original, placeholder in translations:\<close> with the product script's
  \<^verbatim>\<open>replace_in_file\<close>; no statement of the loop can raise.\<close>

definition run_product_translations ::
  "api \<Rightarrow> str \<Rightarrow> str \<Rightarrow> (str \<times> str) list \<Rightarrow> state \<Rightarrow> state" where
  "run_product_translations api file_path language translations s =
     fold (\<lambda>(original, placeholder) s.
             case translate_text api original language s of
               (translated, s1) \<Rightarrow>
                 replace_in_file_product file_path placeholder (JString translated) s1)
       translations s"

definition process_product_translations :: "api \<Rightarrow> str \<Rightarrow> str \<Rightarrow> state \<Rightarrow> state" where
  "process_product_translations api PRODUCT_JSON_PATH language s =
     run_product_translations api PRODUCT_JSON_PATH language product_translations s"

text \<open>
  One unit group of \<^verbatim>\<open>process_product_generated_content\<close>: the prompt function, the
  reference example (\<open>None\<close> where the group calls \<^verbatim>\<open>prompt_gpt\<close> directly) and
  \<^verbatim>\<open>max_tokens\<close> of the generation, the two context labels and the key list of the
  repairs, the text of the final exception, and placeholder and key of each
  \<^verbatim>\<open>replace_in_file\<close> call.
\<close>

record unit_group =
  ug_prompt :: str
  ug_format :: "str option"
  ug_max_tokens :: nat
  ug_context :: str
  ug_retry_context :: str
  ug_keys :: "str list"
  ug_message :: str
  ug_fields :: "(str \<times> str) list"

definition generate_group :: "api \<Rightarrow> unit_group \<Rightarrow> str \<Rightarrow> state \<Rightarrow> (error + str) \<times> state" where
  "generate_group api g prompt s =
     (case ug_format g of
        None \<Rightarrow> prompt_gpt api prompt (ug_max_tokens g) s
      | Some expected_format \<Rightarrow>
          generate_with_format_validation api prompt (Some expected_format) (ug_max_tokens g) s)"

text \<open>
  The three nested \<^verbatim>\<open>try\<close> blocks of a group. Each \<^verbatim>\<open>except Exception\<close> catches the
  failure of the \<^verbatim>\<open>json.loads\<close> before it; the innermost raises the final exception.
\<close>

definition parse_or_fix_twice ::
  "api \<Rightarrow> loads \<Rightarrow> unit_group \<Rightarrow> str \<Rightarrow> state \<Rightarrow> (error + json) \<times> state" where
  "parse_or_fix_twice api loads g result s =
     (case loads (clean_json_response_product result) of
        Some v \<Rightarrow> (Inr v, s)
      | None \<Rightarrow>
          (case fix_json_with_gpt_product api result (ug_context g) (Some (ug_keys g)) s of
             (fixed_result, s1) \<Rightarrow>
               (case loads fixed_result of
                  Some v \<Rightarrow> (Inr v, s1)
                | None \<Rightarrow>
                    (case fix_json_with_gpt_product api result (ug_retry_context g)
                            (Some (ug_keys g)) s1 of
                       (fixed_result, s2) \<Rightarrow>
                         (case loads fixed_result of
                            Some v \<Rightarrow> (Inr v, s2)
                          | None \<Rightarrow> (Inl (Failed (ug_message g)), s2))))))"

text \<open>The calls \<^verbatim>\<open>replace_in_file(PRODUCT_JSON_PATH, placeholder, v[key])\<close> of a group.\<close>

fun replace_fields_product ::
  "str \<Rightarrow> json \<Rightarrow> (str \<times> str) list \<Rightarrow> state \<Rightarrow> (error + unit) \<times> state" where
  "replace_fields_product file_path v [] s = (Inr (), s)"
| "replace_fields_product file_path v (field # field_list) s =
     (case subscript v (snd field) of
        Inl e \<Rightarrow> (Inl e, s)
      | Inr content \<Rightarrow>
          replace_fields_product file_path v field_list
            (replace_in_file_product file_path (fst field) content s))"

definition process_unit_group ::
  "api \<Rightarrow> loads \<Rightarrow> (str \<Rightarrow> str) \<Rightarrow> str \<Rightarrow> unit_group \<Rightarrow> state \<Rightarrow> (error + unit) \<times> state" where
  "process_unit_group api loads render file_path g s =
     (case generate_group api g (render (ug_prompt g)) s of
        (Inl e, s1) \<Rightarrow> (Inl e, s1)
      | (Inr result, s1) \<Rightarrow>
          (case parse_or_fix_twice api loads g result s1 of
             (Inl e, s2) \<Rightarrow> (Inl e, s2)
           | (Inr v, s2) \<Rightarrow> replace_fields_product file_path v (ug_fields g) s2))"

fun process_unit_groups ::
  "api \<Rightarrow> loads \<Rightarrow> (str \<Rightarrow> str) \<Rightarrow> str \<Rightarrow> unit_group list \<Rightarrow> state \<Rightarrow> (error + unit) \<times> state" where
  "process_unit_groups api loads render file_path [] s = (Inr (), s)"
| "process_unit_groups api loads render file_path (g # gs) s =
     (case process_unit_group api loads render file_path g s of
        (Inl e, s1) \<Rightarrow> (Inl e, s1)
      | (Inr u, s1) \<Rightarrow> process_unit_groups api loads render file_path gs s1)"

definition announcements :: unit_group where
  "announcements =
     \<lparr>ug_prompt = lit ''generate_announcements_prompt'',
      ug_format = Some (lit ''<h1>Text</h1>''),
      ug_max_tokens = 500,
      ug_context = lit ''announcements'',
      ug_retry_context = lit ''announcements_retry'',
      ug_keys =
        [lit ''announcement_91817b81'',
         lit ''announcement_gAyVVz'',
         lit ''announcement_XGt7RJ'',
         lit ''announcement_dd77f8e0'',
         lit ''announcement_template_1'',
         lit ''announcement_template_2''],
      ug_message = lit ''Failed to generate valid announcements JSON after retries.'',
      ug_fields =
        [(lit ''NEW_ANNOUNCEMENT_91817B81_C148_4C6C_8A35_09D6BA380CA5_GENERATED'',
        lit ''announcement_91817b81''),
         (lit ''NEW_ANNOUNCEMENT_ANNOUNCEMENT_GAYVVZ_GENERATED'',
        lit ''announcement_gAyVVz''),
         (lit ''NEW_ANNOUNCEMENT_ANNOUNCEMENT_XGT7RJ_GENERATED'',
        lit ''announcement_XGt7RJ''),
         (lit ''NEW_ANNOUNCEMENT_DD77F8E0_9A10_41D6_A2A8_69B2326223A3_GENERATED'',
        lit ''announcement_dd77f8e0''),
         (lit ''NEW_ANNOUNCEMENT_TEMPLATE__15124688076883__05F459A6_0335_4BAB_8D23_AC347077EFCC_ANNOUNCEMENT_1_GENERATED'',
        lit ''announcement_template_1''),
         (lit ''NEW_ANNOUNCEMENT_TEMPLATE__15124688076883__05F459A6_0335_4BAB_8D23_AC347077EFCC_ANNOUNCEMENT_2_GENERATED'',
        lit ''announcement_template_2'')]\<rparr>"

definition button_texts :: unit_group where
  "button_texts =
     \<lparr>ug_prompt = lit ''generate_button_texts_prompt'',
      ug_format = None,
      ug_max_tokens = 300,
      ug_context = lit ''button_texts'',
      ug_retry_context = lit ''button_texts_retry'',
      ug_keys =
        [lit ''image_4GCwJt'',
         lit ''image_6kyG4n'',
         lit ''image_8WUeHF'',
         lit ''image_g6WCgH'',
         lit ''image_mczRTQ'',
         lit ''image_mWKfnL'',
         lit ''image_XDdFEp'',
         lit ''image_YQMGF7'',
         lit ''image_template_1'',
         lit ''text_j7Dft4''],
      ug_message = lit ''Failed to generate valid button texts JSON after retries.'',
      ug_fields =
        [(lit ''NEW_BUTTON-TEXT_IMAGE_4GCWJT_GENERATED'',
        lit ''image_4GCwJt''),
         (lit ''NEW_BUTTON-TEXT_IMAGE_6KYG4N_GENERATED'',
        lit ''image_6kyG4n''),
         (lit ''NEW_BUTTON-TEXT_IMAGE_8WUEHF_GENERATED'',
        lit ''image_8WUeHF''),
         (lit ''NEW_BUTTON-TEXT_IMAGE_G6WCGH_GENERATED'',
        lit ''image_g6WCgH''),
         (lit ''NEW_BUTTON-TEXT_IMAGE_MCZRTQ_GENERATED'',
        lit ''image_mczRTQ''),
         (lit ''NEW_BUTTON-TEXT_IMAGE_MWKFNL_GENERATED'',
        lit ''image_mWKfnL''),
         (lit ''NEW_BUTTON-TEXT_IMAGE_XDDFEP_GENERATED'',
        lit ''image_XDdFEp''),
         (lit ''NEW_BUTTON-TEXT_IMAGE_YQMGF7_GENERATED'',
        lit ''image_YQMGF7''),
         (lit ''NEW_BUTTON-TEXT_TEMPLATE__17146523746516__530954A1_091E_46FD_B6F9_AAAACA76CEB6_IMAGE_1_GENERATED'',
        lit ''image_template_1''),
         (lit ''NEW_BUTTON-TEXT_TEXT_J7DFT4_GENERATED'',
        lit ''text_j7Dft4'')]\<rparr>"

definition content_sections :: unit_group where
  "content_sections =
     \<lparr>ug_prompt = lit ''generate_content_prompt'',
      ug_format = Some (lit ''<p>Text</p>''),
      ug_max_tokens = 1000,
      ug_context = lit ''content_sections'',
      ug_retry_context = lit ''content_sections_retry'',
      ug_keys =
        [lit ''content_9ccffc8d'',
         lit ''content_f34ad5c4'',
         lit ''content_promo_krqbTU'',
         lit ''content_promo_QC7Vbj'',
         lit ''content_collapsible_tab_HK7dGX'',
         lit ''row_content_BMHKaN'',
         lit ''row_content_GiDN9z'',
         lit ''row_content_t3yhUa'',
         lit ''row_content_template_1'',
         lit ''row_content_template_2'',
         lit ''row_content_template_3'',
         lit ''row_content_template_4'',
         lit ''tab_content_DgkJ3j'',
         lit ''tab_content_2_DgkJ3j'',
         lit ''tab_content_3_DgkJ3j''],
      ug_message = lit ''Failed to generate valid content sections JSON after retries.'',
      ug_fields =
        [(lit ''NEW_CONTENT_9CCFFC8D_E4C7_404F_8007_8C5162F22285_GENERATED'',
        lit ''content_9ccffc8d''),
         (lit ''NEW_CONTENT_F34AD5C4_50A9_4A95_A561_D8C51D1B76DD_GENERATED'',
        lit ''content_f34ad5c4''),
         (lit ''NEW_CONTENT_PROMO_KRQBTU_GENERATED'',
        lit ''content_promo_krqbTU''),
         (lit ''NEW_CONTENT_PROMO_QC7VBJ_GENERATED'',
        lit ''content_promo_QC7Vbj''),
         (lit ''NEW_CONTENT_COLLAPSIBLE_TAB_HK7DGX_GENERATED'',
        lit ''content_collapsible_tab_HK7dGX''),
         (lit ''NEW_ROW_CONTENT_COLLAPSIBLE_ROW_BMHKAN_GENERATED'',
        lit ''row_content_BMHKaN''),
         (lit ''NEW_ROW_CONTENT_COLLAPSIBLE_ROW_GIDN9Z_GENERATED'',
        lit ''row_content_GiDN9z''),
         (lit ''NEW_ROW_CONTENT_COLLAPSIBLE_ROW_T3YHUA_GENERATED'',
        lit ''row_content_t3yhUa''),
         (lit ''NEW_ROW_CONTENT_TEMPLATE__15124688076883__C0EF23CF_5481_4B47_9B78_3C28134C079A_COLLAPSIBLE_ROW_1_GENERATED'',
        lit ''row_content_template_1''),
         (lit ''NEW_ROW_CONTENT_TEMPLATE__15124688076883__C0EF23CF_5481_4B47_9B78_3C28134C079A_COLLAPSIBLE_ROW_2_GENERATED'',
        lit ''row_content_template_2''),
         (lit ''NEW_ROW_CONTENT_TEMPLATE__15124688076883__C0EF23CF_5481_4B47_9B78_3C28134C079A_COLLAPSIBLE_ROW_3_GENERATED'',
        lit ''row_content_template_3''),
         (lit ''NEW_ROW_CONTENT_TEMPLATE__15124688076883__C0EF23CF_5481_4B47_9B78_3C28134C079A_COLLAPSIBLE_ROW_4_GENERATED'',
        lit ''row_content_template_4''),
         (lit ''NEW_TAB_CONTENT_TABS_DGKJ3J_GENERATED'',
        lit ''tab_content_DgkJ3j''),
         (lit ''NEW_TAB_CONTENT_2_TABS_DGKJ3J_GENERATED'',
        lit ''tab_content_2_DgkJ3j''),
         (lit ''NEW_TAB_CONTENT_3_TABS_DGKJ3J_GENERATED'',
        lit ''tab_content_3_DgkJ3j'')]\<rparr>"

definition review_content :: unit_group where
  "review_content =
     \<lparr>ug_prompt = lit ''generate_review_content_prompt'',
      ug_format = Some (lit ''<p>Text</p>''),
      ug_max_tokens = 600,
      ug_context = lit ''review_content'',
      ug_retry_context = lit ''review_content_retry'',
      ug_keys =
        [lit ''review_text_13a5819e'',
         lit ''review_text_30900101'',
         lit ''review_text_3c322c1a'',
         lit ''review_text_53a5b896'',
         lit ''review_text_d032a47c'',
         lit ''review_text_e3288062'',
         lit ''review_text_f57735f1'',
         lit ''review_text_ArWHqK'',
         lit ''review_text_fwxHPq'',
         lit ''review_text_kAgTR4'',
         lit ''rating_count_3475a8f9'',
         lit ''lrw_text_7f391028''],
      ug_message = lit ''Failed to generate valid review content JSON after retries.'',
      ug_fields =
        [(lit ''NEW_REVIEW_TEXT_13A5819E_5698_472F_94EB_34D5A7AD9B21_GENERATED'',
        lit ''review_text_13a5819e''),
         (lit ''NEW_REVIEW_TEXT_30900101_E5C8_4C0E_B5BD_0FCF8EEA85CF_GENERATED'',
        lit ''review_text_30900101''),
         (lit ''NEW_REVIEW_TEXT_3C322C1A_1E3A_47E6_8D7B_720D506EB595_GENERATED'',
        lit ''review_text_3c322c1a''),
         (lit ''NEW_REVIEW_TEXT_53A5B896_0517_4E05_80FE_B23DE703E79B_GENERATED'',
        lit ''review_text_53a5b896''),
         (lit ''NEW_REVIEW_TEXT_D032A47C_6F6E_4A8E_94B9_D1260A5D6B0D_GENERATED'',
        lit ''review_text_d032a47c''),
         (lit ''NEW_REVIEW_TEXT_E3288062_4139_4942_8A82_452BFEBBD63F_GENERATED'',
        lit ''review_text_e3288062''),
         (lit ''NEW_REVIEW_TEXT_F57735F1_30A6_4538_8C95_BFE08674506B_GENERATED'',
        lit ''review_text_f57735f1''),
         (lit ''NEW_REVIEW_TEXT_REVIEW_ARWHQK_GENERATED'',
        lit ''review_text_ArWHqK''),
         (lit ''NEW_REVIEW_TEXT_REVIEW_FWXHPQ_GENERATED'',
        lit ''review_text_fwxHPq''),
         (lit ''NEW_REVIEW_TEXT_REVIEW_KAGTR4_GENERATED'',
        lit ''review_text_kAgTR4''),
         (lit ''NEW_RATING_COUNT_3475A8F9_021F_4ACD_8E57_163EF2A26740_GENERATED'',
        lit ''rating_count_3475a8f9''),
         (lit ''NEW_LRW_TEXT_7F391028_A103_4E66_BB50_BD71D4672AF4_GENERATED'',
        lit ''lrw_text_7f391028'')]\<rparr>"

definition quantity_selector :: unit_group where
  "quantity_selector =
     \<lparr>ug_prompt = lit ''generate_quantity_selector_prompt'',
      ug_format = Some (lit ''<h3>Text</h3>''),
      ug_max_tokens = 400,
      ug_context = lit ''quantity_selector'',
      ug_retry_context = lit ''quantity_selector_retry'',
      ug_keys =
        [lit ''option_1_save_text'',
         lit ''option_1_unit_label'',
         lit ''option_2_save_text'',
         lit ''option_2_unit_label'',
         lit ''option_3_promo'',
         lit ''option_3_save_text'',
         lit ''option_3_unit_label'',
         lit ''option_4_save_text'',
         lit ''option_4_unit_label'',
         lit ''option_5_save_text'',
         lit ''option_5_unit_label'',
         lit ''option_6_save_text'',
         lit ''option_6_unit_label'',
         lit ''quantity_title_text''],
      ug_message = lit ''Failed to generate valid quantity selector JSON after retries.'',
      ug_fields =
        [(lit ''NEW_OPTION_1_SAVE_TEXT_QUANTITY_SELECTOR_Q9D74M_GENERATED'',
        lit ''option_1_save_text''),
         (lit ''NEW_OPTION_1_UNIT_LABEL_QUANTITY_SELECTOR_Q9D74M_GENERATED'',
        lit ''option_1_unit_label''),
         (lit ''NEW_OPTION_2_SAVE_TEXT_QUANTITY_SELECTOR_Q9D74M_GENERATED'',
        lit ''option_2_save_text''),
         (lit ''NEW_OPTION_2_UNIT_LABEL_QUANTITY_SELECTOR_Q9D74M_GENERATED'',
        lit ''option_2_unit_label''),
         (lit ''NEW_OPTION_3_PROMO_QUANTITY_SELECTOR_Q9D74M_GENERATED'',
        lit ''option_3_promo''),
         (lit ''NEW_OPTION_3_SAVE_TEXT_QUANTITY_SELECTOR_Q9D74M_GENERATED'',
        lit ''option_3_save_text''),
         (lit ''NEW_OPTION_3_UNIT_LABEL_QUANTITY_SELECTOR_Q9D74M_GENERATED'',
        lit ''option_3_unit_label''),
         (lit ''NEW_OPTION_4_SAVE_TEXT_QUANTITY_SELECTOR_Q9D74M_GENERATED'',
        lit ''option_4_save_text''),
         (lit ''NEW_OPTION_4_UNIT_LABEL_QUANTITY_SELECTOR_Q9D74M_GENERATED'',
        lit ''option_4_unit_label''),
         (lit ''NEW_OPTION_5_SAVE_TEXT_QUANTITY_SELECTOR_Q9D74M_GENERATED'',
        lit ''option_5_save_text''),
         (lit ''NEW_OPTION_5_UNIT_LABEL_QUANTITY_SELECTOR_Q9D74M_GENERATED'',
        lit ''option_5_unit_label''),
         (lit ''NEW_OPTION_6_SAVE_TEXT_QUANTITY_SELECTOR_Q9D74M_GENERATED'',
        lit ''option_6_save_text''),
         (lit ''NEW_OPTION_6_UNIT_LABEL_QUANTITY_SELECTOR_Q9D74M_GENERATED'',
        lit ''option_6_unit_label''),
         (lit ''NEW_QUANTITY_TITLE_TEXT_QUANTITY_SELECTOR_Q9D74M_GENERATED'',
        lit ''quantity_title_text'')]\<rparr>"

definition text_sections :: unit_group where
  "text_sections =
     \<lparr>ug_prompt = lit ''generate_text_sections_prompt'',
      ug_format = Some (lit ''<p>Text</p>''),
      ug_max_tokens = 1500,
      ug_context = lit ''text_sections'',
      ug_retry_context = lit ''text_sections_retry'',
      ug_keys =
        [lit ''head_text_lumin_hero_8jr4ii'',
         lit ''subtitle_text_j7Dft4'',
         lit ''text_1_hero_Wjwazn'',
         lit ''text_2_hero_Wjwazn'',
         lit ''text_3_hero_Wjwazn'',
         lit ''text_4_hero_Wjwazn'',
         lit ''text_5_hero_Wjwazn'',
         lit ''text_6_hero_Wjwazn'',
         lit ''text_264e37ac'',
         lit ''text_504c9e09'',
         lit ''text_74e17b96'',
         lit ''text_promo_slide_YiPa48_1'',
         lit ''text_promo_slide_YiPa48_2'',
         lit ''text_promo_slide_YiPa48_3'',
         lit ''text_column_7zMkCE'',
         lit ''text_column_9PFUYj'',
         lit ''text_column_htTYfJ'',
         lit ''text_column_xLTnh7'',
         lit ''text_column_afLRa6'',
         lit ''text_column_FpEWjD'',
         lit ''text_column_kcUK3B'',
         lit ''text_column_nMFyQP'',
         lit ''text_comparison_table_9j8NnQ'',
         lit ''text_feature_6cxT6B'',
         lit ''text_feature_aYFzam'',
         lit ''text_feature_HCBWrx'',
         lit ''text_feature_Kgr9Aj'',
         lit ''text_feature_teRTgW'',
         lit ''text_text_T999BU'',
         lit ''text_text_VYmMN6'',
         lit ''text_text_wFDAYF'',
         lit ''text_popup_DVDmRD'',
         lit ''text_low_many_xPXzfP'',
         lit ''text_low_one_xPXzfP'',
         lit ''text_normal_xPXzfP'',
         lit ''text_soldout_xPXzfP'',
         lit ''text_untracked_xPXzfP''],
      ug_message = lit ''Failed to generate valid text sections JSON after retries.'',
      ug_fields =
        [(lit ''NEW_HEAD_TEXT_LUMIN_HERO_8JR4II_GENERATED'',
        lit ''head_text_lumin_hero_8jr4ii''),
         (lit ''NEW_SUBTITLE_TEXT_J7DFT4_GENERATED'',
        lit ''subtitle_text_j7Dft4''),
         (lit ''NEW_TEXT_1_HERO_WJWAZN_GENERATED'',
        lit ''text_1_hero_Wjwazn''),
         (lit ''NEW_TEXT_2_HERO_WJWAZN_GENERATED'',
        lit ''text_2_hero_Wjwazn''),
         (lit ''NEW_TEXT_3_HERO_WJWAZN_GENERATED'',
        lit ''text_3_hero_Wjwazn''),
         (lit ''NEW_TEXT_4_HERO_WJWAZN_GENERATED'',
        lit ''text_4_hero_Wjwazn''),
         (lit ''NEW_TEXT_5_HERO_WJWAZN_GENERATED'',
        lit ''text_5_hero_Wjwazn''),
         (lit ''NEW_TEXT_6_HERO_WJWAZN_GENERATED'',
        lit ''text_6_hero_Wjwazn''),
         (lit ''NEW_TEXT_264E37AC_8AC8_475C_9F10_973D46BB217D_GENERATED'',
        lit ''text_264e37ac''),
         (lit ''NEW_TEXT_504C9E09_AAA7_49C4_8271_C6CA319D23F2_GENERATED'',
        lit ''text_504c9e09''),
         (lit ''NEW_TEXT_74E17B96_75E8_4EC7_AE08_2DF77F4249CB_GENERATED'',
        lit ''text_74e17b96''),
         (lit ''NEW_TEXT_1_PROMO_SLIDE_YIPA48_GENERATED'',
        lit ''text_promo_slide_YiPa48_1''),
         (lit ''NEW_TEXT_2_PROMO_SLIDE_YIPA48_GENERATED'',
        lit ''text_promo_slide_YiPa48_2''),
         (lit ''NEW_TEXT_3_PROMO_SLIDE_YIPA48_GENERATED'',
        lit ''text_promo_slide_YiPa48_3''),
         (lit ''NEW_TEXT_COLUMN_7ZMKCE_GENERATED'',
        lit ''text_column_7zMkCE''),
         (lit ''NEW_TEXT_COLUMN_9PFUYJ_GENERATED'',
        lit ''text_column_9PFUYj''),
         (lit ''NEW_TEXT_COLUMN_HTTYFJ_GENERATED'',
        lit ''text_column_htTYfJ''),
         (lit ''NEW_TEXT_COLUMN_XLTNH7_GENERATED'',
        lit ''text_column_xLTnh7''),
         (lit ''NEW_TEXT_COLUMN_AFLRA6_GENERATED'',
        lit ''text_column_afLRa6''),
         (lit ''NEW_TEXT_COLUMN_FPEWJD_GENERATED'',
        lit ''text_column_FpEWjD''),
         (lit ''NEW_TEXT_COLUMN_KCUK3B_GENERATED'',
        lit ''text_column_kcUK3B''),
         (lit ''NEW_TEXT_COLUMN_NMFYQP_GENERATED'',
        lit ''text_column_nMFyQP''),
         (lit ''NEW_TEXT_COMPARISON_TABLE_9J8NNQ_GENERATED'',
        lit ''text_comparison_table_9j8NnQ''),
         (lit ''NEW_TEXT_FEATURE_6CXT6B_GENERATED'',
        lit ''text_feature_6cxT6B''),
         (lit ''NEW_TEXT_FEATURE_AYFZAM_GENERATED'',
        lit ''text_feature_aYFzam''),
         (lit ''NEW_TEXT_FEATURE_HCBWRX_GENERATED'',
        lit ''text_feature_HCBWrx''),
         (lit ''NEW_TEXT_FEATURE_KGR9AJ_GENERATED'',
        lit ''text_feature_Kgr9Aj''),
         (lit ''NEW_TEXT_FEATURE_TERTGW_GENERATED'',
        lit ''text_feature_teRTgW''),
         (lit ''NEW_TEXT_TEXT_T999BU_GENERATED'',
        lit ''text_text_T999BU''),
         (lit ''NEW_TEXT_TEXT_VYMMN6_GENERATED'',
        lit ''text_text_VYmMN6''),
         (lit ''NEW_TEXT_TEXT_WFDAYF_GENERATED'',
        lit ''text_text_wFDAYF''),
         (lit ''NEW_TEXT_POPUP_DVDMRD_GENERATED'',
        lit ''text_popup_DVDmRD''),
         (lit ''NEW_TEXT_LOW_MANY_INVENTORY_XPXZFP_GENERATED'',
        lit ''text_low_many_xPXzfP''),
         (lit ''NEW_TEXT_LOW_ONE_INVENTORY_XPXZFP_GENERATED'',
        lit ''text_low_one_xPXzfP''),
         (lit ''NEW_TEXT_NORMAL_INVENTORY_XPXZFP_GENERATED'',
        lit ''text_normal_xPXzfP''),
         (lit ''NEW_TEXT_SOLDOUT_INVENTORY_XPXZFP_GENERATED'',
        lit ''text_soldout_xPXzfP''),
         (lit ''NEW_TEXT_UNTRACKED_INVENTORY_XPXZFP_GENERATED'',
        lit ''text_untracked_xPXzfP'')]\<rparr>"

text \<open>The six unit groups of \<^verbatim>\<open>process_product_generated_content\<close>, in order.\<close>

definition product_unit_groups :: "unit_group list" where
  "product_unit_groups =
     [announcements, button_texts, content_sections, review_content, quantity_selector, text_sections]"

definition process_product_generated_content ::
  "api \<Rightarrow> loads \<Rightarrow> (str \<Rightarrow> str) \<Rightarrow> str \<Rightarrow> state \<Rightarrow> (error + unit) \<times> state" where
  "process_product_generated_content api loads render PRODUCT_JSON_PATH s =
     process_unit_groups api loads render PRODUCT_JSON_PATH product_unit_groups s"

definition change_product_content ::
  "api \<Rightarrow> loads \<Rightarrow> (str \<Rightarrow> str) \<Rightarrow> str \<Rightarrow> str \<Rightarrow> state \<Rightarrow> (error + unit) \<times> state" where
  "change_product_content api loads render PRODUCT_JSON_PATH language s =
     process_product_generated_content api loads render PRODUCT_JSON_PATH
       (process_product_translations api PRODUCT_JSON_PATH language s)"

section \<open>Notions for the statements, and examples\<close>

text \<open>
  A text is settled when the quote-escaping substitution has nothing left to match in it:
  every single quote is preceded by a backslash or followed by an odd number of single
  quotes. \<open>prev\<close> is the character before the text.
\<close>

fun quotes_settled :: "nat option \<Rightarrow> str \<Rightarrow> bool" where
  "quotes_settled prev [] = True"
| "quotes_settled prev (c # cs) =
     ((c \<noteq> squote \<or> prev = Some backslash \<or> odd (count_list cs squote))
      \<and> quotes_settled (Some c) cs)"

text \<open>\<^verbatim>\<open>s.endswith(p)\<close>.\<close>

definition endswith :: "str \<Rightarrow> str \<Rightarrow> bool" where
  "endswith s p = (length p \<le> length s \<and> drop (length s - length p) s = p)"

text \<open>\<open>overlaps a b\<close>: some non-empty end of \<open>a\<close> is a beginning of \<open>b\<close>.\<close>

fun overlaps :: "str \<Rightarrow> str \<Rightarrow> bool" where
  "overlaps [] b = False"
| "overlaps (c # cs) b = (startswith b (c # cs) \<or> overlaps cs b)"

text \<open>
  \<open>apart a b\<close>: the two texts neither occur in nor overlap each other. No copy of the one
  put next to any text can then complete or start an occurrence of the other.
\<close>

definition apart :: "str \<Rightarrow> str \<Rightarrow> bool" where
  "apart a b = (\<not> contains a b \<and> \<not> contains b a \<and> \<not> overlaps a b \<and> \<not> overlaps b a)"

text \<open>
  \<open>writes s f t\<close>: the file \<open>f\<close> can be opened for writing and the write of the text \<open>t\<close>
  succeeds. \<open>rewritten s t\<close> is what it then leaves in the file. \<open>plain s f\<close>: the file
  holds no carriage return and the platform's line separator is the line feed, so that
  reading and writing translate nothing.
\<close>

definition writes :: "state \<Rightarrow> text_file \<Rightarrow> str \<Rightarrow> bool" where
  "writes s f t =
     (open_fault f = None \<and> encodable t \<and> write_fault f (write_newlines (linesep s) t) = None)"

definition rewritten :: "state \<Rightarrow> str \<Rightarrow> str" where
  "rewritten s t = write_newlines (linesep s) t"

definition plain :: "state \<Rightarrow> text_file \<Rightarrow> bool" where
  "plain s f = (carriage_return \<notin> set (data f) \<and> linesep s = [newline])"

text \<open>Replies of the service used as examples: a reply that closes its fence twice, a
  reply in a fence without a language tag, and a reply that holds the text of the last
  replacement around a copy of itself.\<close>

definition doubled_fence :: str where
  "doubled_fence = lit ''{}'' @ [newline] @ lit ''```'' @ [newline] @ lit ''```''"

definition plain_fence :: str where
  "plain_fence = lit ''```'' @ [newline] @ lit ''{}'' @ [newline] @ lit ''```''"

definition nested_literal :: str where
  "nested_literal =
     lit '', '' @ [dquote] @ triple_quoted @ [dquote] @ lit '').replace('' @ [squote]"

text \<open>
  Notions for stating what the client does. \<open>attempt_outcome api s req k\<close> is what the
  service answers to the attempt number \<open>k\<close> (from 0) of a client call that starts in \<open>s\<close>
  and sends \<open>req\<close> each time; \<open>after_attempts s prompt req n\<close> is the state after a client
  call with \<open>n\<close> attempts; \<open>attempt_prompt prompt expected_format k\<close> is the prompt of
  attempt \<open>k\<close> of \<^verbatim>\<open>generate_with_format_validation\<close>: the prompt with the format
  instruction, if any, and \<open>k\<close> corrective sentences.
\<close>

definition attempt_outcome :: "api \<Rightarrow> state \<Rightarrow> request \<Rightarrow> nat \<Rightarrow> error + str" where
  "attempt_outcome api s req k = api (requests s @ replicate (Suc k) req)"

definition after_attempts :: "state \<Rightarrow> str \<Rightarrow> request \<Rightarrow> nat \<Rightarrow> state" where
  "after_attempts s prompt req n =
     s\<lparr>requests := requests s @ replicate n req, client_calls := client_calls s @ [prompt]\<rparr>"

definition attempt_prompt :: "str \<Rightarrow> str option \<Rightarrow> nat \<Rightarrow> str" where
  "attempt_prompt prompt expected_format k =
     (case expected_format of
        None \<Rightarrow> prompt
      | Some f \<Rightarrow>
          if wants_html expected_format
          then prompt @ [newline, newline]
                 @ lit ''IMPORTANT: Maintain the exact HTML structure from this example: '' @ f
          else prompt)
     @ concat (replicate k corrective)"

text \<open>
  Example services and states: a service that times out twice and then answers, one that
  is down, one that answers with plain text first and with markup from the second request
  on; a state with nothing sent and no file, and one whose only file holds a placeholder
  between two brackets, on a platform whose line separator is the line feed. The other
  files are that page with another text, opened read-only, and on a device that takes
  five characters.
\<close>

definition flaky_api :: api where
  "flaky_api log =
     (if length log < 3 then Inl (APIError (lit ''timeout''))
      else Inr (lit '' Bonjour '' @ [newline]))"

definition dead_api :: api where
  "dead_api log = Inl (APIError (lit ''connection refused''))"

definition markup_api :: api where
  "markup_api log = (if length log < 2 then Inr (lit ''Hello'') else Inr (lit ''<p>Hello</p>''))"

definition fresh_state :: state where
  "fresh_state = \<lparr>requests = [], client_calls = [], files = Map.empty, linesep = [newline]\<rparr>"

definition page_file :: text_file where
  "page_file =
     \<lparr>data = lit ''[NEW_TOKEN]'', read_fault = None, open_fault = None,
      write_fault = (\<lambda>t. None)\<rparr>"

definition page_state :: state where
  "page_state =
     \<lparr>requests = [], client_calls = [], files = [lit ''page.json'' \<mapsto> page_file],
      linesep = [newline]\<rparr>"

definition page_with :: "text_file \<Rightarrow> state" where
  "page_with f = page_state\<lparr>files := [lit ''page.json'' \<mapsto> f]\<rparr>"

definition read_only_file :: text_file where
  "read_only_file = page_file\<lparr>open_fault := Some IOError\<rparr>"

definition small_device_file :: text_file where
  "small_device_file =
     page_file\<lparr>write_fault := (\<lambda>t. if length t \<le> 5 then None else Some (IOError, take 5 t))\<rparr>"

section \<open>Facts about the text primitives\<close>

lemmas text_eval =
  lit_def startswith_def isspace_def strip_def lstrip_def rstrip_def str_replace_def
  dquote_def squote_def backslash_def newline_def lt_char_def gt_char_def
  triple_quoted_def escape_quotes_def

lemma startswith_Nil [simp]: "startswith s []"
  by (simp add: startswith_def)

lemma startswith_append_drop: "startswith s p \<Longrightarrow> p @ drop (length p) s = s"
  by (metis append_take_drop_id startswith_def)

lemma startswith_Cons_Cons: "startswith (c # cs) (d # ds) = (c = d \<and> startswith cs ds)"
  by (simp add: startswith_def)

lemma contains_Nil_sub [simp]: "contains s []"
  by (cases s) simp_all

lemma rstrip_rstrip: "rstrip (rstrip s) = rstrip s"
  by (simp add: rstrip_def dropWhile_idem)

lemma rstrip_Cons:
  "rstrip (c # cs) = (if list_all isspace cs \<and> isspace c then [] else c # rstrip cs)"
proof (cases "list_all isspace cs")
  case True
  then have "dropWhile isspace (rev cs) = []"
    by (simp add: list_all_iff)
  then show ?thesis using True
    by (simp add: rstrip_def dropWhile_append list_all_iff)
next
  case False
  then have "dropWhile isspace (rev cs) \<noteq> []"
    by (simp add: list_all_iff)
  then show ?thesis using False
    by (simp add: rstrip_def dropWhile_append)
qed

lemma lstrip_rstrip_lstrip: "lstrip (rstrip (lstrip s)) = rstrip (lstrip s)"
proof (cases "lstrip s")
  case Nil
  have "lstrip (rstrip []) = rstrip []"
    by (simp add: rstrip_def lstrip_def)
  then show ?thesis
    unfolding Nil .
next
  case (Cons c cs)
  then have "\<not> isspace c"
    using hd_dropWhile [of isspace s] by (auto simp: lstrip_def)
  then have "lstrip (rstrip (c # cs)) = rstrip (c # cs)"
    by (simp add: rstrip_Cons lstrip_def)
  then show ?thesis
    unfolding Cons .
qed

lemma strip_strip: "strip (strip s) = strip s"
  by (simp add: strip_def lstrip_rstrip_lstrip rstrip_rstrip)

lemma replace_from_same: "new = old \<Longrightarrow> replace_from old new s = s"
  by (induction old new s rule: replace_from.induct)
     (simp_all add: startswith_append_drop del: drop_Suc_Cons)

lemma str_replace_same: "old \<noteq> [] \<Longrightarrow> str_replace s old old = s"
  by (simp add: str_replace_def replace_from_same)

lemma replace_from_absent: "\<not> contains s old \<Longrightarrow> replace_from old new s = s"
  by (induction old new s rule: replace_from.induct) auto

lemma str_replace_absent: "\<not> contains s old \<Longrightarrow> str_replace s old new = s"
  by (cases "old = []") (auto simp: str_replace_def replace_from_absent)

lemma sub_fence_json_absent: "\<not> contains s (lit ''```json'') \<Longrightarrow> sub_fence_json s = s"
  by (induction s rule: sub_fence_json.induct) auto

lemma endswith_iff: "endswith s p \<longleftrightarrow> (\<exists>u. s = u @ p)"
proof
  assume "endswith s p"
  then have "s = take (length s - length p) s @ p"
    using append_take_drop_id [of "length s - length p" s] by (simp add: endswith_def)
  then show "\<exists>u. s = u @ p" ..
next
  assume "\<exists>u. s = u @ p"
  then show "endswith s p"
    by (auto simp: endswith_def)
qed

lemma endswith_Cons: "endswith cs p \<Longrightarrow> endswith (c # cs) p"
  unfolding endswith_iff by (metis append_Cons)

lemma rstrip_last: "rstrip s = [] \<or> \<not> isspace (last (rstrip s))"
proof (cases "dropWhile isspace (rev s)")
  case Nil
  then show ?thesis by (simp add: rstrip_def)
next
  case (Cons x xs)
  then have "\<not> isspace x"
    using hd_dropWhile [of isspace "rev s"] by auto
  then show ?thesis
    by (simp add: rstrip_def Cons)
qed

lemma strip_last: "strip s = [] \<or> \<not> isspace (last (strip s))"
  unfolding strip_def by (rule rstrip_last)

lemma sub_fence_end_unfenced:
  "s = [] \<or> \<not> isspace (last s) \<Longrightarrow> \<not> endswith s (lit ''```'') \<Longrightarrow> sub_fence_end s = s"
proof (induction s)
  case Nil
  show ?case by simp
next
  case (Cons c cs)
  have 1: "cs = [] \<or> \<not> isspace (last cs)"
    using Cons.prems(1) by auto
  have 2: "\<not> endswith cs (lit ''```'')"
    using Cons.prems(2) endswith_Cons by blast
  have 3: "\<not> (startswith (c # cs) (lit ''```'') \<and> list_all isspace (drop 3 (c # cs)))"
  proof
    assume a: "startswith (c # cs) (lit ''```'') \<and> list_all isspace (drop 3 (c # cs))"
    have "drop 3 (c # cs) = []"
    proof (rule ccontr)
      assume n: "drop 3 (c # cs) \<noteq> []"
      then have "3 < length (c # cs)"
        by simp
      then have "last (drop 3 (c # cs)) = last (c # cs)"
        by (rule last_drop)
      moreover have "last (drop 3 (c # cs)) \<in> set (drop 3 (c # cs))"
        using n by (rule last_in_set)
      ultimately have "isspace (last (c # cs))"
        using a by (auto simp: list_all_iff)
      with Cons.prems(1) show False by simp
    qed
    then have "take 3 (c # cs) = c # cs"
      by simp
    moreover have "take 3 (c # cs) = lit ''```''"
    proof -
      have l: "length (lit ''```'') = 3"
        by (simp add: lit_def)
      from a have "take (length (lit ''```'')) (c # cs) = lit ''```''"
        by (simp only: startswith_def)
      then show ?thesis
        by (simp only: l)
    qed
    ultimately have "c # cs = [] @ lit ''```''"
      by simp
    then have "endswith (c # cs) (lit ''```'')"
      unfolding endswith_iff by blast
    with Cons.prems(2) show False by simp
  qed
  show ?case
    using Cons.IH [OF 1 2] 3 by simp
qed

lemma squote_neq_backslash [simp]: "squote \<noteq> backslash" "backslash \<noteq> squote"
  by (simp_all add: squote_def backslash_def)

lemma count_escape_quotes_from:
  "count_list (escape_quotes_from p s) squote = count_list s squote"
  by (induction p s rule: escape_quotes_from.induct) auto

lemma quotes_settled_escape: "quotes_settled p (escape_quotes_from p s)"
  by (induction p s rule: escape_quotes_from.induct)
     (simp_all add: count_escape_quotes_from)

lemma escape_quotes_from_settled: "quotes_settled p s \<Longrightarrow> escape_quotes_from p s = s"
  by (induction p s rule: escape_quotes_from.induct) simp_all

lemma quotes_settled_mono:
  "quotes_settled p s \<Longrightarrow> p = Some backslash \<longrightarrow> p' = Some backslash \<Longrightarrow> quotes_settled p' s"
  by (cases s) auto

lemma count_triple_quoted: "count_list (triple_quoted @ s) squote = Suc (count_list s squote)"
  by (simp add: triple_quoted_def lit_def squote_def dquote_def)

lemma count_replace_triple_quoted:
  "count_list (replace_from triple_quoted [squote] s) squote = count_list s squote"
proof (induction triple_quoted "[squote]" s rule: replace_from.induct)
  case 1
  show ?case by simp
next
  case (2 c cs)
  show ?case
  proof (cases "startswith (c # cs) triple_quoted")
    case True
    then have eq: "triple_quoted @ drop (length triple_quoted) (c # cs) = c # cs"
      by (rule startswith_append_drop)
    have ne: "triple_quoted \<noteq> []"
      by (simp add: triple_quoted_def lit_def)
    have "count_list (c # cs) squote = Suc (count_list (drop (length triple_quoted) (c # cs)) squote)"
      using count_triple_quoted [of "drop (length triple_quoted) (c # cs)"] eq by simp
    moreover have "replace_from triple_quoted [squote] (c # cs) =
        squote # replace_from triple_quoted [squote] (drop (length triple_quoted) (c # cs))"
      using True ne by (simp del: drop_Suc_Cons)
    ultimately show ?thesis
      using 2(1) True ne by (simp del: drop_Suc_Cons replace_from.simps)
  next
    case False
    with 2(2) show ?thesis by simp
  qed
qed


lemma quotes_settled_after_triple_quoted:
  "quotes_settled p (triple_quoted @ d) \<Longrightarrow>
     odd (count_list d squote) \<and> quotes_settled (Some 40) d"
  by (simp add: triple_quoted_def lit_def squote_def dquote_def backslash_def)

lemma quotes_settled_replace:
  "quotes_settled p s \<Longrightarrow> p = Some backslash \<longrightarrow> p' = Some backslash \<Longrightarrow>
     quotes_settled p' (replace_from triple_quoted [squote] s)"
proof (induction triple_quoted "[squote]" s arbitrary: p p' rule: replace_from.induct)
  case 1
  show ?case by simp
next
  case (2 c cs)
  have ne: "triple_quoted \<noteq> []"
    by (simp add: triple_quoted_def lit_def)
  show ?case
  proof (cases "startswith (c # cs) triple_quoted")
    case True
    let ?d = "drop (length triple_quoted) (c # cs)"
    have eq: "triple_quoted @ ?d = c # cs"
      using True by (rule startswith_append_drop)
    have "quotes_settled p (triple_quoted @ ?d)"
      using 2(3) unfolding eq .
    then have d: "odd (count_list ?d squote)" "quotes_settled (Some 40) ?d"
      using quotes_settled_after_triple_quoted by blast+
    have "quotes_settled (Some squote) (replace_from triple_quoted [squote] ?d)"
      using 2(1) [OF _ d(2), of "Some squote"] True ne by (simp add: backslash_def)
    moreover have "replace_from triple_quoted [squote] (c # cs) =
        squote # replace_from triple_quoted [squote] ?d"
      using True ne by (simp del: drop_Suc_Cons)
    ultimately show ?thesis
      using d(1) by (simp add: count_replace_triple_quoted del: replace_from.simps)
  next
    case False
    have "quotes_settled (Some c) cs"
      using 2(3) by simp
    then have "quotes_settled (Some c) (replace_from triple_quoted [squote] cs)"
      using 2(2) [of "Some c" "Some c"] False by simp
    moreover have "c \<noteq> squote \<or> p' = Some backslash \<or> odd (count_list cs squote)"
      using 2(3) 2(4) by auto
    ultimately show ?thesis
      using False by (simp add: count_replace_triple_quoted)
  qed
qed

lemma isspace_backslash [simp]: "\<not> isspace backslash"
  by (simp add: isspace_def backslash_def)

lemma isspace_squote [simp]: "\<not> isspace squote"
  by (simp add: isspace_def squote_def)

lemma quotes_settled_lstrip:
  "quotes_settled p s \<Longrightarrow> p \<noteq> Some backslash \<Longrightarrow> quotes_settled None (lstrip s)"
proof (induction s arbitrary: p)
  case Nil
  show ?case by (simp add: lstrip_def)
next
  case (Cons c cs)
  show ?case
  proof (cases "isspace c")
    case True
    then have "c \<noteq> backslash" by auto
    then have "quotes_settled None (lstrip cs)"
      using Cons.IH [of "Some c"] Cons.prems by simp
    then show ?thesis
      using True by (simp add: lstrip_def)
  next
    case False
    have "quotes_settled None (c # cs)"
      using Cons.prems(1) by (rule quotes_settled_mono) (simp add: Cons.prems(2))
    then show ?thesis
      using False by (simp add: lstrip_def)
  qed
qed

lemma quotes_settled_prefix:
  "quotes_settled p (s @ t) \<Longrightarrow> squote \<notin> set t \<Longrightarrow> quotes_settled p s"
  by (induction s arbitrary: p) auto

lemma rstrip_decompose: "\<exists>t. s = rstrip s @ t \<and> list_all isspace t"
proof -
  have "rev (takeWhile isspace (rev s) @ dropWhile isspace (rev s)) = rev (rev s)"
    by (simp only: takeWhile_dropWhile_id)
  then have "s = rstrip s @ rev (takeWhile isspace (rev s))"
    by (simp only: rstrip_def rev_append rev_rev_ident)
  moreover have "list_all isspace (rev (takeWhile isspace (rev s)))"
    by (auto simp: list_all_iff dest: set_takeWhileD)
  ultimately show ?thesis by blast
qed

lemma quotes_settled_rstrip: "quotes_settled p s \<Longrightarrow> quotes_settled p (rstrip s)"
proof -
  assume a: "quotes_settled p s"
  obtain t where t: "s = rstrip s @ t" "list_all isspace t"
    using rstrip_decompose by blast
  then have "squote \<notin> set t"
    by (auto simp: list_all_iff)
  with a t(1) show ?thesis
    using quotes_settled_prefix [of p "rstrip s" t] by simp
qed

lemma quotes_settled_clean_product:
  "quotes_settled None (clean_json_response_product x)"
proof -
  have ne: "triple_quoted \<noteq> []"
    by (simp add: triple_quoted_def lit_def)
  have "quotes_settled None (replace_from triple_quoted [squote] (escape_quotes_from None s))" for s
    using quotes_settled_replace [OF quotes_settled_escape, of None None s] by simp
  then have "quotes_settled None (lstrip (replace_from triple_quoted [squote] (escape_quotes_from None s)))" for s
    by (rule quotes_settled_lstrip) simp
  then have "quotes_settled None (strip (replace_from triple_quoted [squote] (escape_quotes_from None s)))" for s
    unfolding strip_def by (rule quotes_settled_rstrip)
  then show ?thesis
    by (simp add: clean_json_response_product_def Let_def escape_quotes_def str_replace_def ne)
qed

section \<open>Facts about the client and the generator\<close>

lemma create_eq:
  "create api req s = (api (requests s @ [req]), s\<lparr>requests := requests s @ [req]\<rparr>)"
  by (simp add: create_def Let_def)

lemma prompt_gpt_loop_last:
  "prompt_gpt_loop api prompt max_tokens (Suc (Suc 0)) s =
     (case api (requests s @ [client_request prompt max_tokens]) of
        Inr content \<Rightarrow>
          (Inr (strip content), s\<lparr>requests := requests s @ [client_request prompt max_tokens]\<rparr>)
      | Inl e \<Rightarrow> (Inl e, s\<lparr>requests := requests s @ [client_request prompt max_tokens]\<rparr>))"
  by (subst prompt_gpt_loop.simps) (simp add: max_retries_def create_eq split: sum.split)

lemma prompt_gpt_loop_second:
  "prompt_gpt_loop api prompt max_tokens (Suc 0) s =
     (case api (requests s @ [client_request prompt max_tokens]) of
        Inr content \<Rightarrow>
          (Inr (strip content), s\<lparr>requests := requests s @ [client_request prompt max_tokens]\<rparr>)
      | Inl e \<Rightarrow>
          prompt_gpt_loop api prompt max_tokens (Suc (Suc 0))
            (s\<lparr>requests := requests s @ [client_request prompt max_tokens]\<rparr>))"
  by (subst prompt_gpt_loop.simps) (simp add: max_retries_def create_eq split: sum.split)

lemma prompt_gpt_loop_first:
  "prompt_gpt_loop api prompt max_tokens 0 s =
     (case api (requests s @ [client_request prompt max_tokens]) of
        Inr content \<Rightarrow>
          (Inr (strip content), s\<lparr>requests := requests s @ [client_request prompt max_tokens]\<rparr>)
      | Inl e \<Rightarrow>
          prompt_gpt_loop api prompt max_tokens (Suc 0)
            (s\<lparr>requests := requests s @ [client_request prompt max_tokens]\<rparr>))"
  by (subst prompt_gpt_loop.simps) (simp add: max_retries_def create_eq split: sum.split)

lemma after_attempts_simps:
  "after_attempts s prompt req (Suc 0) =
     s\<lparr>requests := requests s @ [req], client_calls := client_calls s @ [prompt]\<rparr>"
  "after_attempts s prompt req (Suc (Suc 0)) =
     s\<lparr>requests := requests s @ [req, req], client_calls := client_calls s @ [prompt]\<rparr>"
  "after_attempts s prompt req (Suc (Suc (Suc 0))) =
     s\<lparr>requests := requests s @ [req, req, req], client_calls := client_calls s @ [prompt]\<rparr>"
  by (simp_all add: after_attempts_def)

lemma attempt_outcome_simps:
  "attempt_outcome api s req 0 = api (requests s @ [req])"
  "attempt_outcome api s req (Suc 0) = api (requests s @ [req, req])"
  "attempt_outcome api s req (Suc (Suc 0)) = api (requests s @ [req, req, req])"
  by (simp_all add: attempt_outcome_def)

lemma prompt_gpt_unrolled:
  "prompt_gpt api prompt max_tokens s =
     (case attempt_outcome api s (client_request prompt max_tokens) 0 of
        Inr content \<Rightarrow>
          (Inr (strip content), after_attempts s prompt (client_request prompt max_tokens) (Suc 0))
      | Inl e0 \<Rightarrow>
          (case attempt_outcome api s (client_request prompt max_tokens) (Suc 0) of
             Inr content \<Rightarrow>
               (Inr (strip content),
                after_attempts s prompt (client_request prompt max_tokens) (Suc (Suc 0)))
           | Inl e1 \<Rightarrow>
               (case attempt_outcome api s (client_request prompt max_tokens) (Suc (Suc 0)) of
                  Inr content \<Rightarrow>
                    (Inr (strip content),
                     after_attempts s prompt (client_request prompt max_tokens) (Suc (Suc (Suc 0))))
                | Inl e \<Rightarrow>
                    (Inl e,
                     after_attempts s prompt (client_request prompt max_tokens) (Suc (Suc (Suc 0)))))))"
  unfolding prompt_gpt_def prompt_gpt_loop_first prompt_gpt_loop_second prompt_gpt_loop_last
    after_attempts_simps attempt_outcome_simps
  by (simp split: sum.split)

lemma prompt_gpt_first_success:
  "attempt_outcome api s (client_request prompt max_tokens) 0 = Inr content \<Longrightarrow>
   prompt_gpt api prompt max_tokens s =
     (Inr (strip content), after_attempts s prompt (client_request prompt max_tokens) (Suc 0))"
  by (simp add: prompt_gpt_unrolled)

lemma prompt_gpt_after_attempts:
  assumes "prompt_gpt api prompt max_tokens s = (r, s')"
  shows "\<exists>n. 1 \<le> n \<and> n \<le> 3 \<and> s' = after_attempts s prompt (client_request prompt max_tokens) n"
proof -
  have "s' = after_attempts s prompt (client_request prompt max_tokens) (Suc 0)
      \<or> s' = after_attempts s prompt (client_request prompt max_tokens) (Suc (Suc 0))
      \<or> s' = after_attempts s prompt (client_request prompt max_tokens) (Suc (Suc (Suc 0)))"
    using assms unfolding prompt_gpt_unrolled by (auto split: sum.splits)
  then show ?thesis
    by (metis One_nat_def Suc_1 le_refl numeral_3_eq_3 one_le_numeral Suc_leI le_SucI zero_less_Suc)
qed

lemma prompt_gpt_effect:
  assumes "prompt_gpt api prompt max_tokens s = (r, s')"
  shows "client_calls s' = client_calls s @ [prompt]" and "files s' = files s"
    and "\<exists>n. 1 \<le> n \<and> n \<le> 3 \<and> requests s' = requests s @ replicate n (client_request prompt max_tokens)"
proof -
  from prompt_gpt_after_attempts [OF assms]
  obtain n where n: "1 \<le> n" "n \<le> 3"
    "s' = after_attempts s prompt (client_request prompt max_tokens) n"
    by blast
  then show "client_calls s' = client_calls s @ [prompt]" and "files s' = files s"
    by (simp_all add: after_attempts_def)
  from n show "\<exists>n. 1 \<le> n \<and> n \<le> 3 \<and> requests s' = requests s @ replicate n (client_request prompt max_tokens)"
    by (auto simp: after_attempts_def)
qed

lemma findall_tags_no_lt_char: "lt_char \<notin> set s \<Longrightarrow> findall_tags s = []"
  by (induction s rule: findall_tags.induct) (auto simp: Let_def)

lemma contains_single: "contains s [c] \<longleftrightarrow> c \<in> set s"
  by (induction s) (auto simp: startswith_def)

lemma validate_html_format_tags:
  "validate_html_format text (Some f) \<Longrightarrow> length (findall_tags f) \<le> length (findall_tags text)"
  by (cases "wants_html (Some f)")
     (auto simp: validate_html_format_def Let_def wants_html_def contains_single
        findall_tags_no_lt_char)

lemma validate_html_format_plain:
  "\<not> wants_html expected_format \<Longrightarrow> validate_html_format text expected_format"
  by (auto simp: validate_html_format_def split: option.split)

lemma generate_loop_last:
  "generate_loop api prompt expected_format max_tokens (Suc (Suc 0)) s =
     prompt_gpt api prompt max_tokens s"
  by (subst generate_loop.simps) (simp split: prod.split sum.split)

lemma generate_loop_second:
  "generate_loop api prompt expected_format max_tokens (Suc 0) s =
     (case prompt_gpt api prompt max_tokens s of
        (Inl e, s1) \<Rightarrow> (Inl e, s1)
      | (Inr result, s1) \<Rightarrow>
          if validate_html_format result expected_format then (Inr result, s1)
          else generate_loop api (prompt @ corrective) expected_format max_tokens (Suc (Suc 0)) s1)"
  by (subst generate_loop.simps) (simp split: prod.split sum.split)

lemma generate_loop_first:
  "generate_loop api prompt expected_format max_tokens 0 s =
     (case prompt_gpt api prompt max_tokens s of
        (Inl e, s1) \<Rightarrow> (Inl e, s1)
      | (Inr result, s1) \<Rightarrow>
          if validate_html_format result expected_format then (Inr result, s1)
          else generate_loop api (prompt @ corrective) expected_format max_tokens (Suc 0) s1)"
  by (subst generate_loop.simps) (simp split: prod.split sum.split)

lemma generate_with_format_validation_unrolled:
  "generate_with_format_validation api prompt expected_format max_tokens s =
     (case prompt_gpt api (attempt_prompt prompt expected_format 0) max_tokens s of
        (Inl e, s1) \<Rightarrow> (Inl e, s1)
      | (Inr result, s1) \<Rightarrow>
          if validate_html_format result expected_format then (Inr result, s1)
          else
            (case prompt_gpt api (attempt_prompt prompt expected_format 1) max_tokens s1 of
               (Inl e, s2) \<Rightarrow> (Inl e, s2)
             | (Inr result, s2) \<Rightarrow>
                 if validate_html_format result expected_format then (Inr result, s2)
                 else prompt_gpt api (attempt_prompt prompt expected_format 2) max_tokens s2))"
proof -
  have p: "attempt_prompt prompt expected_format 1 = attempt_prompt prompt expected_format 0 @ corrective"
    "attempt_prompt prompt expected_format 2 = (attempt_prompt prompt expected_format 0 @ corrective) @ corrective"
    by (simp_all add: attempt_prompt_def numeral_2_eq_2)
  have "generate_with_format_validation api prompt expected_format max_tokens s =
      generate_loop api (attempt_prompt prompt expected_format 0) expected_format max_tokens 0 s"
    by (simp add: generate_with_format_validation_def attempt_prompt_def Let_def split: option.split)
  then show ?thesis
    unfolding p generate_loop_first generate_loop_second generate_loop_last .
qed

lemma generate_with_format_validation_plain:
  assumes "\<not> wants_html expected_format"
  shows "generate_with_format_validation api prompt expected_format max_tokens s =
           prompt_gpt api prompt max_tokens s"
proof -
  have "attempt_prompt prompt expected_format 0 = prompt"
    using assms by (auto simp: attempt_prompt_def split: option.split)
  then show ?thesis
    using assms
    by (simp add: generate_with_format_validation_unrolled validate_html_format_plain
        split: prod.split sum.split)
qed

section \<open>Facts about translation and substitution\<close>

lemma translate_text_eq:
  "translate_text api text language s =
     (case api (requests s @ [translate_request (translate_prompt text language)]) of
        Inl e \<Rightarrow> text
      | Inr content \<Rightarrow> str_replace (strip content) [dquote] [],
      s\<lparr>requests := requests s @ [translate_request (translate_prompt text language)]\<rparr>)"
  by (simp add: translate_text_def translate_prompt_def create_eq Let_def split: sum.split)

lemma startswith_contains: "startswith s p \<Longrightarrow> contains s p"
  by (cases s) (auto simp: startswith_def)

lemma contains_append_left: "contains s p \<Longrightarrow> contains (u @ s) p"
  by (induction u) auto

lemma startswith_append_cases:
  assumes "startswith (a @ b) q"
  shows "startswith a q \<or> startswith q a"
proof (cases "length q \<le> length a")
  case True
  with assms show ?thesis
    by (simp add: startswith_def)
next
  case False
  from assms have "take (length a) (take (length q) (a @ b)) = take (length a) q"
    by (simp add: startswith_def)
  with False have "startswith q a"
    by (simp add: startswith_def min_def)
  then show ?thesis ..
qed

lemma overlaps_iff: "overlaps a b \<longleftrightarrow> (\<exists>u v. a = u @ v \<and> v \<noteq> [] \<and> startswith b v)"
proof (induction a)
  case Nil
  show ?case by simp
next
  case (Cons c cs)
  show ?case
  proof
    assume "overlaps (c # cs) b"
    then have "startswith b (c # cs) \<or> overlaps cs b"
      by simp
    then show "\<exists>u v. c # cs = u @ v \<and> v \<noteq> [] \<and> startswith b v"
    proof
      assume "startswith b (c # cs)"
      then have "c # cs = [] @ (c # cs) \<and> c # cs \<noteq> [] \<and> startswith b (c # cs)"
        by simp
      then show ?thesis by blast
    next
      assume "overlaps cs b"
      then obtain u v where "cs = u @ v" "v \<noteq> []" "startswith b v"
        using Cons.IH by blast
      then have "c # cs = (c # u) @ v \<and> v \<noteq> [] \<and> startswith b v"
        by simp
      then show ?thesis by blast
    qed
  next
    assume "\<exists>u v. c # cs = u @ v \<and> v \<noteq> [] \<and> startswith b v"
    then obtain u v where uv: "c # cs = u @ v" "v \<noteq> []" "startswith b v"
      by blast
    show "overlaps (c # cs) b"
    proof (cases u)
      case Nil
      with uv have "startswith b (c # cs)"
        by simp
      then show ?thesis by simp
    next
      case (Cons x u')
      with uv have "cs = u' @ v"
        by simp
      with uv(2,3) have "overlaps cs b"
        using Cons.IH by blast
      then show ?thesis by simp
    qed
  qed
qed

lemma contains_append_cases:
  "contains (a @ b) p \<Longrightarrow> contains a p \<or> overlaps a p \<or> contains b p"
proof (induction a)
  case Nil
  then show ?case by simp
next
  case (Cons x a)
  from Cons.prems have "startswith ((x # a) @ b) p \<or> contains (a @ b) p"
    by simp
  then show ?case
  proof
    assume "startswith ((x # a) @ b) p"
    then have "startswith (x # a) p \<or> startswith p (x # a)"
      by (rule startswith_append_cases)
    then show ?thesis by auto
  next
    assume "contains (a @ b) p"
    from Cons.IH [OF this] show ?thesis by auto
  qed
qed

text \<open>An end of the placeholder that begins the replaced text begins the text itself.\<close>

lemma startswith_replace_from_suffix:
  "\<not> contains old new \<Longrightarrow> \<not> overlaps old new \<Longrightarrow> old = p @ q \<Longrightarrow> q \<noteq> [] \<Longrightarrow>
     startswith (replace_from old new s) q \<Longrightarrow> startswith s q"
proof (induction old new s arbitrary: p q rule: replace_from.induct)
  case (1 old new)
  then show ?case by simp
next
  case (2 old new c cs)
  show ?case
  proof (cases "old \<noteq> [] \<and> startswith (c # cs) old")
    case True
    show ?thesis
    proof (cases "p = []")
      case True
      with \<open>old \<noteq> [] \<and> startswith (c # cs) old\<close> "2.prems"(3) show ?thesis by simp
    next
      case False
      have "replace_from old new (c # cs) =
          new @ replace_from old new (drop (length old) (c # cs))"
        using True by (simp del: drop_Suc_Cons)
      then have "startswith (new @ replace_from old new (drop (length old) (c # cs))) q"
        using "2.prems"(5) by simp
      then have "startswith new q \<or> startswith q new"
        by (rule startswith_append_cases)
      then show ?thesis
      proof
        assume "startswith new q"
        then have "overlaps old new"
          unfolding overlaps_iff using "2.prems"(3,4) by blast
        with "2.prems"(2) show ?thesis by simp
      next
        assume "startswith q new"
        then have "contains (p @ q) new"
          by (intro contains_append_left startswith_contains)
        with "2.prems"(1,3) show ?thesis by simp
      qed
    qed
  next
    case False
    then have r: "replace_from old new (c # cs) = c # replace_from old new cs"
      by auto
    obtain x q' where q: "q = x # q'"
      using "2.prems"(4) by (cases q) auto
    have "startswith (c # replace_from old new cs) (x # q')"
      using "2.prems"(5) r q by simp
    then have cx: "c = x" and rest: "startswith (replace_from old new cs) q'"
      by (simp_all add: startswith_Cons_Cons)
    show ?thesis
    proof (cases "q' = []")
      case True
      with cx q show ?thesis
        by (simp add: startswith_def)
    next
      case n: False
      have "old = (p @ [x]) @ q'"
        using "2.prems"(3) q by simp
      from "2.IH"(2) [OF False "2.prems"(1,2) this n rest] have "startswith cs q'" .
      with cx q show ?thesis
        by (simp add: startswith_Cons_Cons)
    qed
  qed
qed

text \<open>No occurrence of the placeholder is left when it and the new text are apart.\<close>

lemma no_placeholder_left:
  "apart old new \<Longrightarrow> \<not> contains (replace_from old new s) old"
proof (induction old new s rule: replace_from.induct)
  case (1 old new)
  then show ?case by (auto simp: apart_def)
next
  case (2 old new c cs)
  have a: "\<not> contains old new" "\<not> contains new old" "\<not> overlaps old new" "\<not> overlaps new old"
    using "2.prems" by (simp_all add: apart_def)
  have ne: "old \<noteq> []"
    using a(2) by auto
  show ?case
  proof (cases "startswith (c # cs) old")
    case True
    have r: "replace_from old new (c # cs) =
        new @ replace_from old new (drop (length old) (c # cs))"
      using True ne by (simp del: drop_Suc_Cons)
    have "\<not> contains (replace_from old new (drop (length old) (c # cs))) old"
      using "2.IH"(1) True ne "2.prems" by simp
    then show ?thesis
      unfolding r using contains_append_cases a(2,4) by blast
  next
    case False
    have "\<not> contains (replace_from old new cs) old"
      using "2.IH"(2) False "2.prems" by simp
    moreover have "\<not> startswith (replace_from old new (c # cs)) old"
      using startswith_replace_from_suffix [OF a(1,3), of "[]" old "c # cs"] ne False by auto
    ultimately show ?thesis
      using False by simp
  qed
qed

lemma startswith_append_same [simp]: "startswith (old @ v) old"
  by (simp add: startswith_def)

lemma startswith_longer:
  assumes "length p \<le> length s"
  shows "startswith (s @ t) p = startswith s p"
  using assms by (simp add: startswith_def)

lemma replace_from_first_occurrence:
  "old \<noteq> [] \<Longrightarrow> \<not> contains (u @ butlast old) old \<Longrightarrow>
     replace_from old new (u @ old @ v) = u @ new @ replace_from old new v"
proof (induction u)
  case Nil
  obtain c cs where c: "old @ v = c # cs"
    using Nil(1) by (cases old) auto
  have "startswith (c # cs) old"
    unfolding c [symmetric] by simp
  then have "replace_from old new (c # cs) = new @ replace_from old new (drop (length old) (c # cs))"
    using Nil(1) by (simp del: drop_Suc_Cons)
  then show ?case
    unfolding c [symmetric] by simp
next
  case (Cons a u)
  have split: "old = butlast old @ [last old]"
    using Cons.prems(1) by simp
  have "(a # u) @ old @ v = ((a # u) @ butlast old) @ ([last old] @ v)"
    by (subst split) simp
  moreover have "length old \<le> length ((a # u) @ butlast old)"
    by simp
  ultimately have "startswith ((a # u) @ old @ v) old = startswith ((a # u) @ butlast old) old"
    using startswith_longer by metis
  moreover have "\<not> startswith ((a # u) @ butlast old) old" "\<not> contains (u @ butlast old) old"
    using Cons.prems(2) by simp_all
  ultimately have "\<not> startswith (a # u @ old @ v) old"
    by simp
  then show ?case
    using Cons.IH [OF Cons.prems(1) \<open>\<not> contains (u @ butlast old) old\<close>] by simp
qed

lemma universal_newlines_plain: "carriage_return \<notin> set d \<Longrightarrow> universal_newlines d = d"
  by (induction d) auto

lemma write_newlines_line_feed: "write_newlines [newline] d = d" "write_newlines [10] d = d"
  by (induction d) (simp_all add: write_newlines_def newline_def)

lemma rewritten_plain:
  "plain s f \<Longrightarrow> rewritten s (universal_newlines (data f)) = data f"
  "plain s f \<Longrightarrow>
     rewritten s (str_replace (universal_newlines (data f)) placeholder content) =
       str_replace (data f) placeholder content"
  by (simp_all add: plain_def rewritten_def universal_newlines_plain write_newlines_line_feed)



lemma read_file_ok:
  "files s file_path = Some f \<Longrightarrow> read_fault f = None \<Longrightarrow>
     read_file file_path s = Inr (universal_newlines (data f))"
  by (simp add: read_file_def)

lemma write_file_ok:
  "files s file_path = Some f \<Longrightarrow> writes s f t \<Longrightarrow>
     write_file file_path t s =
       (Inr (), s\<lparr>files := (files s)(file_path \<mapsto> f\<lparr>data := rewritten s t\<rparr>)\<rparr>)"
  by (simp add: write_file_def writes_def rewritten_def store_def)

lemma replace_in_file_ok:
  assumes "files s file_path = Some f" "read_fault f = None"
    and "writes s f (str_replace (universal_newlines (data f)) placeholder content)"
  shows "replace_in_file file_path placeholder (JString content) s =
           (Inr (), s\<lparr>files := (files s)(file_path \<mapsto>
              f\<lparr>data := rewritten s (str_replace (universal_newlines (data f)) placeholder content)\<rparr>)\<rparr>)"
  using assms by (simp add: replace_in_file_def read_file_ok write_file_ok)

lemma replace_in_file_product_ok:
  assumes "files s file_path = Some f" "read_fault f = None"
    and "writes s f (str_replace (universal_newlines (data f)) placeholder content)"
    and "contains (universal_newlines (data f)) placeholder"
  shows "replace_in_file_product file_path placeholder (JString content) s =
           s\<lparr>files := (files s)(file_path \<mapsto>
              f\<lparr>data := rewritten s (str_replace (universal_newlines (data f)) placeholder content)\<rparr>)\<rparr>"
  using assms by (simp add: replace_in_file_product_def read_file_ok write_file_ok)

lemma replace_in_file_product_absent:
  assumes "files s file_path = Some f" "read_fault f = None"
    and "\<not> contains (universal_newlines (data f)) placeholder"
  shows "replace_in_file_product file_path placeholder v s = s"
  using assms by (simp add: replace_in_file_product_def read_file_ok)


lemma page_with_file: "files (page_with f) (lit ''page.json'') = Some f"
  by (simp add: page_with_def)

lemma page_file_read: "read_fault page_file = None"
  by (simp add: page_file_def)

lemma translate_text_files: "files (snd (translate_text api text language s)) = files s"
  by (simp add: translate_text_eq)


lemma read_file_files: "files t = files s \<Longrightarrow> read_file file_path t = read_file file_path s"
  by (simp add: read_file_def)

lemma replace_in_file_unreadable:
  "read_file file_path s = Inl e \<Longrightarrow>
     replace_in_file file_path placeholder content s = (Inl e, s)"
  "read_file file_path s = Inl e \<Longrightarrow> replace_in_file_product file_path placeholder content s = s"
  by (simp_all add: replace_in_file_def replace_in_file_product_def)

lemma run_translations_abort:
  "run_translations api file_path language finished s = (Inr (), s1) \<Longrightarrow>
   translation_unit api file_path language unit s1 = (Inl e, s2) \<Longrightarrow>
   run_translations api file_path language (finished @ unit # units) s = (Inl e, s2)"
  by (induction finished arbitrary: s) (auto split: prod.splits sum.splits)

lemma run_product_translations_unreadable:
  "read_file file_path s = Inl e \<Longrightarrow>
     files (run_product_translations api file_path language translations s) = files s"
proof (induction "translations" arbitrary: s)
  case Nil
  show ?case by (simp add: run_product_translations_def)
next
  case (Cons t ts)
  obtain original placeholder where t: "t = (original, placeholder)"
    by (cases t)
  obtain translated s1 where tt: "translate_text api original language s = (translated, s1)"
    by (cases "translate_text api original language s")
  have "files (snd (translate_text api original language s)) = files s"
    by (rule translate_text_files)
  then have f: "files s1 = files s"
    unfolding tt by simp
  have i: "read_file file_path s1 = Inl e"
    unfolding read_file_files [OF f] by (rule Cons.prems)
  have "run_product_translations api file_path language (t # ts) s =
      run_product_translations api file_path language ts s1"
    by (simp add: run_product_translations_def t tt replace_in_file_unreadable(2) [OF i])
  with Cons.IH [OF i] f show ?case by simp
qed

section \<open>Facts about the product unit groups\<close>

lemma fix_json_with_gpt_product_effect:
  assumes "fix_json_with_gpt_product api broken_json context expected_keys s = (fixed, s')"
  shows "files s' = files s" and "client_calls s' = client_calls s"
    and "length (requests s') = Suc (length (requests s))"
  using assms
  by (auto simp: fix_json_with_gpt_product_def create_eq split: sum.splits)

lemma generate_with_format_validation_files:
  assumes "generate_with_format_validation api prompt expected_format max_tokens s = (r, s')"
  shows "files s' = files s"
proof -
  note eq = assms [unfolded generate_with_format_validation_unrolled]
  obtain x1 s1 where c1:
    "prompt_gpt api (attempt_prompt prompt expected_format 0) max_tokens s = (x1, s1)"
    by (cases "prompt_gpt api (attempt_prompt prompt expected_format 0) max_tokens s")
  obtain x2 s2 where c2:
    "prompt_gpt api (attempt_prompt prompt expected_format 1) max_tokens s1 = (x2, s2)"
    by (cases "prompt_gpt api (attempt_prompt prompt expected_format 1) max_tokens s1")
  obtain x3 s3 where c3:
    "prompt_gpt api (attempt_prompt prompt expected_format 2) max_tokens s2 = (x3, s3)"
    by (cases "prompt_gpt api (attempt_prompt prompt expected_format 2) max_tokens s2")
  note f1 = prompt_gpt_effect(2) [OF c1] and f2 = prompt_gpt_effect(2) [OF c2]
    and f3 = prompt_gpt_effect(2) [OF c3]
  have "s' = s1 \<or> s' = s2 \<or> s' = s3"
    using eq c1 c2 c3 by (auto split: sum.splits if_splits)
  with f1 f2 f3 show ?thesis by auto
qed

lemma generate_group_files:
  "generate_group api g prompt s = (r, s') \<Longrightarrow> files s' = files s"
  by (auto simp: generate_group_def split: option.splits
      dest: prompt_gpt_effect(2) generate_with_format_validation_files)

lemma process_unit_groups_append:
  "process_unit_groups api loads render file_path (gs @ hs) s =
     (case process_unit_groups api loads render file_path gs s of
        (Inl e, s1) \<Rightarrow> (Inl e, s1)
      | (Inr u, s1) \<Rightarrow> process_unit_groups api loads render file_path hs s1)"
  by (induction gs arbitrary: s) (auto split: prod.splits sum.splits)

lemma product_retry_labels:
  "\<forall>g \<in> set product_unit_groups. ug_retry_context g = ug_context g @ lit ''_retry''"
  by (simp add: product_unit_groups_def announcements_def button_texts_def content_sections_def
      review_content_def quantity_selector_def text_sections_def lit_def)

lemma generate_button_texts:
  "generate_group markup_api button_texts (lit ''Write'') page_state =
     (Inr (lit ''Hello''),
      after_attempts page_state (lit ''Write'') (client_request (lit ''Write'') 300) (Suc 0))"
proof -
  have "attempt_outcome markup_api page_state (client_request (lit ''Write'') 300) 0
      = Inr (lit ''Hello'')"
    by (simp add: attempt_outcome_def markup_api_def page_state_def)
  from prompt_gpt_first_success [OF this] show ?thesis
    by (simp add: generate_group_def button_texts_def text_eval)
qed

section \<open>The claims\<close>

text \<open>
  C1 (amended). The sanitizer is idempotent on every input whose sanitized output holds no
  \<^verbatim>\<open>```json\<close>, does not end with three backticks and holds nothing for the last
  replacement to act on (as the source is written, the text \<^verbatim>\<open>, "'").replace(\<close>):
  sanitizing such an output again returns it unchanged. This holds for
  \<^verbatim>\<open>clean_json_response\<close> of the home and footer scripts and for that of the product
  script.
\<close>

theorem clean_json_response_idempotent_on_settled_output:
  "(\<not> contains (clean_json_response x) (lit ''```json'')
      \<and> \<not> endswith (clean_json_response x) (lit ''```'')
      \<and> \<not> contains (clean_json_response x) triple_quoted
    \<longrightarrow> clean_json_response (clean_json_response x) = clean_json_response x)
   \<and> (\<not> contains (clean_json_response_product x) (lit ''```json'')
      \<and> \<not> endswith (clean_json_response_product x) (lit ''```'')
      \<and> \<not> contains (clean_json_response_product x) triple_quoted
    \<longrightarrow> clean_json_response_product (clean_json_response_product x)
          = clean_json_response_product x)"
proof (intro conjI impI)
  have dq: "str_replace s [dquote] [dquote] = s" for s
    by (simp add: str_replace_same)
  let ?y = "clean_json_response x"
  assume a: "\<not> contains ?y (lit ''```json'') \<and> \<not> endswith ?y (lit ''```'')
      \<and> \<not> contains ?y triple_quoted"
  have s: "strip ?y = ?y"
    by (simp add: clean_json_response_def Let_def strip_strip)
  have "?y = [] \<or> \<not> isspace (last ?y)"
    using strip_last [of ?y] unfolding s .
  then have e: "sub_fence_end ?y = ?y"
    using a by (intro sub_fence_end_unfenced) simp_all
  have j: "sub_fence_json ?y = ?y"
    using a by (intro sub_fence_json_absent) simp
  have t: "str_replace ?y triple_quoted [squote] = ?y"
    using a by (intro str_replace_absent) simp
  show "clean_json_response ?y = ?y"
    unfolding clean_json_response_def [of ?y] Let_def j e dq t s ..
next
  have dq: "str_replace s [dquote] [dquote] = s" for s
    by (simp add: str_replace_same)
  let ?y = "clean_json_response_product x"
  assume a: "\<not> contains ?y (lit ''```json'') \<and> \<not> endswith ?y (lit ''```'')
      \<and> \<not> contains ?y triple_quoted"
  have s: "strip ?y = ?y"
    by (simp add: clean_json_response_product_def Let_def strip_strip)
  have "?y = [] \<or> \<not> isspace (last ?y)"
    using strip_last [of ?y] unfolding s .
  then have e: "sub_fence_end ?y = ?y"
    using a by (intro sub_fence_end_unfenced) simp_all
  have j: "sub_fence_json ?y = ?y"
    using a by (intro sub_fence_json_absent) simp
  have q: "escape_quotes ?y = ?y"
    unfolding escape_quotes_def
    by (rule escape_quotes_from_settled) (rule quotes_settled_clean_product)
  have t: "str_replace ?y triple_quoted [squote] = ?y"
    using a by (intro str_replace_absent) simp
  show "clean_json_response_product ?y = ?y"
    unfolding clean_json_response_product_def [of ?y] Let_def j e dq q t s ..
qed

text \<open>The amended C1 at a reply in a fence without a language tag: the output keeps the
  opening fence and is returned unchanged by a second pass.\<close>

lemma clean_plain_fence:
  "clean_json_response plain_fence = lit ''```'' @ [newline] @ lit ''{}''"
  "clean_json_response_product plain_fence = lit ''```'' @ [newline] @ lit ''{}''"
  by (simp_all add: clean_json_response_def clean_json_response_product_def plain_fence_def
      text_eval)

theorem clean_json_response_idempotent_witness:
  "clean_json_response plain_fence = lit ''```'' @ [newline] @ lit ''{}''
   \<and> \<not> contains (clean_json_response plain_fence) (lit ''```json'')
   \<and> \<not> endswith (clean_json_response plain_fence) (lit ''```'')
   \<and> \<not> contains (clean_json_response plain_fence) triple_quoted
   \<and> clean_json_response (clean_json_response plain_fence) = clean_json_response plain_fence
   \<and> \<not> contains (clean_json_response_product plain_fence) (lit ''```json'')
   \<and> \<not> endswith (clean_json_response_product plain_fence) (lit ''```'')
   \<and> \<not> contains (clean_json_response_product plain_fence) triple_quoted
   \<and> clean_json_response_product (clean_json_response_product plain_fence)
       = clean_json_response_product plain_fence"
proof -
  have h1: "\<not> contains (clean_json_response plain_fence) (lit ''```json'')"
    "\<not> endswith (clean_json_response plain_fence) (lit ''```'')"
    "\<not> contains (clean_json_response plain_fence) triple_quoted"
    unfolding clean_plain_fence by (simp_all add: text_eval endswith_def)
  have h2: "\<not> contains (clean_json_response_product plain_fence) (lit ''```json'')"
    "\<not> endswith (clean_json_response_product plain_fence) (lit ''```'')"
    "\<not> contains (clean_json_response_product plain_fence) triple_quoted"
    unfolding clean_plain_fence by (simp_all add: text_eval endswith_def)
  show ?thesis
    using h1 h2 clean_plain_fence(1)
      clean_json_response_idempotent_on_settled_output [of plain_fence]
    by blast
qed

text \<open>
  C1 as stated fails: a reply that closes its fence twice loses one fence per pass, so the
  second pass changes the result of the first. The same happens with a reply that holds
  the text of the last replacement around a copy of itself: each pass replaces one copy.
\<close>

theorem clean_json_response_not_idempotent:
  "clean_json_response doubled_fence = lit ''{}'' @ [newline] @ lit ''```''
   \<and> clean_json_response (clean_json_response doubled_fence) = lit ''{}''
   \<and> clean_json_response (clean_json_response doubled_fence) \<noteq> clean_json_response doubled_fence
   \<and> clean_json_response_product doubled_fence = lit ''{}'' @ [newline] @ lit ''```''
   \<and> clean_json_response_product (clean_json_response_product doubled_fence) = lit ''{}''
   \<and> clean_json_response_product (clean_json_response_product doubled_fence)
       \<noteq> clean_json_response_product doubled_fence
   \<and> clean_json_response nested_literal = triple_quoted @ [squote]
   \<and> clean_json_response (clean_json_response nested_literal) = [squote, squote]
   \<and> clean_json_response_product nested_literal = triple_quoted @ [backslash, squote]
   \<and> clean_json_response_product (clean_json_response_product nested_literal)
       = [squote, backslash, squote]"
proof -
  have 1: "clean_json_response doubled_fence = lit ''{}'' @ [newline] @ lit ''```''"
    by (simp add: clean_json_response_def doubled_fence_def text_eval)
  have 2: "clean_json_response (lit ''{}'' @ [newline] @ lit ''```'') = lit ''{}''"
    by (simp add: clean_json_response_def text_eval)
  have 3: "clean_json_response_product doubled_fence = lit ''{}'' @ [newline] @ lit ''```''"
    by (simp add: clean_json_response_product_def doubled_fence_def text_eval)
  have 4: "clean_json_response_product (lit ''{}'' @ [newline] @ lit ''```'') = lit ''{}''"
    by (simp add: clean_json_response_product_def text_eval)
  have 5: "clean_json_response nested_literal = triple_quoted @ [squote]"
    by (simp add: clean_json_response_def nested_literal_def text_eval)
  have 6: "clean_json_response (triple_quoted @ [squote]) = [squote, squote]"
    by (simp add: clean_json_response_def text_eval)
  have 7: "clean_json_response_product nested_literal = triple_quoted @ [backslash, squote]"
    by (simp add: clean_json_response_product_def nested_literal_def text_eval)
  have 8: "clean_json_response_product (triple_quoted @ [backslash, squote])
      = [squote, backslash, squote]"
    by (simp add: clean_json_response_product_def text_eval)
  show ?thesis
    unfolding 1 2 3 4 5 6 7 8 by (simp add: lit_def)
qed

text \<open>
  C3. A call of \<^verbatim>\<open>prompt_gpt\<close> sends between one and three requests; every attempt before
  the last one sent has failed; when it returns, the text is the stripped content of the
  last attempt, the first that succeeded, whatever that content is; when it raises, three
  attempts were made and the error is the one of the third. It raises if and only if all
  three attempts fail.
\<close>

theorem prompt_gpt_three_attempts:
  assumes "prompt_gpt api prompt max_tokens s = (r, s')"
  shows "(\<exists>n. 1 \<le> n \<and> n \<le> 3
           \<and> s' = after_attempts s prompt (client_request prompt max_tokens) n
           \<and> (\<forall>k. k + 1 < n \<longrightarrow> isl (attempt_outcome api s (client_request prompt max_tokens) k))
           \<and> (case r of
                 Inr text \<Rightarrow>
                   \<exists>content. attempt_outcome api s (client_request prompt max_tokens) (n - 1) = Inr content
                              \<and> text = strip content
               | Inl e \<Rightarrow>
                   n = 3 \<and> attempt_outcome api s (client_request prompt max_tokens) 2 = Inl e))
         \<and> (isl r \<longleftrightarrow> (\<forall>k<3. isl (attempt_outcome api s (client_request prompt max_tokens) k)))"
proof -
  let ?out = "attempt_outcome api s (client_request prompt max_tokens)"
  let ?after = "after_attempts s prompt (client_request prompt max_tokens)"
  let ?P = "\<lambda>n. 1 \<le> n \<and> n \<le> 3 \<and> s' = ?after n \<and> (\<forall>k. k + 1 < n \<longrightarrow> isl (?out k))
           \<and> (case r of
                 Inr text \<Rightarrow> \<exists>content. ?out (n - 1) = Inr content \<and> text = strip content
               | Inl e \<Rightarrow> n = 3 \<and> ?out 2 = Inl e)"
  have all3: "(\<forall>k<3. isl (?out k)) \<longleftrightarrow> isl (?out 0) \<and> isl (?out (Suc 0)) \<and> isl (?out (Suc (Suc 0)))"
    by (auto simp: less_Suc_eq numeral_3_eq_3)
  have lt2: "k + 1 < 2 \<longleftrightarrow> k = 0" for k :: nat
    by auto
  have lt3: "k + 1 < 3 \<longleftrightarrow> k = 0 \<or> k = Suc 0" for k :: nat
    by auto
  note eq = assms [unfolded prompt_gpt_unrolled]
  show ?thesis
  proof (cases "?out 0")
    case (Inr c)
    with eq have "r = Inr (strip c)" "s' = ?after 1"
      by simp_all
    with Inr have "?P 1" and "\<not> isl r" and "\<not> isl (?out 0)"
      by simp_all
    then show ?thesis
      unfolding all3 by blast
  next
    case e0: (Inl e0)
    show ?thesis
    proof (cases "?out (Suc 0)")
      case (Inr c)
      with eq e0 have "r = Inr (strip c)" "s' = ?after 2"
        by (simp_all add: numeral_2_eq_2)
      with Inr e0 have "?P 2" and "\<not> isl r" and "\<not> isl (?out (Suc 0))"
        by (simp_all add: lt2)
      then show ?thesis
        unfolding all3 by blast
    next
      case e1: (Inl e1)
      show ?thesis
      proof (cases "?out (Suc (Suc 0))")
        case (Inr c)
        with eq e0 e1 have "r = Inr (strip c)" "s' = ?after 3"
          by (simp_all add: numeral_3_eq_3)
        with Inr e0 e1 have "?P 3" and "\<not> isl r" and "\<not> isl (?out (Suc (Suc 0)))"
          by (auto simp: lt3 numeral_2_eq_2 less_Suc_eq)
        then show ?thesis
          unfolding all3 by blast
      next
        case (Inl e)
        with eq e0 e1 have "r = Inl e" "s' = ?after 3"
          by (simp_all add: numeral_3_eq_3)
        with Inl e0 e1 have "?P 3" and "isl r"
          and "isl (?out 0) \<and> isl (?out (Suc 0)) \<and> isl (?out (Suc (Suc 0)))"
          by (auto simp: lt3 numeral_2_eq_2 less_Suc_eq)
        then show ?thesis
          unfolding all3 by blast
      qed
    qed
  qed
qed


text \<open>C3 at a service that times out twice and then answers: the third attempt is the
  first success, and its stripped text is returned.\<close>

lemma flaky_outcomes:
  "attempt_outcome flaky_api fresh_state req 0 = Inl (APIError (lit ''timeout''))"
  "attempt_outcome flaky_api fresh_state req (Suc 0) = Inl (APIError (lit ''timeout''))"
  "attempt_outcome flaky_api fresh_state req (Suc (Suc 0)) = Inr (lit '' Bonjour '' @ [newline])"
  by (simp_all add: attempt_outcome_def flaky_api_def fresh_state_def)

lemma prompt_gpt_flaky:
  "prompt_gpt flaky_api (lit ''Say hello'') 300 fresh_state =
     (Inr (lit ''Bonjour''),
      after_attempts fresh_state (lit ''Say hello'') (client_request (lit ''Say hello'') 300) 3)"
  unfolding prompt_gpt_unrolled flaky_outcomes
  by (simp add: numeral_3_eq_3 text_eval)

theorem prompt_gpt_three_attempts_witness:
  "prompt_gpt flaky_api (lit ''Say hello'') 300 fresh_state =
     (Inr (lit ''Bonjour''),
      after_attempts fresh_state (lit ''Say hello'') (client_request (lit ''Say hello'') 300) 3)
   \<and> (\<exists>n. 1 \<le> n \<and> n \<le> 3
         \<and> (\<forall>k. k + 1 < n \<longrightarrow>
               isl (attempt_outcome flaky_api fresh_state (client_request (lit ''Say hello'') 300) k))
         \<and> (\<exists>content. attempt_outcome flaky_api fresh_state
                          (client_request (lit ''Say hello'') 300) (n - 1) = Inr content
                        \<and> lit ''Bonjour'' = strip content))
   \<and> \<not> (\<forall>k<3. isl (attempt_outcome flaky_api fresh_state (client_request (lit ''Say hello'') 300) k))"
  using prompt_gpt_flaky prompt_gpt_three_attempts [OF prompt_gpt_flaky]
  by (auto simp only: sum.case sum.disc)

text \<open>
  C5. With a reference example, \<^verbatim>\<open>generate_with_format_validation\<close> calls the client
  between one and three times, with the prompts of the attempts 0, 1 and 2 in order; a
  text returned after fewer than three calls has at least as many tags as the reference;
  and when the first two results fail the validation, the outcome of the third call is the
  outcome of the function, so a third result is returned without validation.
\<close>

theorem generate_with_format_validation_three_calls:
  assumes "generate_with_format_validation api prompt (Some reference) max_tokens s = (r, s')"
  shows "(\<exists>n. 1 \<le> n \<and> n \<le> 3
            \<and> client_calls s' = client_calls s
                  @ take n [attempt_prompt prompt (Some reference) 0,
                            attempt_prompt prompt (Some reference) 1,
                            attempt_prompt prompt (Some reference) 2]
            \<and> (\<forall>text. r = Inr text \<and> n < 3 \<longrightarrow>
                  length (findall_tags reference) \<le> length (findall_tags text)))
         \<and> (\<forall>r1 s1 r2 s2 r3 s3.
               prompt_gpt api (attempt_prompt prompt (Some reference) 0) max_tokens s = (Inr r1, s1)
               \<and> \<not> validate_html_format r1 (Some reference)
               \<and> prompt_gpt api (attempt_prompt prompt (Some reference) 1) max_tokens s1 = (Inr r2, s2)
               \<and> \<not> validate_html_format r2 (Some reference)
               \<and> prompt_gpt api (attempt_prompt prompt (Some reference) 2) max_tokens s2 = (Inr r3, s3)
               \<longrightarrow> r = Inr r3 \<and> s' = s3)"
proof (rule conjI)
  let ?p = "attempt_prompt prompt (Some reference)"
  let ?ok = "\<lambda>text. validate_html_format text (Some reference)"
  note eq = assms [unfolded generate_with_format_validation_unrolled]
  let ?Q = "\<lambda>n. 1 \<le> n \<and> n \<le> 3
            \<and> client_calls s' = client_calls s @ take n [?p 0, ?p 1, ?p 2]
            \<and> (\<forall>text. r = Inr text \<and> n < 3 \<longrightarrow>
                  length (findall_tags reference) \<le> length (findall_tags text))"
  obtain x1 s1 where c1: "prompt_gpt api (?p 0) max_tokens s = (x1, s1)"
    by (cases "prompt_gpt api (?p 0) max_tokens s")
  note t1 = prompt_gpt_effect(1) [OF c1]
  show "\<exists>n. ?Q n"
  proof (cases x1)
    case (Inl e)
    with eq c1 have "r = Inl e" "s' = s1" by simp_all
    with t1 have "?Q 1" by simp
    then show ?thesis ..
  next
    case r1: (Inr r1)
    show ?thesis
    proof (cases "?ok r1")
      case True
      with eq c1 r1 have "r = Inr r1" "s' = s1" by simp_all
      with t1 True have "?Q 1"
        by (simp add: validate_html_format_tags)
      then show ?thesis ..
    next
      case bad1: False
      obtain x2 s2 where c2: "prompt_gpt api (?p 1) max_tokens s1 = (x2, s2)"
        by (cases "prompt_gpt api (?p 1) max_tokens s1")
      note t2 = prompt_gpt_effect(1) [OF c2]
      show ?thesis
      proof (cases x2)
        case (Inl e)
        with eq c1 r1 bad1 c2 have "r = Inl e" "s' = s2" by simp_all
        with t1 t2 have "?Q 2" by (simp add: numeral_2_eq_2)
        then show ?thesis ..
      next
        case r2: (Inr r2)
        show ?thesis
        proof (cases "?ok r2")
          case True
          with eq c1 r1 bad1 c2 r2 have "r = Inr r2" "s' = s2" by simp_all
          with t1 t2 True have "?Q 2"
            by (simp add: validate_html_format_tags numeral_2_eq_2)
          then show ?thesis ..
        next
          case bad2: False
          with eq c1 r1 bad1 c2 r2
          have c3: "prompt_gpt api (?p 2) max_tokens s2 = (r, s')" by simp
          note t3 = prompt_gpt_effect(1) [OF c3]
          from t1 t2 t3 have "?Q 3" by (simp add: numeral_3_eq_3)
          then show ?thesis ..
        qed
      qed
    qed
  qed
  show "\<forall>r1 s1 r2 s2 r3 s3.
               prompt_gpt api (?p 0) max_tokens s = (Inr r1, s1) \<and> \<not> ?ok r1
               \<and> prompt_gpt api (?p 1) max_tokens s1 = (Inr r2, s2) \<and> \<not> ?ok r2
               \<and> prompt_gpt api (?p 2) max_tokens s2 = (Inr r3, s3)
               \<longrightarrow> r = Inr r3 \<and> s' = s3"
    using eq by auto
qed

text \<open>C5 at a service whose first answer has no tag and whose second has the two tags of
  the reference: the second call returns.\<close>

lemma markup_first:
  "prompt_gpt markup_api p 300 fresh_state =
     (Inr (lit ''Hello''), after_attempts fresh_state p (client_request p 300) (Suc 0))"
proof -
  have "attempt_outcome markup_api fresh_state (client_request p 300) 0 = Inr (lit ''Hello'')"
    by (simp add: attempt_outcome_def markup_api_def fresh_state_def)
  from prompt_gpt_first_success [OF this] show ?thesis
    by (simp add: text_eval)
qed

lemma markup_second:
  "prompt_gpt markup_api q 300 (after_attempts fresh_state p (client_request p 300) (Suc 0)) =
     (Inr (lit ''<p>Hello</p>''),
      after_attempts (after_attempts fresh_state p (client_request p 300) (Suc 0)) q
        (client_request q 300) (Suc 0))"
proof -
  have "attempt_outcome markup_api (after_attempts fresh_state p (client_request p 300) (Suc 0))
          (client_request q 300) 0 = Inr (lit ''<p>Hello</p>'')"
    by (simp add: attempt_outcome_def markup_api_def fresh_state_def after_attempts_def)
  from prompt_gpt_first_success [OF this] show ?thesis
    by (simp add: text_eval)
qed

lemma validate_examples:
  "\<not> validate_html_format (lit ''Hello'') (Some (lit ''<p>Text</p>''))"
  "validate_html_format (lit ''<p>Hello</p>'') (Some (lit ''<p>Text</p>''))"
  by (simp_all add: validate_html_format_def wants_html_def Let_def text_eval)

lemma generate_markup:
  "generate_with_format_validation markup_api (lit ''Write'') (Some (lit ''<p>Text</p>'')) 300
     fresh_state =
     (Inr (lit ''<p>Hello</p>''),
      after_attempts
        (after_attempts fresh_state (attempt_prompt (lit ''Write'') (Some (lit ''<p>Text</p>'')) 0)
           (client_request (attempt_prompt (lit ''Write'') (Some (lit ''<p>Text</p>'')) 0) 300) (Suc 0))
        (attempt_prompt (lit ''Write'') (Some (lit ''<p>Text</p>'')) 1)
        (client_request (attempt_prompt (lit ''Write'') (Some (lit ''<p>Text</p>'')) 1) 300) (Suc 0))"
  unfolding generate_with_format_validation_unrolled
  by (simp add: markup_first markup_second validate_examples)

theorem generate_with_format_validation_witness:
  "generate_with_format_validation markup_api (lit ''Write'') (Some (lit ''<p>Text</p>'')) 300
     fresh_state =
     (Inr (lit ''<p>Hello</p>''),
      after_attempts
        (after_attempts fresh_state (attempt_prompt (lit ''Write'') (Some (lit ''<p>Text</p>'')) 0)
           (client_request (attempt_prompt (lit ''Write'') (Some (lit ''<p>Text</p>'')) 0) 300) (Suc 0))
        (attempt_prompt (lit ''Write'') (Some (lit ''<p>Text</p>'')) 1)
        (client_request (attempt_prompt (lit ''Write'') (Some (lit ''<p>Text</p>'')) 1) 300) (Suc 0))
   \<and> (\<exists>n::nat. 1 \<le> n \<and> n \<le> 3
         \<and> (n < 3 \<longrightarrow> length (findall_tags (lit ''<p>Text</p>''))
                          \<le> length (findall_tags (lit ''<p>Hello</p>''))))"
proof -
  from generate_with_format_validation_three_calls [OF generate_markup, THEN conjunct1]
  obtain n :: nat where n: "1 \<le> n" "n \<le> 3"
    and tags: "\<forall>text. (Inr (lit ''<p>Hello</p>'') :: error + str) = Inr text \<and> n < 3 \<longrightarrow>
       length (findall_tags (lit ''<p>Text</p>'')) \<le> length (findall_tags text)"
    by (elim exE conjE) (rule that, assumption+)
  from tags have "n < 3 \<longrightarrow> length (findall_tags (lit ''<p>Text</p>''))
                          \<le> length (findall_tags (lit ''<p>Hello</p>''))"
    by simp
  with n generate_markup show ?thesis
    by blast
qed

text \<open>
  C10. When \<open>expected_format\<close> is \<^verbatim>\<open>None\<close> or holds no \<^verbatim>\<open><\<close>,
  \<^verbatim>\<open>generate_with_format_validation\<close> is one call of \<^verbatim>\<open>prompt_gpt\<close> on the prompt as
  given: same result, same state, one entry in the trace of client calls, the prompt itself.
  The reference of the video-heading unit of the home page, the ninth unit of
  \<^verbatim>\<open>process_generated_content\<close>, holds no \<^verbatim>\<open><\<close>, so the unit substitutes whatever the first
  client call returns.
\<close>

theorem generate_without_markup_reference:
  assumes "case expected_format of None \<Rightarrow> True | Some f \<Rightarrow> lt_char \<notin> set f"
  shows "generate_with_format_validation api prompt expected_format max_tokens s =
           prompt_gpt api prompt max_tokens s
         \<and> client_calls (snd (generate_with_format_validation api prompt expected_format max_tokens s))
             = client_calls s @ [prompt]
         \<and> lt_char \<notin> set (lit ''**Transform** Your Experience'')
         \<and> home_units ! 8 = video_heading_unit
         \<and> process_unit api loads render HOME_JSON_PATH video_heading_unit s =
             (case prompt_gpt api (render (lit ''generate_video_heading_prompt'')) 300 s of
                (Inl e, s1) \<Rightarrow> (Inl e, s1)
              | (Inr text, s1) \<Rightarrow>
                  replace_in_file HOME_JSON_PATH (lit ''NEW_VIDEO_HEADING_GENERATED'')
                    (JString text) s1)"
proof -
  have plain: "\<not> wants_html expected_format"
    using assms by (auto simp: wants_html_def contains_single split: option.splits)
  have video: "\<not> wants_html (Some (lit ''**Transform** Your Experience''))"
    by (simp add: wants_html_def contains_single lit_def lt_char_def)
  have 1: "generate_with_format_validation api prompt expected_format max_tokens s =
           prompt_gpt api prompt max_tokens s"
    using plain by (rule generate_with_format_validation_plain)
  have 2: "client_calls (snd (generate_with_format_validation api prompt expected_format max_tokens s))
             = client_calls s @ [prompt]"
    unfolding 1 by (rule prompt_gpt_effect(1) [of api prompt max_tokens s]) (rule prod.collapse [symmetric])
  have 3: "lt_char \<notin> set (lit ''**Transform** Your Experience'')"
    by (simp add: lit_def lt_char_def)
  have 4: "home_units ! 8 = video_heading_unit"
    by (simp add: home_units_def video_heading_unit_def)
  have 5: "process_unit api loads render HOME_JSON_PATH video_heading_unit s =
             (case prompt_gpt api (render (lit ''generate_video_heading_prompt'')) 300 s of
                (Inl e, s1) \<Rightarrow> (Inl e, s1)
              | (Inr text, s1) \<Rightarrow>
                  replace_in_file HOME_JSON_PATH (lit ''NEW_VIDEO_HEADING_GENERATED'')
                    (JString text) s1)"
    by (simp add: video_heading_unit_def generate_def
        generate_with_format_validation_plain [OF video])
  from 1 2 3 4 5 show ?thesis by blast
qed

text \<open>C10 at the reference of the video-heading unit.\<close>

theorem generate_without_markup_reference_witness:
  "(case Some (lit ''**Transform** Your Experience'') of None \<Rightarrow> True | Some f \<Rightarrow> lt_char \<notin> set f)
   \<and> generate_with_format_validation flaky_api (lit ''Say hello'')
        (Some (lit ''**Transform** Your Experience'')) 300 fresh_state =
      prompt_gpt flaky_api (lit ''Say hello'') 300 fresh_state"
proof -
  have h: "case Some (lit ''**Transform** Your Experience'') of
             None \<Rightarrow> True | Some f \<Rightarrow> lt_char \<notin> set f"
    by (simp add: lit_def lt_char_def)
  from h generate_without_markup_reference [OF h] show ?thesis
    by blast
qed

text \<open>
  C6. \<^verbatim>\<open>fix_json_with_gpt\<close> returns a text on every path: the model's result has no error
  component, as every exception of the call is caught. It sends exactly one request, not
  through \<^verbatim>\<open>prompt_gpt\<close>; when the call fails the result is \<open>broken_json\<close> as given, and
  when it succeeds the result is the sanitized, stripped content. This holds for the
  home and footer variant and for the product variant.
\<close>

theorem fix_json_with_gpt_one_call:
  "fix_json_with_gpt api broken_json context s =
     (case api (requests s @ [fix_request (fix_prompt broken_json context) 500]) of
        Inl e \<Rightarrow> broken_json
      | Inr content \<Rightarrow> clean_json_response (strip content),
      s\<lparr>requests := requests s @ [fix_request (fix_prompt broken_json context) 500]\<rparr>)
   \<and> client_calls (snd (fix_json_with_gpt api broken_json context s)) = client_calls s
   \<and> fix_json_with_gpt_product api broken_json context expected_keys s =
     (case api (requests s
                @ [fix_request (fix_prompt_product broken_json context expected_keys) 2000]) of
        Inl e \<Rightarrow> broken_json
      | Inr content \<Rightarrow> clean_json_response_product (strip content),
      s\<lparr>requests := requests s
           @ [fix_request (fix_prompt_product broken_json context expected_keys) 2000]\<rparr>)
   \<and> client_calls (snd (fix_json_with_gpt_product api broken_json context expected_keys s))
       = client_calls s"
  by (simp add: fix_json_with_gpt_def fix_json_with_gpt_product_def create_eq split: sum.split)

text \<open>C6 at a service that is down, and at one that answers on the third request.\<close>

theorem fix_json_with_gpt_instances:
  "fix_json_with_gpt dead_api (lit ''{a: 1}'') (lit ''reviews'') fresh_state =
     (lit ''{a: 1}'',
      fresh_state\<lparr>requests := [fix_request (fix_prompt (lit ''{a: 1}'') (lit ''reviews'')) 500]\<rparr>)
   \<and> fst (fix_json_with_gpt_product flaky_api (lit ''{a: 1}'') (lit ''reviews'') None
            (fresh_state\<lparr>requests := [translate_request [], translate_request []]\<rparr>)) = lit ''Bonjour''"
proof -
  have 1: "fix_json_with_gpt dead_api (lit ''{a: 1}'') (lit ''reviews'') fresh_state =
     (lit ''{a: 1}'',
      fresh_state\<lparr>requests := [fix_request (fix_prompt (lit ''{a: 1}'') (lit ''reviews'')) 500]\<rparr>)"
    using fix_json_with_gpt_one_call [of dead_api "lit ''{a: 1}''" "lit ''reviews''" fresh_state]
    by (simp add: dead_api_def fresh_state_def)
  have "fst (fix_json_with_gpt_product flaky_api (lit ''{a: 1}'') (lit ''reviews'') None
            (fresh_state\<lparr>requests := [translate_request [], translate_request []]\<rparr>))
        = clean_json_response_product (strip (lit '' Bonjour '' @ [newline]))"
    using fix_json_with_gpt_one_call [of flaky_api "lit ''{a: 1}''" "lit ''reviews''"
        "fresh_state\<lparr>requests := [translate_request [], translate_request []]\<rparr>" None]
    by (simp add: flaky_api_def)
  also have "\<dots> = lit ''Bonjour''"
    by (simp add: clean_json_response_product_def text_eval)
  finally show ?thesis
    using 1 by simp
qed

text \<open>
  C7 (amended). \<^verbatim>\<open>translate_text\<close> sends exactly one request, straight to the service and
  not through \<^verbatim>\<open>prompt_gpt\<close>, and returns a text on every path: the source text when the
  call fails, the stripped content without double quotes when it succeeds. A translation
  unit substitutes that text for its placeholders, on the home and footer path and in the
  loop of the product path.
\<close>

theorem translate_text_single_call_with_fallback:
  "translate_text api text language s =
     (case api (requests s @ [translate_request (translate_prompt text language)]) of
        Inl e \<Rightarrow> text
      | Inr content \<Rightarrow> str_replace (strip content) [dquote] [],
      s\<lparr>requests := requests s @ [translate_request (translate_prompt text language)]\<rparr>)
   \<and> client_calls (snd (translate_text api text language s)) = client_calls s
   \<and> files (snd (translate_text api text language s)) = files s
   \<and> translation_unit api file_path language (text, placeholders) s =
       replace_tokens file_path placeholders
         (JString (fst (translate_text api text language s)))
         (snd (translate_text api text language s))
   \<and> run_product_translations api file_path language ((text, placeholder) # translations) s =
       run_product_translations api file_path language translations
         (replace_in_file_product file_path placeholder
            (JString (fst (translate_text api text language s)))
            (snd (translate_text api text language s)))"
  by (simp add: translate_text_eq translation_unit_def run_product_translations_def
      split: sum.split prod.split)

text \<open>
  C7 as stated fails: with the service down, a translation unit sends one request, makes
  no client call, raises nothing and writes the untranslated source text into the file.
\<close>

theorem translation_failure_substitutes_source:
  "translation_unit dead_api (lit ''page.json'') (lit ''German'') (lit ''Shop'', [lit ''NEW_TOKEN''])
     page_state =
     (Inr (),
      page_state\<lparr>requests := [translate_request (translate_prompt (lit ''Shop'') (lit ''German''))],
                 files := (files page_state)(lit ''page.json'' \<mapsto>
                            page_file\<lparr>data := lit ''[Shop]''\<rparr>)\<rparr>)
   \<and> client_calls (snd (translation_unit dead_api (lit ''page.json'') (lit ''German'')
                           (lit ''Shop'', [lit ''NEW_TOKEN'']) page_state)) = []"
proof -
  have r: "str_replace (data page_file) (lit ''NEW_TOKEN'') (lit ''Shop'') = lit ''[Shop]''"
    by (simp add: page_file_def text_eval)
  have t: "translate_text dead_api (lit ''Shop'') (lit ''German'') page_state =
      (lit ''Shop'',
       page_state\<lparr>requests := [translate_request (translate_prompt (lit ''Shop'') (lit ''German''))]\<rparr>)"
    by (simp add: translate_text_eq dead_api_def page_state_def)
  have f: "files (page_state\<lparr>requests := rs\<rparr>) (lit ''page.json'') = Some page_file" for rs
    by (simp add: page_state_def)
  have u: "universal_newlines (data page_file) = data page_file"
    by (simp add: page_file_def universal_newlines_plain carriage_return_def lit_def)
  have w: "writes (page_state\<lparr>requests := rs\<rparr>) page_file (lit ''[Shop]'')" for rs
    by (simp add: writes_def page_state_def page_file_def encodable_def lit_def)
  have rw: "rewritten (page_state\<lparr>requests := rs\<rparr>) (lit ''[Shop]'') = lit ''[Shop]''" for rs
    by (simp add: rewritten_def page_state_def write_newlines_line_feed)
  have "replace_in_file (lit ''page.json'') (lit ''NEW_TOKEN'') (JString (lit ''Shop''))
      (page_state\<lparr>requests := rs\<rparr>) =
      (Inr (), page_state\<lparr>requests := rs, files := (files page_state)(lit ''page.json'' \<mapsto>
                            page_file\<lparr>data := lit ''[Shop]''\<rparr>)\<rparr>)" for rs
    using replace_in_file_ok [OF f page_file_read, of rs "lit ''NEW_TOKEN''" "lit ''Shop''"]
    unfolding u r rw using w [of rs] by (simp add: page_state_def)
  then show ?thesis
    by (simp add: translation_unit_def t) (simp add: page_state_def)
qed

text \<open>
  C2 (amended). When the file is read and written without an error, \<^verbatim>\<open>replace_in_file\<close> of
  the home and footer scripts leaves in it the text as Python reads it (line ends as line
  feeds) with the occurrences of the placeholder replaced as \<^verbatim>\<open>str.replace\<close> does, written
  with the platform's line separator; that of the product script does the same when the
  text holds the placeholder and leaves the file alone when it does not. For a file
  without carriage returns on a platform whose separator is the line feed this is the
  prior content with the occurrences replaced: a text without the placeholder is kept; in
  a text with it, what precedes the first occurrence is kept, the occurrence becomes the
  content, and the rest is treated the same way. No occurrence of the placeholder remains
  when the placeholder and the content neither occur in nor overlap each other.
\<close>

theorem replace_in_file_substitutes:
  assumes "files s file_path = Some f" "read_fault f = None"
  shows "(writes s f (str_replace (universal_newlines (data f)) placeholder content) \<longrightarrow>
            replace_in_file file_path placeholder (JString content) s =
              (Inr (), s\<lparr>files := (files s)(file_path \<mapsto>
                 f\<lparr>data := rewritten s
                   (str_replace (universal_newlines (data f)) placeholder content)\<rparr>)\<rparr>))
         \<and> (writes s f (str_replace (universal_newlines (data f)) placeholder content)
              \<and> contains (universal_newlines (data f)) placeholder \<longrightarrow>
            replace_in_file_product file_path placeholder (JString content) s =
              s\<lparr>files := (files s)(file_path \<mapsto>
                 f\<lparr>data := rewritten s
                   (str_replace (universal_newlines (data f)) placeholder content)\<rparr>)\<rparr>)
         \<and> (\<not> contains (universal_newlines (data f)) placeholder \<longrightarrow>
            replace_in_file_product file_path placeholder (JString content) s = s)
         \<and> (plain s f \<longrightarrow>
            rewritten s (str_replace (universal_newlines (data f)) placeholder content) =
              str_replace (data f) placeholder content)
         \<and> (\<forall>d. \<not> contains d placeholder \<longrightarrow> str_replace d placeholder content = d)
         \<and> (\<forall>u v. placeholder \<noteq> [] \<and> \<not> contains (u @ butlast placeholder) placeholder \<longrightarrow>
               str_replace (u @ placeholder @ v) placeholder content =
                 u @ content @ str_replace v placeholder content)
         \<and> (\<forall>d. apart placeholder content \<longrightarrow>
               \<not> contains (str_replace d placeholder content) placeholder)"
proof -
  have first: "\<forall>u v. placeholder \<noteq> [] \<and> \<not> contains (u @ butlast placeholder) placeholder \<longrightarrow>
      str_replace (u @ placeholder @ v) placeholder content =
        u @ content @ str_replace v placeholder content"
    by (simp add: str_replace_def replace_from_first_occurrence)
  have none: "\<forall>d. apart placeholder content \<longrightarrow>
      \<not> contains (str_replace d placeholder content) placeholder"
  proof (intro allI impI)
    fix d
    assume a: "apart placeholder content"
    then have "placeholder \<noteq> []"
      by (auto simp: apart_def)
    then show "\<not> contains (str_replace d placeholder content) placeholder"
      using no_placeholder_left [OF a] by (simp add: str_replace_def)
  qed
  have absent: "\<forall>d. \<not> contains d placeholder \<longrightarrow> str_replace d placeholder content = d"
    by (simp add: str_replace_absent)
  show ?thesis
    using replace_in_file_ok [OF assms] replace_in_file_product_ok [OF assms]
      replace_in_file_product_absent [OF assms] rewritten_plain(2) first none absent
    by blast
qed

text \<open>C2 (amended) at a page that holds a placeholder of the footer once, with the source
  text of its translation, which shares a letter with the placeholder.\<close>

theorem replace_in_file_substitutes_witness:
  "files (page_with (page_file\<lparr>data := lit ''[NEW_FOOTER_SHOP_HEADING_TRANSLATED]''\<rparr>))
     (lit ''page.json'') = Some (page_file\<lparr>data := lit ''[NEW_FOOTER_SHOP_HEADING_TRANSLATED]''\<rparr>)
   \<and> read_fault (page_file\<lparr>data := lit ''[NEW_FOOTER_SHOP_HEADING_TRANSLATED]''\<rparr>) = None
   \<and> apart (lit ''NEW_FOOTER_SHOP_HEADING_TRANSLATED'') (lit ''Shop'')
   \<and> set (lit ''NEW_FOOTER_SHOP_HEADING_TRANSLATED'') \<inter> set (lit ''Shop'') \<noteq> {}
   \<and> replace_in_file (lit ''page.json'') (lit ''NEW_FOOTER_SHOP_HEADING_TRANSLATED'')
       (JString (lit ''Shop''))
       (page_with (page_file\<lparr>data := lit ''[NEW_FOOTER_SHOP_HEADING_TRANSLATED]''\<rparr>)) =
       (Inr (), page_with (page_file\<lparr>data := lit ''[Shop]''\<rparr>))
   \<and> \<not> contains (lit ''[Shop]'') (lit ''NEW_FOOTER_SHOP_HEADING_TRANSLATED'')"
proof -
  let ?f = "page_file\<lparr>data := lit ''[NEW_FOOTER_SHOP_HEADING_TRANSLATED]''\<rparr>"
  let ?t = "lit ''NEW_FOOTER_SHOP_HEADING_TRANSLATED''"
  have u: "universal_newlines (data ?f) = lit ''[NEW_FOOTER_SHOP_HEADING_TRANSLATED]''"
    by (simp add: universal_newlines_plain carriage_return_def lit_def)
  have r: "str_replace (lit ''[NEW_FOOTER_SHOP_HEADING_TRANSLATED]'') ?t (lit ''Shop'')
      = lit ''[Shop]''"
    by (simp add: text_eval)
  have w: "writes (page_with ?f) ?f (lit ''[Shop]'')"
    by (simp add: writes_def page_with_def page_state_def page_file_def encodable_def lit_def)
  have rw: "rewritten (page_with ?f) (lit ''[Shop]'') = lit ''[Shop]''"
    by (simp add: rewritten_def page_with_def page_state_def write_newlines_line_feed)
  have a: "apart ?t (lit ''Shop'')"
    by (simp add: apart_def text_eval)
  have i: "set ?t \<inter> set (lit ''Shop'') \<noteq> {}"
    by (simp add: lit_def)
  have p: "(page_with ?f)\<lparr>files := (files (page_with ?f))(lit ''page.json'' \<mapsto>
      ?f\<lparr>data := lit ''[Shop]''\<rparr>)\<rparr> = page_with (page_file\<lparr>data := lit ''[Shop]''\<rparr>)"
    by (simp add: page_with_def)
  have rf: "read_fault ?f = None"
    by (simp add: page_file_def)
  note t = replace_in_file_substitutes [OF page_with_file rf,
      where placeholder = ?t and content = "lit ''Shop''", unfolded u r rw p]
  have 1: "replace_in_file (lit ''page.json'') ?t (JString (lit ''Shop'')) (page_with ?f) =
      (Inr (), page_with (page_file\<lparr>data := lit ''[Shop]''\<rparr>))"
    using t [THEN conjunct1] w by blast
  have "\<not> contains (str_replace (lit ''[NEW_FOOTER_SHOP_HEADING_TRANSLATED]'') ?t (lit ''Shop'')) ?t"
    using t a by blast
  then have 2: "\<not> contains (lit ''[Shop]'') ?t"
    unfolding r .
  show ?thesis
    using page_with_file [of ?f] rf a i 1 2 by blast
qed

text \<open>
  C2 as stated fails. A content that holds the placeholder leaves an occurrence of it in
  the file. So does a content that begins with an end of the placeholder, after a text
  that ends with the rest of it; a content that ends with a beginning of the placeholder,
  before a text that begins with the rest of it; and an empty content, inside a text that
  holds the placeholder between its two halves. A content with a lone surrogate, which
  \<^verbatim>\<open>json.loads\<close> can return, cannot be encoded: the product variant returns with the file
  emptied. A file with a carriage return before its line feed loses it.
\<close>

theorem replace_in_file_leaves_placeholder:
  "replace_in_file (lit ''page.json'') (lit ''NEW_TOKEN'') (JString (lit ''See NEW_TOKEN'')) page_state =
     (Inr (), page_with (page_file\<lparr>data := lit ''[See NEW_TOKEN]''\<rparr>))
   \<and> replace_in_file_product (lit ''page.json'') (lit ''NEW_TOKEN'') (JString (lit ''See NEW_TOKEN''))
       page_state = page_with (page_file\<lparr>data := lit ''[See NEW_TOKEN]''\<rparr>)
   \<and> contains (lit ''[See NEW_TOKEN]'') (lit ''NEW_TOKEN'')
   \<and> replace_in_file (lit ''page.json'') (lit ''NEW_TOKEN'') (JString (lit ''EN route''))
       (page_with (page_file\<lparr>data := lit ''NEW_TOKNEW_TOKEN''\<rparr>)) =
     (Inr (), page_with (page_file\<lparr>data := lit ''NEW_TOKEN route''\<rparr>))
   \<and> \<not> contains (lit ''EN route'') (lit ''NEW_TOKEN'')
   \<and> contains (lit ''NEW_TOKEN route'') (lit ''NEW_TOKEN'')
   \<and> replace_in_file (lit ''page.json'') (lit ''NEW_TOKEN'') (JString (lit ''a N''))
       (page_with (page_file\<lparr>data := lit ''NEW_TOKENEW_TOKEN''\<rparr>)) =
     (Inr (), page_with (page_file\<lparr>data := lit ''a NEW_TOKEN''\<rparr>))
   \<and> \<not> contains (lit ''a N'') (lit ''NEW_TOKEN'')
   \<and> contains (lit ''a NEW_TOKEN'') (lit ''NEW_TOKEN'')
   \<and> replace_in_file (lit ''page.json'') (lit ''NEW_TOKEN'') (JString [])
       (page_with (page_file\<lparr>data := lit ''NEW_NEW_TOKENTOKEN''\<rparr>)) =
     (Inr (), page_with (page_file\<lparr>data := lit ''NEW_TOKEN''\<rparr>))
   \<and> replace_in_file_product (lit ''page.json'') (lit ''NEW_TOKEN'') (JString [55357]) page_state =
       page_with (page_file\<lparr>data := []\<rparr>)
   \<and> replace_in_file (lit ''page.json'') (lit ''NEW_TOKEN'') (JString (lit ''Bonjour''))
       (page_with (page_file\<lparr>data := lit ''[NEW_TOKEN]'' @ [carriage_return, newline]\<rparr>)) =
     (Inr (), page_with (page_file\<lparr>data := lit ''[Bonjour]'' @ [newline]\<rparr>))"
proof -
  have 1: "replace_in_file (lit ''page.json'') (lit ''NEW_TOKEN'') (JString (lit ''See NEW_TOKEN''))
      page_state = (Inr (), page_with (page_file\<lparr>data := lit ''[See NEW_TOKEN]''\<rparr>))"
    by (simp add: replace_in_file_def read_file_def write_file_def store_def page_with_def
        page_state_def page_file_def write_newlines_line_feed encodable_def carriage_return_def
        text_eval)
  have 2: "replace_in_file_product (lit ''page.json'') (lit ''NEW_TOKEN'')
      (JString (lit ''See NEW_TOKEN'')) page_state =
      page_with (page_file\<lparr>data := lit ''[See NEW_TOKEN]''\<rparr>)"
    by (simp add: replace_in_file_product_def read_file_def write_file_def store_def page_with_def
        page_state_def page_file_def write_newlines_line_feed encodable_def carriage_return_def
        text_eval)
  have 3: "contains (lit ''[See NEW_TOKEN]'') (lit ''NEW_TOKEN'')"
    "\<not> contains (lit ''EN route'') (lit ''NEW_TOKEN'')"
    "contains (lit ''NEW_TOKEN route'') (lit ''NEW_TOKEN'')"
    by (simp_all add: text_eval)
  have 4: "replace_in_file (lit ''page.json'') (lit ''NEW_TOKEN'') (JString (lit ''EN route''))
       (page_with (page_file\<lparr>data := lit ''NEW_TOKNEW_TOKEN''\<rparr>)) =
     (Inr (), page_with (page_file\<lparr>data := lit ''NEW_TOKEN route''\<rparr>))"
    by (simp add: replace_in_file_def read_file_def write_file_def store_def page_with_def
        page_state_def page_file_def write_newlines_line_feed encodable_def carriage_return_def
        text_eval)
  have 7: "\<not> contains (lit ''a N'') (lit ''NEW_TOKEN'')"
    "contains (lit ''a NEW_TOKEN'') (lit ''NEW_TOKEN'')"
    by (simp_all add: text_eval)
  have 8: "replace_in_file (lit ''page.json'') (lit ''NEW_TOKEN'') (JString (lit ''a N''))
       (page_with (page_file\<lparr>data := lit ''NEW_TOKENEW_TOKEN''\<rparr>)) =
     (Inr (), page_with (page_file\<lparr>data := lit ''a NEW_TOKEN''\<rparr>))"
    by (simp add: replace_in_file_def read_file_def write_file_def store_def page_with_def
        page_state_def page_file_def write_newlines_line_feed encodable_def carriage_return_def
        text_eval)
  have 9: "replace_in_file (lit ''page.json'') (lit ''NEW_TOKEN'') (JString [])
       (page_with (page_file\<lparr>data := lit ''NEW_NEW_TOKENTOKEN''\<rparr>)) =
     (Inr (), page_with (page_file\<lparr>data := lit ''NEW_TOKEN''\<rparr>))"
    by (simp add: replace_in_file_def read_file_def write_file_def store_def page_with_def
        page_state_def page_file_def write_newlines_line_feed encodable_def carriage_return_def
        text_eval)
  have 5: "replace_in_file_product (lit ''page.json'') (lit ''NEW_TOKEN'') (JString [55357])
      page_state = page_with (page_file\<lparr>data := []\<rparr>)"
    by (simp add: replace_in_file_product_def read_file_def write_file_def store_def page_with_def
        page_state_def page_file_def encodable_def carriage_return_def text_eval)
  have 6: "replace_in_file (lit ''page.json'') (lit ''NEW_TOKEN'') (JString (lit ''Bonjour''))
       (page_with (page_file\<lparr>data := lit ''[NEW_TOKEN]'' @ [carriage_return, newline]\<rparr>)) =
     (Inr (), page_with (page_file\<lparr>data := lit ''[Bonjour]'' @ [newline]\<rparr>))"
    by (simp add: replace_in_file_def read_file_def write_file_def store_def page_with_def
        page_state_def page_file_def write_newlines_line_feed encodable_def carriage_return_def
        text_eval)
  show ?thesis
    using 1 2 3 4 5 6 7 8 9 by blast
qed




text \<open>
  C9 (amended). \<^verbatim>\<open>replace_in_file\<close> of the home and footer scripts raises what the read, the
  open for writing or the write raises, and the error ends the run: a failing substitution
  ends the translations there, and the page function returns the error of its
  translations. An error of the read or of the open leaves the file as it was; an error of
  the write leaves it truncated: empty when the text cannot be encoded, with what the
  failed write left otherwise. \<^verbatim>\<open>replace_in_file\<close> of the product script catches the error
  and returns normally, with the file in that same state; with a file that cannot be read
  the translation phase of the product page runs to its end without touching the file.
\<close>

theorem replace_in_file_io_failure:
  "(read_file file_path s = Inl e \<longrightarrow>
      replace_in_file file_path placeholder v s = (Inl e, s)
      \<and> replace_in_file_product file_path placeholder v s = s
      \<and> files (process_product_translations api file_path language s) = files s)
   \<and> (read_file file_path s = Inr d
        \<and> write_file file_path (str_replace d placeholder content) s = (Inl e, s') \<longrightarrow>
      replace_in_file file_path placeholder (JString content) s = (Inl e, s')
      \<and> replace_in_file_product file_path placeholder (JString content) s =
          (if contains d placeholder then s' else s))
   \<and> (files s file_path = Some f \<and> open_fault f = Some e \<longrightarrow>
      write_file file_path t s = (Inl e, s))
   \<and> (files s file_path = Some f \<and> open_fault f = None \<and> \<not> encodable t \<longrightarrow>
      write_file file_path t s =
        (Inl UnicodeEncodeError, s\<lparr>files := (files s)(file_path \<mapsto> f\<lparr>data := []\<rparr>)\<rparr>))
   \<and> (files s file_path = Some f \<and> open_fault f = None \<and> encodable t
        \<and> write_fault f (write_newlines (linesep s) t) = Some (e, left) \<longrightarrow>
      write_file file_path t s =
        (Inl e, s\<lparr>files := (files s)(file_path \<mapsto> f\<lparr>data := left\<rparr>)\<rparr>))
   \<and> (\<forall>finished s1.
        run_translations api file_path language finished s = (Inr (), s1)
        \<and> replace_in_file file_path placeholder
            (JString (fst (translate_text api text language s1)))
            (snd (translate_text api text language s1)) = (Inl e, s') \<longrightarrow>
        run_translations api file_path language
          (finished @ (text, placeholder # placeholders) # units) s = (Inl e, s'))
   \<and> (process_translations api file_path language s = (Inl e, s') \<longrightarrow>
      change_home_page_content api loads render file_path language s = (Inl e, s'))
   \<and> (run_translations api file_path language footer_translations s = (Inl e, s') \<longrightarrow>
      change_footer_content api loads render file_path language s = (Inl e, s'))"
proof -
  have 1: "replace_in_file file_path placeholder v s = (Inl e, s)
      \<and> replace_in_file_product file_path placeholder v s = s
      \<and> files (process_product_translations api file_path language s) = files s"
    if "read_file file_path s = Inl e"
    using replace_in_file_unreadable [OF that] run_product_translations_unreadable [OF that]
    by (simp add: process_product_translations_def)
  have 2: "replace_in_file file_path placeholder (JString content) s = (Inl e, s')
      \<and> replace_in_file_product file_path placeholder (JString content) s =
          (if contains d placeholder then s' else s)"
    if "read_file file_path s = Inr d
        \<and> write_file file_path (str_replace d placeholder content) s = (Inl e, s')"
    using that by (simp add: replace_in_file_def replace_in_file_product_def)
  have 3: "write_file file_path t s = (Inl e, s)"
    if "files s file_path = Some f \<and> open_fault f = Some e"
    using that by (simp add: write_file_def)
  have 4: "write_file file_path t s =
        (Inl UnicodeEncodeError, s\<lparr>files := (files s)(file_path \<mapsto> f\<lparr>data := []\<rparr>)\<rparr>)"
    if "files s file_path = Some f \<and> open_fault f = None \<and> \<not> encodable t"
    using that by (simp add: write_file_def store_def)
  have 5: "write_file file_path t s =
        (Inl e, s\<lparr>files := (files s)(file_path \<mapsto> f\<lparr>data := left\<rparr>)\<rparr>)"
    if "files s file_path = Some f \<and> open_fault f = None \<and> encodable t
        \<and> write_fault f (write_newlines (linesep s) t) = Some (e, left)"
    using that by (simp add: write_file_def store_def)
  have 6: "run_translations api file_path language
          (finished @ (text, placeholder # placeholders) # units) s = (Inl e, s')"
    if "run_translations api file_path language finished s = (Inr (), s1)
        \<and> replace_in_file file_path placeholder
            (JString (fst (translate_text api text language s1)))
            (snd (translate_text api text language s1)) = (Inl e, s')"
    for finished s1
  proof -
    obtain translated s2 where tt: "translate_text api text language s1 = (translated, s2)"
      by (cases "translate_text api text language s1")
    have "replace_in_file file_path placeholder (JString translated) s2 = (Inl e, s')"
      using that unfolding tt by simp
    then have "translation_unit api file_path language (text, placeholder # placeholders) s1
        = (Inl e, s')"
      by (simp add: translation_unit_def tt)
    with that show ?thesis
      using run_translations_abort by blast
  qed
  have 7: "change_home_page_content api loads render file_path language s = (Inl e, s')"
    if "process_translations api file_path language s = (Inl e, s')"
    using that by (simp add: change_home_page_content_def)
  have 8: "change_footer_content api loads render file_path language s = (Inl e, s')"
    if "run_translations api file_path language footer_translations s = (Inl e, s')"
    using that by (simp add: change_footer_content_def)
  from 1 2 3 4 5 6 7 8 show ?thesis
    by blast
qed

text \<open>C9 (amended) at a state without the file, at a read-only page, and at a page on a
  device that takes five characters.\<close>

theorem replace_in_file_io_failure_witness:
  "read_file (lit ''page.json'') fresh_state = Inl IOError
   \<and> replace_in_file (lit ''page.json'') (lit ''NEW_TOKEN'') (JString (lit ''Bonjour'')) fresh_state =
       (Inl IOError, fresh_state)
   \<and> files (process_product_translations dead_api (lit ''page.json'') (lit ''German'') fresh_state)
       = files fresh_state
   \<and> open_fault read_only_file = Some IOError
   \<and> write_file (lit ''page.json'') (lit ''[Bonjour]'') (page_with read_only_file) =
       (Inl IOError, page_with read_only_file)
   \<and> replace_in_file (lit ''page.json'') (lit ''NEW_TOKEN'') (JString (lit ''Bonjour''))
       (page_with read_only_file) = (Inl IOError, page_with read_only_file)
   \<and> write_file (lit ''page.json'') (lit ''[Bonjour]'') (page_with small_device_file) =
       (Inl IOError, page_with (small_device_file\<lparr>data := lit ''[Bonj''\<rparr>))
   \<and> replace_in_file (lit ''page.json'') (lit ''NEW_TOKEN'') (JString (lit ''Bonjour''))
       (page_with small_device_file) =
       (Inl IOError, page_with (small_device_file\<lparr>data := lit ''[Bonj''\<rparr>))"
proof -
  note t = replace_in_file_io_failure
  have r0: "read_file (lit ''page.json'') fresh_state = Inl IOError"
    by (simp add: read_file_def fresh_state_def)
  have a: "replace_in_file (lit ''page.json'') (lit ''NEW_TOKEN'') (JString (lit ''Bonjour''))
      fresh_state = (Inl IOError, fresh_state)
      \<and> files (process_product_translations dead_api (lit ''page.json'') (lit ''German'') fresh_state)
       = files fresh_state"
    using t [of "lit ''page.json''" fresh_state IOError "lit ''NEW_TOKEN''"
        "JString (lit ''Bonjour'')" dead_api "lit ''German''"] r0
    by blast
  have o: "open_fault read_only_file = Some IOError"
    by (simp add: read_only_file_def)
  have r1: "read_file (lit ''page.json'') (page_with read_only_file) = Inr (lit ''[NEW_TOKEN]'')"
    "read_file (lit ''page.json'') (page_with small_device_file) = Inr (lit ''[NEW_TOKEN]'')"
    by (simp_all add: read_file_def page_with_def read_only_file_def small_device_file_def
        page_file_def universal_newlines_plain carriage_return_def lit_def)
  have r: "str_replace (lit ''[NEW_TOKEN]'') (lit ''NEW_TOKEN'') (lit ''Bonjour'') = lit ''[Bonjour]''"
    by (simp add: text_eval)
  have w1: "write_file (lit ''page.json'') (lit ''[Bonjour]'') (page_with read_only_file) =
       (Inl IOError, page_with read_only_file)"
    using t [of "lit ''page.json''" "page_with read_only_file" IOError _ _ _ _ _ _ _
        read_only_file "lit ''[Bonjour]''"] page_with_file [of read_only_file] o
    by blast
  have b: "replace_in_file (lit ''page.json'') (lit ''NEW_TOKEN'') (JString (lit ''Bonjour''))
       (page_with read_only_file) = (Inl IOError, page_with read_only_file)"
    using t [of "lit ''page.json''" "page_with read_only_file" IOError "lit ''NEW_TOKEN''" _ _ _
        "lit ''[NEW_TOKEN]''" "lit ''Bonjour''" "page_with read_only_file"] r1(1) w1
    unfolding r by blast
  have e: "encodable (lit ''[Bonjour]'')"
    by (simp add: encodable_def lit_def)
  have f: "write_fault small_device_file (write_newlines (linesep (page_with small_device_file))
      (lit ''[Bonjour]'')) = Some (IOError, lit ''[Bonj'')"
    by (simp add: small_device_file_def page_with_def page_state_def write_newlines_line_feed
        lit_def)
  have p: "(page_with small_device_file)\<lparr>files := (files (page_with small_device_file))
      (lit ''page.json'' \<mapsto> small_device_file\<lparr>data := lit ''[Bonj''\<rparr>)\<rparr>
      = page_with (small_device_file\<lparr>data := lit ''[Bonj''\<rparr>)"
    by (simp add: page_with_def)
  have o2: "open_fault small_device_file = None"
    by (simp add: small_device_file_def page_file_def)
  have w2: "write_file (lit ''page.json'') (lit ''[Bonjour]'') (page_with small_device_file) =
       (Inl IOError, page_with (small_device_file\<lparr>data := lit ''[Bonj''\<rparr>))"
    using t [of "lit ''page.json''" "page_with small_device_file" IOError _ _ _ _ _ _ _
        small_device_file "lit ''[Bonjour]''" "lit ''[Bonj''"]
      page_with_file [of small_device_file] o2 e f
    unfolding p by blast
  have c: "replace_in_file (lit ''page.json'') (lit ''NEW_TOKEN'') (JString (lit ''Bonjour''))
       (page_with small_device_file) =
       (Inl IOError, page_with (small_device_file\<lparr>data := lit ''[Bonj''\<rparr>))"
    using t [of "lit ''page.json''" "page_with small_device_file" IOError "lit ''NEW_TOKEN''" _ _ _
        "lit ''[NEW_TOKEN]''" "lit ''Bonjour''"
        "page_with (small_device_file\<lparr>data := lit ''[Bonj''\<rparr>)"] r1(2) w2
    unfolding r by blast
  show ?thesis
    using r0 a o w1 b w2 c by blast
qed

text \<open>
  C9 as stated fails on the product path: without the file, \<^verbatim>\<open>replace_in_file\<close> of the
  product script returns normally, and a translation loop over two units sends both
  requests and ends; on a device that takes five characters it returns normally, too, with
  the file cut short.
\<close>

theorem product_replace_in_file_swallows_io_error:
  "read_file (lit ''page.json'') fresh_state = Inl IOError
   \<and> replace_in_file_product (lit ''page.json'') (lit ''NEW_TOKEN'') (JString (lit ''Bonjour''))
       fresh_state = fresh_state
   \<and> run_product_translations dead_api (lit ''page.json'') (lit ''German'')
       [(lit ''Shop'', lit ''NEW_TOKEN''), (lit ''FAQs'', lit ''NEW_OTHER'')] fresh_state =
     fresh_state\<lparr>requests :=
       [translate_request (translate_prompt (lit ''Shop'') (lit ''German'')),
        translate_request (translate_prompt (lit ''FAQs'') (lit ''German''))]\<rparr>
   \<and> replace_in_file_product (lit ''page.json'') (lit ''NEW_TOKEN'') (JString (lit ''Bonjour''))
       (page_with small_device_file) = page_with (small_device_file\<lparr>data := lit ''[Bonj''\<rparr>)"
proof -
  have 1: "read_file (lit ''page.json'') fresh_state = Inl IOError
   \<and> replace_in_file_product (lit ''page.json'') (lit ''NEW_TOKEN'') (JString (lit ''Bonjour''))
       fresh_state = fresh_state
   \<and> run_product_translations dead_api (lit ''page.json'') (lit ''German'')
       [(lit ''Shop'', lit ''NEW_TOKEN''), (lit ''FAQs'', lit ''NEW_OTHER'')] fresh_state =
     fresh_state\<lparr>requests :=
       [translate_request (translate_prompt (lit ''Shop'') (lit ''German'')),
        translate_request (translate_prompt (lit ''FAQs'') (lit ''German''))]\<rparr>"
    by (simp add: read_file_def replace_in_file_product_def run_product_translations_def
        translate_text_eq dead_api_def fresh_state_def)
  have 2: "replace_in_file_product (lit ''page.json'') (lit ''NEW_TOKEN'') (JString (lit ''Bonjour''))
       (page_with small_device_file) = page_with (small_device_file\<lparr>data := lit ''[Bonj''\<rparr>)"
    by (simp add: replace_in_file_product_def read_file_def write_file_def store_def page_with_def
        page_state_def small_device_file_def page_file_def write_newlines_line_feed encodable_def
        carriage_return_def text_eval)
  show ?thesis
    using 1 2 by blast
qed

text \<open>
  C4. In a unit group of the product page whose generation returned \<open>result\<close> and whose
  sanitized result does not parse: the recovery step is called once under the group's
  context label and its text parsed; if that parses, the fields are substituted from it;
  otherwise the recovery step is called a second time, under the retry label, and its text
  parsed; if neither parses, the group raises its final exception, with the file as it was
  before the group, and a run that completed the groups before it ends with that exception
  and that file, the later groups not run. Each recovery is one request. In the six groups
  of \<^verbatim>\<open>process_product_generated_content\<close> the retry label is the context label followed by
  \<^verbatim>\<open>_retry\<close>.
\<close>

theorem product_unit_group_two_strikes:
  assumes "generate_group api g (render (ug_prompt g)) s = (Inr result, s1)"
    and "loads (clean_json_response_product result) = None"
    and "fix_json_with_gpt_product api result (ug_context g) (Some (ug_keys g)) s1 = (fixed1, s2)"
    and "fix_json_with_gpt_product api result (ug_retry_context g) (Some (ug_keys g)) s2 = (fixed2, s3)"
  shows "(\<forall>v. loads fixed1 = Some v \<longrightarrow>
            process_unit_group api loads render file_path g s =
              replace_fields_product file_path v (ug_fields g) s2)
         \<and> (\<forall>v. loads fixed1 = None \<and> loads fixed2 = Some v \<longrightarrow>
            process_unit_group api loads render file_path g s =
              replace_fields_product file_path v (ug_fields g) s3)
         \<and> (loads fixed1 = None \<and> loads fixed2 = None \<longrightarrow>
            process_unit_group api loads render file_path g s = (Inl (Failed (ug_message g)), s3)
            \<and> files s3 = files s
            \<and> (\<forall>finished rest s0.
                  process_unit_groups api loads render file_path finished s0 = (Inr (), s) \<longrightarrow>
                  process_unit_groups api loads render file_path (finished @ g # rest) s0 =
                    (Inl (Failed (ug_message g)), s3)))
         \<and> length (requests s2) = Suc (length (requests s1))
         \<and> length (requests s3) = Suc (length (requests s2))
         \<and> (\<forall>g \<in> set product_unit_groups. ug_retry_context g = ug_context g @ lit ''_retry'')"
proof -
  have 1: "\<forall>v. loads fixed1 = Some v \<longrightarrow>
            process_unit_group api loads render file_path g s =
              replace_fields_product file_path v (ug_fields g) s2"
    using assms(1-3) by (simp add: process_unit_group_def parse_or_fix_twice_def)
  have 2: "\<forall>v. loads fixed1 = None \<and> loads fixed2 = Some v \<longrightarrow>
            process_unit_group api loads render file_path g s =
              replace_fields_product file_path v (ug_fields g) s3"
    using assms by (simp add: process_unit_group_def parse_or_fix_twice_def)
  have fail: "process_unit_group api loads render file_path g s = (Inl (Failed (ug_message g)), s3)"
    if "loads fixed1 = None \<and> loads fixed2 = None"
    using assms that by (simp add: process_unit_group_def parse_or_fix_twice_def)
  have files: "files s3 = files s"
    using generate_group_files [OF assms(1)] fix_json_with_gpt_product_effect(1) [OF assms(3)]
      fix_json_with_gpt_product_effect(1) [OF assms(4)]
    by simp
  have run: "process_unit_groups api loads render file_path (finished @ g # rest) s0 =
               (Inl (Failed (ug_message g)), s3)"
    if "loads fixed1 = None \<and> loads fixed2 = None"
      and "process_unit_groups api loads render file_path finished s0 = (Inr (), s)"
    for finished rest s0
    using that(2) fail [OF that(1)] by (simp add: process_unit_groups_append)
  show ?thesis
    using 1 2 fail files run fix_json_with_gpt_product_effect(3) [OF assms(3)]
      fix_json_with_gpt_product_effect(3) [OF assms(4)] product_retry_labels
    by blast
qed

text \<open>C4 at the button-texts group, with a parser that rejects every text.\<close>

theorem product_unit_group_two_strikes_witness:
  "\<exists>s3. process_unit_group markup_api (\<lambda>t. None) (\<lambda>name. lit ''Write'') (lit ''page.json'')
           button_texts page_state =
          (Inl (Failed (lit ''Failed to generate valid button texts JSON after retries.'')), s3)
        \<and> files s3 = files page_state"
proof -
  let ?s1 = "after_attempts page_state (lit ''Write'') (client_request (lit ''Write'') 300) (Suc 0)"
  have h1: "generate_group markup_api button_texts ((\<lambda>name. lit ''Write'') (ug_prompt button_texts))
      page_state = (Inr (lit ''Hello''), ?s1)"
    by (simp add: generate_button_texts)
  have h2: "(\<lambda>t. None :: json option) (clean_json_response_product (lit ''Hello'')) = None"
    by simp
  obtain fixed1 s2 where h3: "fix_json_with_gpt_product markup_api (lit ''Hello'')
      (ug_context button_texts) (Some (ug_keys button_texts)) ?s1 = (fixed1, s2)"
    by (cases "fix_json_with_gpt_product markup_api (lit ''Hello'')
      (ug_context button_texts) (Some (ug_keys button_texts)) ?s1")
  obtain fixed2 s3 where h4: "fix_json_with_gpt_product markup_api (lit ''Hello'')
      (ug_retry_context button_texts) (Some (ug_keys button_texts)) s2 = (fixed2, s3)"
    by (cases "fix_json_with_gpt_product markup_api (lit ''Hello'')
      (ug_retry_context button_texts) (Some (ug_keys button_texts)) s2")
  have m: "ug_message button_texts = lit ''Failed to generate valid button texts JSON after retries.''"
    by (simp add: button_texts_def)
  from product_unit_group_two_strikes [OF h1 h2 h3 h4, of "lit ''page.json''"]
  have "process_unit_group markup_api (\<lambda>t. None) (\<lambda>name. lit ''Write'') (lit ''page.json'')
           button_texts page_state = (Inl (Failed (ug_message button_texts)), s3)
        \<and> files s3 = files page_state"
    by simp
  then show ?thesis
    unfolding m by blast
qed

end
